theory Spec2Isabelle
  imports Main
begin

section \<open>Text\<close>

text \<open>
  The router of \<^verbatim>\<open>backend/src/agent/router.ts\<close> works on JavaScript strings. A string is
  modelled as a \<^typ>\<open>string\<close> holding its UTF-8 encoding: an ASCII character is one
  \<^typ>\<open>char\<close>, any other character a sequence of two to four \<^typ>\<open>char\<close>s of code 128 or
  more. Comparison, \<^verbatim>\<open>includes\<close> and \<^verbatim>\<open>startsWith\<close> are the same on the encoding as on the
  characters. The regular-expression classes \<^verbatim>\<open>\d\<close>, \<^verbatim>\<open>\w\<close> and \<^verbatim>\<open>\b\<close> hold ASCII
  characters only, and the \<^verbatim>\<open>i\<close> flag (without the \<^verbatim>\<open>u\<close> flag) never equates an ASCII
  character with another one, so they see the bytes of other characters as non-members.
\<close>

definition charCode :: "char \<Rightarrow> nat" where
  "charCode c = of_char c"

definition isAscii :: "char \<Rightarrow> bool" where
  "isAscii c = (charCode c < 128)"

definition ascii :: "string \<Rightarrow> bool" where
  "ascii s = list_all isAscii s"

definition isUpper :: "char \<Rightarrow> bool" where
  "isUpper c = (65 \<le> charCode c \<and> charCode c \<le> 90)"

definition isLower :: "char \<Rightarrow> bool" where
  "isLower c = (97 \<le> charCode c \<and> charCode c \<le> 122)"

definition isDigit :: "char \<Rightarrow> bool" where
  "isDigit c = (48 \<le> charCode c \<and> charCode c \<le> 57)"

text \<open>\<^verbatim>\<open>\w\<close> is \<^verbatim>\<open>[A-Za-z0-9_]\<close>. The ASCII white space is tab, line feed, vertical tab,
  form feed, carriage return and space.\<close>

definition isWordChar :: "char \<Rightarrow> bool" where
  "isWordChar c = (isUpper c \<or> isLower c \<or> isDigit c \<or> c = CHR ''_'')"

definition isSpace :: "char \<Rightarrow> bool" where
  "isSpace c = (charCode c = 32 \<or> (9 \<le> charCode c \<and> charCode c \<le> 13))"

definition toLowerChar :: "char \<Rightarrow> char" where
  "toLowerChar c = (if isUpper c then char_of (charCode c + 32) else c)"

definition toUpperChar :: "char \<Rightarrow> char" where
  "toUpperChar c = (if isLower c then char_of (charCode c - 32) else c)"

subsection \<open>Case mapping\<close>

text \<open>
  \<^verbatim>\<open>toUpperCase\<close> maps a few characters outside ASCII to text that holds ASCII letters:
  U+00DF to SS, U+0131 to I, U+0149 to U+02BC N, U+017F to S, U+01F0 to J U+030C, U+1E96 to
  U+1E9A to H, T, W, Y, A with a combining mark, and the ligatures U+FB00 to U+FB06 to FF,
  FI, FL, FFI, FFL, ST, ST. \<^verbatim>\<open>toLowerCase\<close> maps U+212A to k and U+0130 to
  i U+0307. Every other character outside ASCII is mapped to characters outside ASCII;
  the model leaves its bytes as they are, which no pattern of the router tells apart.
\<close>

definition upper2 :: "char \<Rightarrow> char \<Rightarrow> string" where
  "upper2 a b =
     (if a = CHR 0xC3 \<and> b = CHR 0x9F then ''SS''
      else if a = CHR 0xC4 \<and> b = CHR 0xB1 then ''I''
      else if a = CHR 0xC5 \<and> b = CHR 0x89 then [CHR 0xCA, CHR 0xBC] @ ''N''
      else if a = CHR 0xC5 \<and> b = CHR 0xBF then ''S''
      else if a = CHR 0xC7 \<and> b = CHR 0xB0 then ''J'' @ [CHR 0xCC, CHR 0x8C]
      else [])"

definition upper3 :: "char \<Rightarrow> char \<Rightarrow> char \<Rightarrow> string" where
  "upper3 a b c =
     (if a = CHR 0xE1 \<and> b = CHR 0xBA then
        (if c = CHR 0x96 then ''H'' @ [CHR 0xCC, CHR 0xB1]
         else if c = CHR 0x97 then ''T'' @ [CHR 0xCC, CHR 0x88]
         else if c = CHR 0x98 then ''W'' @ [CHR 0xCC, CHR 0x8A]
         else if c = CHR 0x99 then ''Y'' @ [CHR 0xCC, CHR 0x8A]
         else if c = CHR 0x9A then ''A'' @ [CHR 0xCA, CHR 0xBE]
         else [])
      else if a = CHR 0xEF \<and> b = CHR 0xAC then
        (if c = CHR 0x80 then ''FF''
         else if c = CHR 0x81 then ''FI''
         else if c = CHR 0x82 then ''FL''
         else if c = CHR 0x83 then ''FFI''
         else if c = CHR 0x84 then ''FFL''
         else if c = CHR 0x85 then ''ST''
         else if c = CHR 0x86 then ''ST''
         else [])
      else [])"

fun toUpperCase :: "string \<Rightarrow> string" where
  "toUpperCase [] = []"
| "toUpperCase [a] = [toUpperChar a]"
| "toUpperCase [a, b] =
     (if isAscii a then toUpperChar a # toUpperCase [b]
      else if upper2 a b \<noteq> [] then upper2 a b
      else a # toUpperCase [b])"
| "toUpperCase (a # b # c # s) =
     (if isAscii a then toUpperChar a # toUpperCase (b # c # s)
      else if upper2 a b \<noteq> [] then upper2 a b @ toUpperCase (c # s)
      else if upper3 a b c \<noteq> [] then upper3 a b c @ toUpperCase s
      else a # toUpperCase (b # c # s))"

declare toUpperCase.simps [simp del]

definition lower2 :: "char \<Rightarrow> char \<Rightarrow> string" where
  "lower2 a b = (if a = CHR 0xC4 \<and> b = CHR 0xB0 then ''i'' @ [CHR 0xCC, CHR 0x87] else [])"

definition lower3 :: "char \<Rightarrow> char \<Rightarrow> char \<Rightarrow> string" where
  "lower3 a b c = (if a = CHR 0xE2 \<and> b = CHR 0x84 \<and> c = CHR 0xAA then ''k'' else [])"

fun toLowerCase :: "string \<Rightarrow> string" where
  "toLowerCase [] = []"
| "toLowerCase [a] = [toLowerChar a]"
| "toLowerCase [a, b] =
     (if isAscii a then toLowerChar a # toLowerCase [b]
      else if lower2 a b \<noteq> [] then lower2 a b
      else a # toLowerCase [b])"
| "toLowerCase (a # b # c # s) =
     (if isAscii a then toLowerChar a # toLowerCase (b # c # s)
      else if lower2 a b \<noteq> [] then lower2 a b @ toLowerCase (c # s)
      else if lower3 a b c \<noteq> [] then lower3 a b c @ toLowerCase s
      else a # toLowerCase (b # c # s))"

declare toLowerCase.simps [simp del]

subsection \<open>White space\<close>

text \<open>
  \<^verbatim>\<open>trim\<close> and the class \<^verbatim>\<open>\s\<close> take as white space the ASCII white space and U+00A0,
  U+1680, U+2000 to U+200A, U+2028, U+2029, U+202F, U+205F, U+3000 and U+FEFF.
  \<open>spaceLen\<close> is the number of bytes of the white-space character at the head of a text
  (0 when there is none), \<open>spaceLenRev\<close> the same at the head of a reversed text.
\<close>

definition space2 :: "char \<Rightarrow> char \<Rightarrow> bool" where
  "space2 a b = (a = CHR 0xC2 \<and> b = CHR 0xA0)"

definition space3 :: "char \<Rightarrow> char \<Rightarrow> char \<Rightarrow> bool" where
  "space3 a b c =
     ((a = CHR 0xE1 \<and> b = CHR 0x9A \<and> c = CHR 0x80)
      \<or> (a = CHR 0xE2 \<and> b = CHR 0x80
          \<and> ((128 \<le> charCode c \<and> charCode c \<le> 138) \<or> c = CHR 0xA8 \<or> c = CHR 0xA9 \<or> c = CHR 0xAF))
      \<or> (a = CHR 0xE2 \<and> b = CHR 0x81 \<and> c = CHR 0x9F)
      \<or> (a = CHR 0xE3 \<and> b = CHR 0x80 \<and> c = CHR 0x80)
      \<or> (a = CHR 0xEF \<and> b = CHR 0xBB \<and> c = CHR 0xBF))"

fun spaceLen :: "string \<Rightarrow> nat" where
  "spaceLen [] = 0"
| "spaceLen [a] = (if isAscii a \<and> isSpace a then 1 else 0)"
| "spaceLen [a, b] = (if isAscii a then (if isSpace a then 1 else 0) else if space2 a b then 2 else 0)"
| "spaceLen (a # b # c # s) =
     (if isAscii a then (if isSpace a then 1 else 0)
      else if space2 a b then 2 else if space3 a b c then 3 else 0)"

fun spaceLenRev :: "string \<Rightarrow> nat" where
  "spaceLenRev [] = 0"
| "spaceLenRev [c] = (if isAscii c \<and> isSpace c then 1 else 0)"
| "spaceLenRev [c, b] = (if isAscii c then (if isSpace c then 1 else 0) else if space2 b c then 2 else 0)"
| "spaceLenRev (c # b # a # s) =
     (if isAscii c then (if isSpace c then 1 else 0)
      else if space2 b c then 2 else if space3 a b c then 3 else 0)"

declare spaceLen.simps [simp del] spaceLenRev.simps [simp del]

function trimStart :: "string \<Rightarrow> string" where
  "trimStart s = (if spaceLen s = 0 then s else trimStart (drop (spaceLen s) s))"
  by pat_completeness auto
termination
proof (relation "measure length")
  fix s :: string
  assume a: "spaceLen s \<noteq> 0"
  then have "s \<noteq> []" by (cases s) (simp_all add: spaceLen.simps(1) spaceLenRev.simps(1))
  with a show "(drop (spaceLen s) s, s) \<in> measure length"
    by simp
qed simp

function trimStartRev :: "string \<Rightarrow> string" where
  "trimStartRev s = (if spaceLenRev s = 0 then s else trimStartRev (drop (spaceLenRev s) s))"
  by pat_completeness auto
termination
proof (relation "measure length")
  fix s :: string
  assume a: "spaceLenRev s \<noteq> 0"
  then have "s \<noteq> []" by (cases s) (simp_all add: spaceLen.simps(1) spaceLenRev.simps(1))
  with a show "(drop (spaceLenRev s) s, s) \<in> measure length"
    by simp
qed simp

declare trimStart.simps [simp del] trimStartRev.simps [simp del]

definition trim :: "string \<Rightarrow> string" where
  "trim s = rev (trimStartRev (rev (trimStart s)))"

text \<open>\<^verbatim>\<open>s.length\<close> and \<^verbatim>\<open>s.slice(0, n)\<close> count UTF-16 code units: one for a character of
  up to three bytes, two for a character of four bytes. \<open>jsSlice0\<close> keeps whole
  characters (where the source would cut a character of four bytes in two, it keeps
  neither half).\<close>

definition isCont :: "char \<Rightarrow> bool" where
  "isCont c = (128 \<le> charCode c \<and> charCode c < 192)"

definition jsLength :: "string \<Rightarrow> nat" where
  "jsLength s = length (filter (\<lambda>c. \<not> isCont c) s) + length (filter (\<lambda>c. 240 \<le> charCode c) s)"

function jsSlice0 :: "nat \<Rightarrow> string \<Rightarrow> string" where
  "jsSlice0 n [] = []"
| "jsSlice0 n (a # s) =
     (let w = (if 240 \<le> charCode a then 2 else 1)
      in if n < w then []
         else a # takeWhile isCont s @ jsSlice0 (n - w) (dropWhile isCont s))"
  by pat_completeness auto
termination
  by (relation "measure (\<lambda>(n, s). length s)") (auto simp add: length_dropWhile_le less_Suc_eq_le)

declare jsSlice0.simps [simp del]

fun startsWith :: "string \<Rightarrow> string \<Rightarrow> bool" where
  "startsWith s [] = True"
| "startsWith [] (p # ps) = False"
| "startsWith (c # cs) (p # ps) = (c = p \<and> startsWith cs ps)"

text \<open>\<^verbatim>\<open>s.includes(p)\<close>.\<close>

fun str_includes :: "string \<Rightarrow> string \<Rightarrow> bool" where
  "str_includes [] p = (p = [])"
| "str_includes (c # cs) p = (startsWith (c # cs) p \<or> str_includes cs p)"

text \<open>\<^verbatim>\<open>s.split(sep)[0]\<close> for a one-character separator.\<close>

definition splitHead :: "char \<Rightarrow> string \<Rightarrow> string" where
  "splitHead sep s = takeWhile (\<lambda>c. c \<noteq> sep) s"

section \<open>Regular expressions\<close>

text \<open>
  A regular expression is a backtracking matcher: from a state (the character before the
  current position, the rest of the input, the groups captured so far) it returns the
  states after every way of matching, in the order in which the JavaScript engine tries
  them (greedy quantifiers try the longest repetition first, alternatives left to right).
  The first state of the list at the leftmost position that has one is the match.
\<close>

type_synonym mstate = "char option \<times> string \<times> string list"
type_synonym rx = "mstate \<Rightarrow> mstate list"

definition rx_eps :: rx where
  "rx_eps = (\<lambda>st. [st])"

definition rx_char :: "(char \<Rightarrow> bool) \<Rightarrow> rx" where
  "rx_char P = (\<lambda>(p, s, caps). case s of [] \<Rightarrow> [] | c # cs \<Rightarrow> if P c then [(Some c, cs, caps)] else [])"

definition rx_seq :: "rx \<Rightarrow> rx \<Rightarrow> rx" where
  "rx_seq a b = (\<lambda>st. concat (map b (a st)))"

definition rx_alt :: "rx \<Rightarrow> rx \<Rightarrow> rx" where
  "rx_alt a b = (\<lambda>st. a st @ b st)"

definition rx_opt :: "rx \<Rightarrow> rx" where
  "rx_opt a = (\<lambda>st. a st @ [st])"

fun rx_seqs :: "rx list \<Rightarrow> rx" where
  "rx_seqs [] = rx_eps"
| "rx_seqs (a # as) = rx_seq a (rx_seqs as)"

fun rx_alts :: "rx list \<Rightarrow> rx" where
  "rx_alts [] = (\<lambda>st. [])"
| "rx_alts (a # as) = rx_alt a (rx_alts as)"

text \<open>A literal; under the \<^verbatim>\<open>i\<close> flag characters are compared after upper-casing.\<close>

definition rx_lit :: "string \<Rightarrow> rx" where
  "rx_lit w = rx_seqs (map (\<lambda>x. rx_char (\<lambda>c. c = x)) w)"

definition rx_lit_ci :: "string \<Rightarrow> rx" where
  "rx_lit_ci w = rx_seqs (map (\<lambda>x. rx_char (\<lambda>c. toUpperChar c = toUpperChar x)) w)"

text \<open>\<^verbatim>\<open>[class]{lo,hi}\<close> (no upper bound when \<open>hi\<close> is \<open>None\<close>): the run of class characters
  ahead is consumed as far as allowed, then given back one character at a time.\<close>

definition advance :: "nat \<Rightarrow> mstate \<Rightarrow> mstate" where
  "advance k = (\<lambda>(p, s, caps). (if k = 0 then p else Some (s ! (k - 1)), drop k s, caps))"

definition rx_rep :: "(char \<Rightarrow> bool) \<Rightarrow> nat \<Rightarrow> nat option \<Rightarrow> rx" where
  "rx_rep P lo hi = (\<lambda>(p, s, caps).
     let run = length (takeWhile P s);
         mx = (case hi of None \<Rightarrow> run | Some h \<Rightarrow> min run h)
     in map (\<lambda>k. advance k (p, s, caps)) (rev [lo ..< Suc mx]))"

text \<open>\<^verbatim>\<open>\s{lo,}\<close>: the run of white-space characters ahead, given back one character at a
  time. \<open>spaceEnds k s\<close> lists the offsets, counted from \<open>k\<close>, at which the white-space
  characters at the head of \<open>s\<close> end.\<close>

function spaceEnds :: "nat \<Rightarrow> string \<Rightarrow> nat list" where
  "spaceEnds k s =
     (if spaceLen s = 0 then []
      else (k + spaceLen s) # spaceEnds (k + spaceLen s) (drop (spaceLen s) s))"
  by pat_completeness auto
termination
proof (relation "measure (\<lambda>(k, s). length s)")
  fix s :: string and k :: nat
  assume a: "spaceLen s \<noteq> 0"
  then have "s \<noteq> []" by (cases s) (simp_all add: spaceLen.simps(1) spaceLenRev.simps(1))
  with a show "((k + spaceLen s, drop (spaceLen s) s), (k, s)) \<in> measure (\<lambda>(k, s). length s)"
    by simp
qed simp

declare spaceEnds.simps [simp del]

definition rx_spaces :: "nat \<Rightarrow> rx" where
  "rx_spaces lo = (\<lambda>(p, s, caps). map (\<lambda>k. advance k (p, s, caps)) (rev (drop lo (0 # spaceEnds 0 s))))"

text \<open>\<^verbatim>\<open>\b\<close>, \<^verbatim>\<open>^\<close> and \<^verbatim>\<open>$\<close> (no \<^verbatim>\<open>m\<close> flag).\<close>

definition isWordOpt :: "char option \<Rightarrow> bool" where
  "isWordOpt p = (case p of None \<Rightarrow> False | Some c \<Rightarrow> isWordChar c)"

definition nextChar :: "string \<Rightarrow> char option" where
  "nextChar s = (case s of [] \<Rightarrow> None | c # _ \<Rightarrow> Some c)"

definition rx_wordb :: rx where
  "rx_wordb = (\<lambda>(p, s, caps). if isWordOpt p \<noteq> isWordOpt (nextChar s) then [(p, s, caps)] else [])"

definition rx_bol :: rx where
  "rx_bol = (\<lambda>(p, s, caps). if p = None then [(p, s, caps)] else [])"

definition rx_eol :: rx where
  "rx_eol = (\<lambda>(p, s, caps). if s = [] then [(p, s, caps)] else [])"

text \<open>A capturing group records the text it consumed.\<close>

definition rx_grp :: "rx \<Rightarrow> rx" where
  "rx_grp a = (\<lambda>(p, s, caps).
     map (\<lambda>(p', s', caps'). (p', s', caps' @ [take (length s - length s') s])) (a (p, s, caps)))"

record rmatch =
  matched :: string
  groups :: "string list"

text \<open>\<^verbatim>\<open>text.match(re)\<close> without the \<^verbatim>\<open>g\<close> flag, and \<^verbatim>\<open>re.test(text)\<close>: the leftmost match.\<close>

fun rx_search :: "rx \<Rightarrow> char option \<Rightarrow> string \<Rightarrow> rmatch option" where
  "rx_search r p [] =
     (case r (p, [], []) of [] \<Rightarrow> None
      | (p', s', caps) # _ \<Rightarrow> Some \<lparr>matched = [], groups = caps\<rparr>)"
| "rx_search r p (c # cs) =
     (case r (p, c # cs, []) of [] \<Rightarrow> rx_search r (Some c) cs
      | (p', s', caps) # _ \<Rightarrow>
          Some \<lparr>matched = take (length (c # cs) - length s') (c # cs), groups = caps\<rparr>)"

definition rx_match :: "rx \<Rightarrow> string \<Rightarrow> rmatch option" where
  "rx_match r s = rx_search r None s"

definition rx_test :: "rx \<Rightarrow> string \<Rightarrow> bool" where
  "rx_test r s = (rx_match r s \<noteq> None)"

text \<open>\<^verbatim>\<open>text.match(re)\<close> with the \<^verbatim>\<open>g\<close> flag: all matches, each search starting where the
  previous match ended (one character further after an empty match). \<open>skip\<close> counts the
  characters of the previous match still to be passed over.\<close>

fun rx_matchAll :: "rx \<Rightarrow> nat \<Rightarrow> char option \<Rightarrow> string \<Rightarrow> string list" where
  "rx_matchAll r skip p [] = (if skip = 0 \<and> r (p, [], []) \<noteq> [] then [[]] else [])"
| "rx_matchAll r skip p (c # cs) =
     (if skip > 0 then rx_matchAll r (skip - 1) (Some c) cs
      else case r (p, c # cs, []) of [] \<Rightarrow> rx_matchAll r 0 (Some c) cs
        | (p', s', caps) # _ \<Rightarrow>
            (let n = length (c # cs) - length s'
             in take n (c # cs) # rx_matchAll r (n - 1) (Some c) cs))"

text \<open>\<^verbatim>\<open>text.replace(re, rep)\<close> with the \<^verbatim>\<open>g\<close> flag.\<close>

fun rx_replace :: "rx \<Rightarrow> string \<Rightarrow> nat \<Rightarrow> char option \<Rightarrow> string \<Rightarrow> string" where
  "rx_replace r rep skip p [] = (if skip = 0 \<and> r (p, [], []) \<noteq> [] then rep else [])"
| "rx_replace r rep skip p (c # cs) =
     (if skip > 0 then rx_replace r rep (skip - 1) (Some c) cs
      else case r (p, c # cs, []) of [] \<Rightarrow> c # rx_replace r rep 0 (Some c) cs
        | (p', s', caps) # _ \<Rightarrow>
            (let n = length (c # cs) - length s'
             in if n = 0 then rep @ c # rx_replace r rep 0 (Some c) cs
                else rep @ rx_replace r rep (n - 1) (Some c) cs))"

definition replaceAll :: "rx \<Rightarrow> string \<Rightarrow> string \<Rightarrow> string" where
  "replaceAll r rep s = rx_replace r rep 0 None s"

definition matchAll :: "rx \<Rightarrow> string \<Rightarrow> string list" where
  "matchAll r s = rx_matchAll r 0 None s"

section \<open>Basic utilities\<close>

text \<open>\<^verbatim>\<open>norm\<close>: trim, lower-case, collapse \<^verbatim>\<open>/\s+/g\<close> to one space.
  \<^verbatim>\<open>onlyLetters\<close>: lower-case and delete \<^verbatim>\<open>/[^a-z]/g\<close>.\<close>

definition norm :: "string \<Rightarrow> string" where
  "norm s = replaceAll (rx_spaces 1) '' '' (toLowerCase (trim s))"

definition onlyLetters :: "string \<Rightarrow> string" where
  "onlyLetters s = replaceAll (rx_char (\<lambda>c. \<not> isLower c)) [] (toLowerCase s)"

section \<open>Entity extraction\<close>

definition isAlnum :: "char \<Rightarrow> bool" where
  "isAlnum c = (isUpper c \<or> isLower c \<or> isDigit c)"

definition isUpperAlnum :: "char \<Rightarrow> bool" where
  "isUpperAlnum c = (isUpper c \<or> isDigit c)"

text \<open>\<^verbatim>\<open>EMAIL_RE = /[A-Z0-9._%+-]+@[A-Z0-9.-]+\.[A-Z]{2,}/gi\<close>\<close>

definition EMAIL_RE :: rx where
  "EMAIL_RE = rx_seqs
     [rx_rep (\<lambda>c. isAlnum c \<or> c \<in> set ''._%+-'') 1 None,
      rx_lit ''@'',
      rx_rep (\<lambda>c. isAlnum c \<or> c \<in> set ''.-'') 1 None,
      rx_lit ''.'',
      rx_rep (\<lambda>c. isUpper c \<or> isLower c) 2 None]"

text \<open>\<^verbatim>\<open>PS_IN_URL_RE = /(PS\d{5,10})/i\<close>\<close>

definition PS_IN_URL_RE :: rx where
  "PS_IN_URL_RE = rx_grp (rx_seqs [rx_lit_ci ''PS'', rx_rep isDigit 5 (Some 10)])"

text \<open>\<^verbatim>\<open>MODEL_TOKEN_RE = /\b[A-Z0-9][A-Z0-9_-]{4,23}\b/g\<close>\<close>

definition MODEL_TOKEN_RE :: rx where
  "MODEL_TOKEN_RE = rx_seqs
     [rx_wordb, rx_char isUpperAlnum,
      rx_rep (\<lambda>c. isUpperAlnum c \<or> c \<in> set ''_-'') 4 (Some 23), rx_wordb]"

definition extractEmail :: "string \<Rightarrow> string option" where
  "extractEmail text = map_option matched (rx_match EMAIL_RE text)"

definition stripEmails :: "string \<Rightarrow> string" where
  "stripEmails text = replaceAll EMAIL_RE '' '' text"

text \<open>\<^verbatim>\<open>/\bPS\d{5,10}\b/\<close> and \<^verbatim>\<open>/\bPS\d{1,4}\b/\<close>, on the upper-cased text.\<close>

definition PS_FULL_RE :: rx where
  "PS_FULL_RE = rx_seqs [rx_wordb, rx_lit ''PS'', rx_rep isDigit 5 (Some 10), rx_wordb]"

definition PS_SHORT_RE :: rx where
  "PS_SHORT_RE = rx_seqs [rx_wordb, rx_lit ''PS'', rx_rep isDigit 1 (Some 4), rx_wordb]"

definition extractPartNumber :: "string \<Rightarrow> string option" where
  "extractPartNumber text = map_option matched (rx_match PS_FULL_RE (toUpperCase text))"

definition extractShortPartToken :: "string \<Rightarrow> string option" where
  "extractShortPartToken text = map_option matched (rx_match PS_SHORT_RE (toUpperCase text))"

definition extractPartNumberFromLinkOrText :: "string \<Rightarrow> string option" where
  "extractPartNumberFromLinkOrText text =
     (case extractPartNumber text of
        Some direct \<Rightarrow> Some direct
      | None \<Rightarrow>
          (case rx_match PS_IN_URL_RE text of
             None \<Rightarrow> None
           | Some m \<Rightarrow> (case groups m of [] \<Rightarrow> None | g # _ \<Rightarrow> Some (toUpperCase g))))"

definition looksLikeUrl :: "string \<Rightarrow> bool" where
  "looksLikeUrl text =
     (let t = toLowerCase text
      in str_includes t ''http://'' \<or> str_includes t ''https://'' \<or> str_includes t ''www.''
         \<or> str_includes t ''.com/'' \<or> str_includes t ''.net/'')"

text \<open>\<^verbatim>\<open>looksLikeRealModelToken\<close>; the tests are \<^verbatim>\<open>/[A-Z]/\<close>, \<^verbatim>\<open>/\d/\<close> and \<^verbatim>\<open>/^\d{8,}$/\<close>.\<close>

definition looksLikeRealModelToken :: "string \<Rightarrow> bool" where
  "looksLikeRealModelToken x =
     (if x = [] then False
      else if x \<in> set [''NUMBER'', ''MODEL'', ''UNKNOWN'', ''N/A'', ''NULL'', ''NONE'', ''HELLO'', ''THANKS'']
        then False
      else if length x < 5 then False
      else if \<not> rx_test (rx_char isUpper) x \<or> \<not> rx_test (rx_char isDigit) x then False
      else if startsWith x ''PS'' then False
      else if rx_test (rx_seqs [rx_bol, rx_rep isDigit 8 None, rx_eol]) x then False
      else True)"

text \<open>\<^verbatim>\<open>/\bMODEL\s*(NUMBER)?\s*(IS|:)?\s*([A-Z0-9][A-Z0-9_-]{2,24})\b/\<close>. Only the third
  group is read, so it is the only one recorded.\<close>

definition MODEL_PHRASE_RE :: rx where
  "MODEL_PHRASE_RE = rx_seqs
     [rx_wordb, rx_lit ''MODEL'', rx_spaces 0,
      rx_opt (rx_lit ''NUMBER''), rx_spaces 0,
      rx_opt (rx_alt (rx_lit ''IS'') (rx_lit '':'')), rx_spaces 0,
      rx_grp (rx_seqs [rx_char isUpperAlnum,
                       rx_rep (\<lambda>c. isUpperAlnum c \<or> c \<in> set ''_-'') 2 (Some 24)]),
      rx_wordb]"

definition chunk :: "string \<Rightarrow> string" where
  "chunk raw = splitHead (CHR 0x5C) (splitHead CHR ''/'' raw)"

definition isNoiseToken :: "string \<Rightarrow> bool" where
  "isNoiseToken token =
     (token = ''DRAIN'' \<or> token = ''INSTALL'' \<or> token = ''REFUND'' \<or> token = ''RETURN'')"

fun scanCandidates :: "string list \<Rightarrow> string option" where
  "scanCandidates [] = None"
| "scanCandidates (raw # cands) =
     (let token = chunk raw
      in if \<not> looksLikeRealModelToken token then scanCandidates cands
         else if isNoiseToken token then scanCandidates cands
         else Some token)"

definition extractModelNumber :: "string \<Rightarrow> string option" where
  "extractModelNumber text =
     (let scrubbed = stripEmails text;
          up = toUpperCase scrubbed;
          phrase = (case rx_match MODEL_PHRASE_RE up of
                      None \<Rightarrow> None
                    | Some m \<Rightarrow>
                        (case groups m of [] \<Rightarrow> None
                         | g # _ \<Rightarrow>
                             (let token = chunk g
                              in if g \<noteq> [] \<and> \<not> startsWith token ''PS'' \<and> looksLikeRealModelToken token
                                 then Some token else None)))
      in case phrase of
           Some token \<Rightarrow> Some token
         | None \<Rightarrow> scanCandidates (matchAll MODEL_TOKEN_RE up))"

section \<open>Appliance and intent signals\<close>

datatype Appliance = Refrigerator | Dishwasher | Unknown_appliance

definition inferApplianceFromText :: "string \<Rightarrow> Appliance" where
  "inferApplianceFromText text =
     (let t = toLowerCase text
      in if str_includes t ''dishwasher'' \<or> str_includes t ''wdt'' \<or> str_includes t ''kdf''
            \<or> str_includes t ''not draining'' \<or> str_includes t ''drain''
            \<or> str_includes t ''spray arm'' \<or> str_includes t ''sump''
            \<or> str_includes t ''air gap'' \<or> str_includes t ''high loop''
         then Dishwasher
         else if str_includes t ''fridge'' \<or> str_includes t ''refrigerator''
            \<or> str_includes t ''freezer'' \<or> str_includes t ''ice maker''
            \<or> str_includes t ''icemaster'' \<or> str_includes t ''defrost''
            \<or> str_includes t ''evaporator'' \<or> str_includes t ''not cooling''
         then Refrigerator
         else Unknown_appliance)"

definition wantsAlternatives :: "string \<Rightarrow> bool" where
  "wantsAlternatives text =
     (let t = toLowerCase text
      in str_includes t ''alternative'' \<or> str_includes t ''alternatives''
         \<or> str_includes t ''substitute'' \<or> str_includes t ''replace with''
         \<or> str_includes t ''other option'')"

definition wantsHuman :: "string \<Rightarrow> bool" where
  "wantsHuman text =
     (let t = toLowerCase text
      in str_includes t ''human'' \<or> str_includes t ''real person'' \<or> str_includes t ''live agent''
         \<or> str_includes t ''agent'' \<or> str_includes t ''representative''
         \<or> str_includes t ''customer service'' \<or> str_includes t ''support''
         \<or> str_includes t ''talk to someone'' \<or> str_includes t ''live chat'')"

definition looksLikeSmallTalk :: "string \<Rightarrow> bool" where
  "looksLikeSmallTalk text =
     (let t = norm text
      in t = ''hi'' \<or> t = ''hello'' \<or> t = ''help'' \<or> t = ''hello?'' \<or> t = ''hey''
         \<or> t = ''hello world'' \<or> t = ''confused'')"

definition looksLikeAck :: "string \<Rightarrow> bool" where
  "looksLikeAck text =
     (let t = onlyLetters text
      in t = ''ok'' \<or> t = ''okay'' \<or> t = ''k'' \<or> t = ''kk'' \<or> t = ''thanks''
         \<or> t = ''thankyou'' \<or> t = ''thx'' \<or> t = ''cool'' \<or> t = ''gotit'' \<or> t = ''great''
         \<or> t = ''nice'' \<or> t = ''perfect'')"

subsection \<open>Order support extraction\<close>

text \<open>\<^verbatim>\<open>ORDER_RE = /\b(ORD|ORDER)\s*#?\s*([A-Z0-9-]{5,20})\b/i\<close> and
  \<^verbatim>\<open>ZIP_RE = /\b\d{5}(?:-\d{4})?\b/\<close>\<close>

definition ORDER_RE :: rx where
  "ORDER_RE = rx_seqs
     [rx_wordb, rx_grp (rx_alt (rx_lit_ci ''ORD'') (rx_lit_ci ''ORDER'')),
      rx_spaces 0, rx_opt (rx_lit ''#''), rx_spaces 0,
      rx_grp (rx_rep (\<lambda>c. isAlnum c \<or> c = CHR ''-'') 5 (Some 20)), rx_wordb]"

definition ZIP_RE :: rx where
  "ZIP_RE = rx_seqs
     [rx_wordb, rx_rep isDigit 5 (Some 5),
      rx_opt (rx_seqs [rx_lit ''-'', rx_rep isDigit 4 (Some 4)]), rx_wordb]"

definition extractOrderId :: "string \<Rightarrow> string option" where
  "extractOrderId text =
     (case rx_match ORDER_RE text of
        None \<Rightarrow> None
      | Some m \<Rightarrow> (case groups m of [g1, g2] \<Rightarrow> Some (toUpperCase g2) | _ \<Rightarrow> None))"

definition extractZip :: "string \<Rightarrow> string option" where
  "extractZip text = map_option matched (rx_match ZIP_RE text)"

definition wantsReturnRefundShipping :: "string \<Rightarrow> bool" where
  "wantsReturnRefundShipping text =
     (let t = toLowerCase text
      in str_includes t ''order'' \<or> str_includes t ''shipping'' \<or> str_includes t ''deliver''
         \<or> str_includes t ''delivery'' \<or> str_includes t ''return'' \<or> str_includes t ''refund''
         \<or> str_includes t ''exchange'')"

subsection \<open>Intent inference\<close>

datatype Intent =
  Part_lookup | Compatibility_check | Installation_help | Troubleshooting | Order_support
  | Unknown_intent

text \<open>\<^verbatim>\<open>INTENT_KEYWORDS_RE = /\b(compatibility|compatible|install|...|support)\b/i\<close>\<close>

definition INTENT_KEYWORDS_RE :: rx where
  "INTENT_KEYWORDS_RE = rx_seqs
     [rx_wordb,
      rx_grp (rx_alts (map rx_lit_ci
        [''compatibility'', ''compatible'', ''install'', ''installation'', ''troubleshoot'',
         ''troubleshooting'', ''order'', ''shipping'', ''return'', ''refund'', ''human'', ''agent'',
         ''representative'', ''customer service'', ''support''])),
      rx_wordb]"

definition hasGlobalIntentKeyword :: "string \<Rightarrow> bool" where
  "hasGlobalIntentKeyword text = rx_test INTENT_KEYWORDS_RE text"

definition inferIntent :: "string \<Rightarrow> Intent" where
  "inferIntent text =
     (let t = toLowerCase text
      in if wantsHuman t then Order_support
         else if str_includes t ''install'' \<or> str_includes t ''how do i install''
            \<or> str_includes t ''installation'' \<or> str_includes t ''replacement''
            \<or> str_includes t ''replace'' \<or> str_includes t ''remove'' \<or> str_includes t ''swap''
         then Installation_help
         else if str_includes t ''compatible'' \<or> str_includes t ''compatibility''
            \<or> str_includes t ''fit my model'' \<or> str_includes t ''fits my model''
         then Compatibility_check
         else if wantsAlternatives t then Part_lookup
         else if extractPartNumberFromLinkOrText text \<noteq> None then Part_lookup
         else if wantsReturnRefundShipping t \<or> extractOrderId text \<noteq> None \<or> extractZip text \<noteq> None
         then Order_support
         else if str_includes t ''not working'' \<or> str_includes t ''won't''
            \<or> str_includes t ''doesn't'' \<or> str_includes t ''troubleshoot''
            \<or> str_includes t ''fix'' \<or> str_includes t ''not cooling''
            \<or> str_includes t ''not draining'' \<or> str_includes t ''leak''
            \<or> str_includes t ''error code'' \<or> str_includes t ''e:'' \<or> str_includes t ''f:''
            \<or> str_includes t ''beeping''
         then Troubleshooting
         else Unknown_intent)"

text \<open>A follow-up is consumed by the open question unless the user clearly switches intent.\<close>

definition isClearIntentShift :: "string \<Rightarrow> bool" where
  "isClearIntentShift text =
     (if text = [] then False
      else if wantsHuman text \<or> wantsAlternatives text then True
      else if extractEmail text \<noteq> None then True
      else if extractOrderId text \<noteq> None \<or> extractZip text \<noteq> None then True
      else if extractPartNumberFromLinkOrText text \<noteq> None then True
      else if extractModelNumber text \<noteq> None then True
      else (let intent = inferIntent text
            in intent = Compatibility_check \<or> intent = Installation_help
               \<or> intent = Troubleshooting \<or> intent = Order_support \<or> intent = Part_lookup))"

section \<open>Conversation history\<close>

datatype Role = User | Assistant

record ChatMessage =
  role :: Role
  content :: string

text \<open>\<^verbatim>\<open>history.filter((m) => m.role === "user").slice(-n)\<close>\<close>

definition lastNUser :: "ChatMessage list \<Rightarrow> nat \<Rightarrow> ChatMessage list" where
  "lastNUser history n =
     (let us = filter (\<lambda>m. role m = User) history
      in if n = 0 then us else drop (length us - n) us)"

text \<open>The loop of \<^verbatim>\<open>lastAssistant\<close> walks the history from its end.\<close>

fun firstAssistant :: "ChatMessage list \<Rightarrow> ChatMessage option" where
  "firstAssistant [] = None"
| "firstAssistant (m # ms) = (if role m = Assistant then Some m else firstAssistant ms)"

definition lastAssistant :: "ChatMessage list \<Rightarrow> ChatMessage option" where
  "lastAssistant h = firstAssistant (rev h)"

text \<open>The front end may send the history with the current user message already appended;
  that last entry is not counted.\<close>

fun countFrom :: "string \<Rightarrow> ChatMessage list \<Rightarrow> nat \<Rightarrow> nat" where
  "countFrom cur [] c = c"
| "countFrom cur (m # ms) c =
     countFrom cur ms (if role m = User \<and> norm (content m) = cur then c + 1 else c)"

definition countUserRepeatsExcludingCurrent :: "ChatMessage list \<Rightarrow> string \<Rightarrow> nat" where
  "countUserRepeatsExcludingCurrent h current =
     (let cur = norm current;
          end = (if h \<noteq> [] \<and> role (last h) = User \<and> norm (content (last h)) = cur
                 then length h - 1 else length h)
      in countFrom cur (take end h) 0)"

subsection \<open>Session resolution\<close>

definition messageMentionsAppliance :: "ChatMessage \<Rightarrow> Appliance \<Rightarrow> bool" where
  "messageMentionsAppliance m appliance =
     (if appliance = Unknown_appliance then True
      else inferApplianceFromText (content m) = appliance)"

fun firstPartNumber :: "ChatMessage list \<Rightarrow> string option" where
  "firstPartNumber [] = None"
| "firstPartNumber (m # ms) =
     (case extractPartNumberFromLinkOrText (content m) of
        Some pn \<Rightarrow> Some pn
      | None \<Rightarrow> firstPartNumber ms)"

definition findLastPartNumber :: "ChatMessage list \<Rightarrow> string option" where
  "findLastPartNumber h = firstPartNumber (rev h)"

fun firstModelNumberForAppliance :: "ChatMessage list \<Rightarrow> Appliance \<Rightarrow> string option" where
  "firstModelNumberForAppliance [] appliance = None"
| "firstModelNumberForAppliance (msg # ms) appliance =
     (if role msg \<noteq> User then firstModelNumberForAppliance ms appliance
      else if \<not> messageMentionsAppliance msg appliance then firstModelNumberForAppliance ms appliance
      else case extractModelNumber (content msg) of
             Some mn \<Rightarrow> Some mn
           | None \<Rightarrow> firstModelNumberForAppliance ms appliance)"

definition findLastModelNumberForAppliance :: "ChatMessage list \<Rightarrow> Appliance \<Rightarrow> string option" where
  "findLastModelNumberForAppliance h appliance = firstModelNumberForAppliance (rev h) appliance"

subsection \<open>Appliance pinning\<close>

text \<open>The loop over the recent user turns, with its two counters \<open>dw\<close> and \<open>rf\<close>.\<close>

fun countVotes :: "ChatMessage list \<Rightarrow> nat \<times> nat \<Rightarrow> nat \<times> nat" where
  "countVotes [] (dw, rf) = (dw, rf)"
| "countVotes (m # ms) (dw, rf) =
     (let a = inferApplianceFromText (content m);
          dw' = (if a = Dishwasher then dw + 1 else dw);
          rf' = (if a = Refrigerator then rf + 1 else rf)
      in countVotes ms (dw', rf'))"

definition inferPinnedAppliance :: "string \<Rightarrow> ChatMessage list \<Rightarrow> Appliance" where
  "inferPinnedAppliance message history =
     (let now = inferApplianceFromText message
      in if now \<noteq> Unknown_appliance then now
         else (let recent = lastNUser history 8;
                   (dw, rf) = countVotes recent (0, 0)
               in if dw = rf then Unknown_appliance
                  else if dw > rf then Dishwasher else Refrigerator))"

record Entities =
  partNumber :: "string option"
  modelNumber :: "string option"
  hasIncompletePart :: bool
  shortPart :: "string option"

definition resolveEntities :: "string \<Rightarrow> ChatMessage list \<Rightarrow> Appliance \<Rightarrow> Entities" where
  "resolveEntities message history appliance =
     (let shortPart = extractShortPartToken message;
          part = extractPartNumberFromLinkOrText message;
          model = extractModelNumber message;
          hasIncompletePart = (shortPart \<noteq> None \<and> part = None);
          partNumber = (case part of Some p \<Rightarrow> Some p
                        | None \<Rightarrow> if hasIncompletePart then None else findLastPartNumber history);
          modelNumber = (case model of Some m \<Rightarrow> Some m
                         | None \<Rightarrow> findLastModelNumberForAppliance history appliance)
      in \<lparr>partNumber = partNumber, modelNumber = modelNumber,
          hasIncompletePart = hasIncompletePart, shortPart = shortPart\<rparr>)"

section \<open>Dialog state\<close>

text \<open>Typographic characters of the reply templates, as UTF-8.\<close>

definition rsquo :: string where "rsquo = [CHR 0xE2, CHR 0x80, CHR 0x99]"
definition mdash :: string where "mdash = [CHR 0xE2, CHR 0x80, CHR 0x94]"
definition ndash :: string where "ndash = [CHR 0xE2, CHR 0x80, CHR 0x93]"
definition hellip :: string where "hellip = [CHR 0xE2, CHR 0x80, CHR 0xA6]"
definition bullet :: string where "bullet = [CHR 0xE2, CHR 0x80, CHR 0xA2]"
definition ldquo :: string where "ldquo = [CHR 0xE2, CHR 0x80, CHR 0x9C]"
definition rdquo :: string where "rdquo = [CHR 0xE2, CHR 0x80, CHR 0x9D]"
definition rarrow :: string where "rarrow = [CHR 0xE2, CHR 0x86, CHR 0x92]"
definition checkmark :: string where "checkmark = [CHR 0xE2, CHR 0x9C, CHR 0x85]"
definition thumbsup :: string where "thumbsup = [CHR 0xF0, CHR 0x9F, CHR 0x91, CHR 0x8D]"
definition degree :: string where "degree = [CHR 0xC2, CHR 0xB0]"
definition dquote :: string where "dquote = [CHR 0x22]"
definition nl :: string where "nl = [CHR 0x0A]"

datatype OrderAsk = Order_id | Zip | Both

datatype ChoiceOption = Compatibility | Install | Symptom

text \<open>The open question (\<^verbatim>\<open>Awaiting\<close>); \<^verbatim>\<open>null\<close> is \<open>None\<close>. The \<^verbatim>\<open>context\<close> of
  \<^verbatim>\<open>did_it_fix_yesno\<close> has the single value \<^verbatim>\<open>"drain_issue"\<close>.\<close>

datatype Awaiting =
    Pump_sound
  | Dishwasher_drain_speed
  | Drain_hose_setup
  | Sink_connection_type
  | Disposal_flow_yesno
  | Disposal_knockout_yesno
  | Tailpiece_gunk_yesno
  | Did_it_fix_yesno
  | Choice "ChoiceOption list"
  | Install_step
  | Clamp_type
  | Panel_fastener
  | Connector_latch_side
  | Order_info OrderAsk
  | Fridge_freezer_warming_yesno
  | Panel_still_wont_drop_yesno
  | Connector_moving_or_stuck

definition inferDialogState :: "ChatMessage list \<Rightarrow> Awaiting option" where
  "inferDialogState history =
     (let a = (case lastAssistant history of None \<Rightarrow> [] | Some m \<Rightarrow> toLowerCase (content m))
      in if a = [] then None
      else if (str_includes a ''leaving standing water'' \<or> str_includes a ''standing water'')
            \<and> (str_includes a ''drain slowly'' \<or> str_includes a ''drains slowly''
                 \<or> str_includes a ''drain is slow'' \<or> str_includes a ''slow'')
        then Some Dishwasher_drain_speed
      else if str_includes a ''is it leaving standing water''
            \<and> str_includes a ''or does it drain slowly''
        then Some Dishwasher_drain_speed
      else if str_includes a ''which one is it: standing water'' \<and> str_includes a ''drains slowly''
        then Some Dishwasher_drain_speed
      else if (str_includes a ''do you hear the drain pump'' \<and> str_includes a ''(yes/no)'')
            \<or> (str_includes a ''pump'' \<and> str_includes a ''running''
                 \<and> str_includes a ''humming'' \<and> str_includes a ''silent'')
            \<or> (str_includes a ''humming'' \<and> str_includes a ''totally silent'')
            \<or> (str_includes a ''running, humming'' \<and> str_includes a ''totally silent'')
        then Some Pump_sound
      else if (str_includes a ''high loop'' \<or> str_includes a ''air gap'')
            \<and> str_includes a ''under the sink''
        then Some Drain_hose_setup
      else if (str_includes a ''garbage disposal'' \<or> str_includes a ''disposal'')
            \<and> str_includes a ''sink tailpiece''
        then Some Sink_connection_type
      else if str_includes a ''strong water flow'' \<and> str_includes a ''(yes/no)''
        then Some Disposal_flow_yesno
      else if str_includes a ''knockout plug'' \<and> str_includes a ''(yes/no)''
        then Some Disposal_knockout_yesno
      else if str_includes a ''disconnect'' \<and> str_includes a ''tailpiece''
            \<and> str_includes a ''(yes/no)''
        then Some Tailpiece_gunk_yesno
      else if (str_includes a ''does it drain'' \<or> str_includes a ''drain normally''
               \<or> str_includes a ''fixed'') \<and> str_includes a ''(yes/no)''
        then Some Did_it_fix_yesno
      else if (str_includes a ''tell me what you want to solve''
               \<or> str_includes a ''what you want to solve'')
            \<and> (str_includes a ''compatibility'' \<and> str_includes a ''install''
                 \<and> str_includes a ''symptom'')
        then Some (Choice [Compatibility, Install, Symptom])
      else if str_includes a ''compatibility/install/symptom''
        then Some (Choice [Compatibility, Install, Symptom])
      else if str_includes a ''which step are you on: panel, clamps, or connector''
            \<or> str_includes a ''which step is blocking you''
            \<or> str_includes a
                 ''which part is giving you trouble: the panel, hose clamps, or the electrical connector''
            \<or> (str_includes a ''panel'' \<and> str_includes a ''clamps''
                 \<and> str_includes a ''connector'' \<and> str_includes a ''?'')
        then Some Install_step
      else if str_includes a ''do you see screws''
            \<and> (str_includes a ''clips'' \<or> str_includes a ''plastic clips'')
        then Some Panel_fastener
      else if str_includes a ''spring clamp'' \<and> str_includes a ''screw clamp''
        then Some Clamp_type
      else if str_includes a ''do you see a latch'' \<and> str_includes a ''top''
            \<and> str_includes a ''side''
        then Some Connector_latch_side
      else if str_includes a ''where is the latch'' \<and> str_includes a ''top''
            \<and> str_includes a ''side''
        then Some Connector_latch_side
      else if str_includes a (''panel still won'' @ rsquo @ ''t drop'')
            \<or> str_includes a ''panel still won't drop''
        then Some Panel_still_wont_drop_yesno
      else if str_includes a ''is it moving at all'' \<and> str_includes a ''totally stuck''
        then Some Connector_moving_or_stuck
      else if str_includes a ''order number'' \<and> str_includes a ''zip''
        then Some (Order_info Both)
      else if str_includes a ''order number'' then Some (Order_info Order_id)
      else if str_includes a ''zip code'' \<or> str_includes a ''postal code''
        then Some (Order_info Zip)
      else if str_includes a ''is the freezer also warming up''
        then Some Fridge_freezer_warming_yesno
      else None)"

definition isAwaitingInstall :: "Awaiting option \<Rightarrow> bool" where
  "isAwaitingInstall awaiting =
     (case awaiting of None \<Rightarrow> False
      | Some k \<Rightarrow> k = Install_step \<or> k = Clamp_type \<or> k = Panel_fastener
          \<or> k = Connector_latch_side \<or> k = Panel_still_wont_drop_yesno
          \<or> k = Connector_moving_or_stuck)"

definition isAwaitingTroubleshoot :: "Awaiting option \<Rightarrow> bool" where
  "isAwaitingTroubleshoot awaiting =
     (case awaiting of None \<Rightarrow> False
      | Some k \<Rightarrow> k = Pump_sound \<or> k = Dishwasher_drain_speed \<or> k = Drain_hose_setup
          \<or> k = Sink_connection_type \<or> k = Disposal_flow_yesno
          \<or> k = Disposal_knockout_yesno \<or> k = Tailpiece_gunk_yesno \<or> k = Did_it_fix_yesno)"

definition isAwaitingOrder :: "Awaiting option \<Rightarrow> bool" where
  "isAwaitingOrder awaiting =
     (case awaiting of Some (Order_info ask) \<Rightarrow> True | _ \<Rightarrow> False)"

definition isInstallQuickReply :: "string \<Rightarrow> bool" where
  "isInstallQuickReply text =
     (let t = norm text
      in t = ''panel'' \<or> t = ''clamps'' \<or> t = ''clamp'' \<or> t = ''connector'' \<or> t = ''screws''
         \<or> t = ''clips'' \<or> t = ''spring'' \<or> t = ''spring clamp'' \<or> t = ''screw''
         \<or> t = ''screw clamp'' \<or> t = ''top'' \<or> t = ''side'' \<or> t = ''stuck''
         \<or> t = ''moving'' \<or> t = ''totally stuck'')"

subsection \<open>Answer parsers\<close>

definition parseYesNo :: "string \<Rightarrow> bool option" where
  "parseYesNo text =
     (let t = onlyLetters text
      in if t = ''yes'' \<or> t = ''y'' \<or> t = ''yeah'' \<or> t = ''yep'' \<or> t = ''sure'' \<or> t = ''correct''
         then Some True
         else if t = ''no'' \<or> t = ''n'' \<or> t = ''nope'' \<or> t = ''nah'' \<or> t = ''notreally''
         then Some False
         else None)"

definition parseChoice :: "string \<Rightarrow> ChoiceOption option" where
  "parseChoice text =
     (let t = norm text
      in if str_includes t ''compat'' then Some Compatibility
         else if str_includes t ''install'' then Some Install
         else if str_includes t ''symptom'' \<or> str_includes t ''issue''
            \<or> str_includes t ''problem'' \<or> str_includes t ''trouble''
         then Some Symptom
         else None)"

datatype ClampType = Spring | Screw

definition parseClampType :: "string \<Rightarrow> ClampType option" where
  "parseClampType text =
     (let t = norm text
      in if str_includes t ''spring'' then Some Spring
         else if str_includes t ''screw'' then Some Screw
         else None)"

datatype DrainSpeed = Standing | Slow

definition parseDrainSpeed :: "string \<Rightarrow> DrainSpeed option" where
  "parseDrainSpeed text =
     (let t = norm text
      in if str_includes t ''standing'' \<or> str_includes t ''still water''
            \<or> str_includes t ''full of water'' \<or> t = ''standing water''
         then Some Standing
         else if str_includes t ''slow'' \<or> str_includes t ''slowly''
            \<or> str_includes t ''drain slowly'' \<or> str_includes t ''drains slowly''
         then Some Slow
         else None)"

datatype PumpSound = Running | Humming | Silent | Unknown_sound

definition parsePumpSound :: "string \<Rightarrow> PumpSound" where
  "parsePumpSound text =
     (let t = norm text;
          yn = parseYesNo text
      in if yn = Some True then Running
         else if yn = Some False then Silent
         else if str_includes t ''hum'' \<or> str_includes t ''buzz''
            \<or> str_includes t ''humming'' \<or> str_includes t ''buzzing''
         then Humming
         else if str_includes t ''silent'' \<or> str_includes t ''no sound''
            \<or> str_includes t ''quiet'' \<or> str_includes t ''totally silent''
         then Silent
         else if str_includes t ''running'' \<or> str_includes t ''normal''
            \<or> str_includes t ''i hear it'' \<or> str_includes t ''hear it''
         then Running
         else Unknown_sound)"

datatype PanelFastener = Screws | Clips

definition parsePanelFastener :: "string \<Rightarrow> PanelFastener option" where
  "parsePanelFastener text =
     (let t = norm text
      in if str_includes t ''screw'' then Some Screws
         else if str_includes t ''clip'' then Some Clips
         else None)"

datatype LatchSide = Top | Side

definition parseLatchSide :: "string \<Rightarrow> LatchSide option" where
  "parseLatchSide text =
     (let t = norm text
      in if str_includes t ''top'' then Some Top
         else if str_includes t ''side'' then Some Side
         else None)"

datatype MovingOrStuck = Moving | Stuck | Unknown_motion

definition parseMovingOrStuck :: "string \<Rightarrow> MovingOrStuck" where
  "parseMovingOrStuck text =
     (let t = norm text
      in if str_includes t ''moving'' then Moving
         else if str_includes t ''stuck'' then Stuck
         else Unknown_motion)"

datatype DrainHoseSetup = High_loop | Air_gap | Neither | Sink_connection | Unknown_setup

definition parseDrainHoseSetup :: "string \<Rightarrow> DrainHoseSetup" where
  "parseDrainHoseSetup text =
     (let t = norm text
      in if str_includes t ''air gap'' \<or> str_includes t ''airgap'' then Air_gap
         else if str_includes t ''high loop'' \<or> (str_includes t ''loop'' \<and> str_includes t ''high'')
         then High_loop
         else if str_includes t ''sink'' \<or> str_includes t ''disposal''
            \<or> str_includes t ''garbage disposal''
         then Sink_connection
         else if str_includes t ''neither'' \<or> str_includes t ''none'' then Neither
         else if t = ''no'' then Unknown_setup
         else Unknown_setup)"

datatype SinkConnectionType = Disposal | Tailpiece | Unknown_connection

definition parseSinkConnectionType :: "string \<Rightarrow> SinkConnectionType" where
  "parseSinkConnectionType text =
     (let t = norm text
      in if str_includes t ''disposal'' \<or> str_includes t ''garbage'' then Disposal
         else if str_includes t ''tailpiece'' \<or> str_includes t ''tail piece''
            \<or> str_includes t ''sink''
         then Tailpiece
         else Unknown_connection)"

subsection \<open>Handoff detection\<close>

definition everRequestedHuman :: "ChatMessage list \<Rightarrow> bool" where
  "everRequestedHuman history = list_ex (\<lambda>m. wantsHuman (content m)) (lastNUser history 10)"

definition handoffPending :: "ChatMessage list \<Rightarrow> bool" where
  "handoffPending history =
     (case lastAssistant history of
        None \<Rightarrow> False
      | Some a \<Rightarrow>
          (let t = toLowerCase (content a);
               asksEmail = (str_includes t ''send your email'' \<or> str_includes t ''share your email''
                            \<or> str_includes t ''your email'');
               mentionsTicket = (str_includes t ''ticket'' \<or> str_includes t ''human follow-up''
                                 \<or> str_includes t ''human'' \<or> str_includes t ''support'')
           in asksEmail \<and> mentionsTicket))"

section \<open>Reply templates\<close>

subsection \<open>Install follow-up\<close>

datatype InstallStep = Panel | Clamps | Connector | Unknown_step

text \<open>\<^verbatim>\<open>detectInstallStepFollowup\<close> returns a step or \<^verbatim>\<open>null\<close>.\<close>

definition detectInstallStepFollowup :: "ChatMessage list \<Rightarrow> string \<Rightarrow> InstallStep option" where
  "detectInstallStepFollowup history userMessage =
     (let a = (case lastAssistant history of None \<Rightarrow> [] | Some m \<Rightarrow> toLowerCase (content m));
          u = toLowerCase userMessage
      in if hasGlobalIntentKeyword u \<or> extractPartNumberFromLinkOrText userMessage \<noteq> None
            \<or> extractModelNumber userMessage \<noteq> None \<or> wantsReturnRefundShipping userMessage
         then None
         else (let aAsked = (str_includes a ''which step is blocking you''
                     \<or> str_includes a ''which step are you on: panel, clamps, or connector''
                     \<or> (str_includes a ''panel'' \<and> str_includes a ''clamps''
                          \<and> str_includes a ''connector''))
               in if \<not> aAsked then None
                  else if str_includes u ''panel'' \<or> str_includes u ''kickplate''
                     \<or> str_includes u ''access panel'' \<or> str_includes u ''toe kick''
                  then Some Panel
                  else if str_includes u ''clamp'' \<or> str_includes u ''clamps''
                     \<or> str_includes u ''hose clamp'' \<or> str_includes u ''pliers''
                  then Some Clamps
                  else if str_includes u ''connector'' \<or> str_includes u ''wire''
                     \<or> str_includes u ''harness'' \<or> str_includes u ''plug''
                  then Some Connector
                  else None))"

definition replyInstallStepHelp :: "InstallStep \<Rightarrow> string" where
  "replyInstallStepHelp step =
     (if step = Panel then
      (''For the access panel: it'' @ rsquo @ ''s usually a couple screws along the bottom edge. ''
      @ ''If it won'' @ rsquo @ ''t drop, check for hidden clips near the sides. ''
      @ ''Do you see screws, or plastic clips?'')
      else if step = Clamps then
      (''For hose clamps: pliers help '' @ mdash @ '' squeeze, slide the clamp back, then twist the hose gently to break the seal. ''
      @ ''Avoid yanking straight (it can tear the hose). ''
      @ ''Is it a spring clamp (two tabs) or a screw clamp?'')
      else if step = Connector then
      (''For the connector: most have a small locking tab. Press the tab in while pulling straight out. ''
      @ ''If it'' @ rsquo @ ''s stuck, wiggle gently '' @ mdash @ '' don'' @ rsquo @ ''t pull on the wires. ''
      @ ''Do you see a latch on the top or side?'')
      else (''Which step are you on: panel, clamps, or connector?''))"

definition replyPanelFastenerHelp :: "PanelFastener \<Rightarrow> string" where
  "replyPanelFastenerHelp kind =
     (if kind = Screws then
      (''Got it '' @ mdash @ '' screws.'' @ nl
      @ ''Tip: check the very bottom edge + corners (some are tucked under the toe-kick). If they'' @ rsquo @ ''re Torx, you may need a T15/T20 bit.'' @ nl
      @ ''After removing screws, the panel usually tilts out then drops down.'' @ nl @ nl
      @ ''Do the screws come out but the panel still won'' @ rsquo @ ''t drop?'')
      else
      (''Got it '' @ mdash @ '' clips.'' @ nl
      @ ''Tip: pull the panel slightly forward and then down. A plastic pry tool (or a taped flathead) helps avoid cracking.'' @ nl @ nl
      @ ''Do you see clip tabs on the left/right edges, or along the top seam?''))"

definition replyConnectorLatchHelp :: "LatchSide \<Rightarrow> string" where
  "replyConnectorLatchHelp side =
     (if side = Top then
      (''Latch on TOP: press the top tab down/in firmly, then pull the connector straight off.'' @ nl
      @ ''If it'' @ rsquo @ ''s tight, push the connector *in* a hair first, then press tab, then pull.'' @ nl @ nl
      @ ''Is it moving at all, or totally stuck?'')
      else
      (''Latch on SIDE: pinch/press the side tab inward while pulling straight out.'' @ nl
      @ ''Same trick: push in slightly first '' @ rarrow @ '' press tab '' @ rarrow @ '' pull.'' @ nl @ nl
      @ ''Is it moving at all, or totally stuck?''))"

subsection \<open>Reply helpers\<close>

definition replyHome :: string where
  "replyHome =
      (''Hi! I can help with refrigerator and dishwasher parts on PartSelect '' @ mdash @ '' part info, compatibility, installation, and troubleshooting.'' @ nl @ nl
      @ ''Try:'' @ nl
      @ bullet @ '' '' @ ldquo @ ''Is PS11752778 compatible with my WDT780SAEM1 model?'' @ rdquo @ nl
      @ bullet @ '' '' @ ldquo @ ''How can I install part number PS11752778?'' @ rdquo)"

text \<open>An absent or empty \<^verbatim>\<open>shortToken\<close> gives no hint.\<close>

definition replyAskForFullPart :: "string option \<Rightarrow> string" where
  "replyAskForFullPart shortToken =
     (let hint = (case shortToken of
                    None \<Rightarrow> []
                  | Some tok \<Rightarrow> if tok = [] then [] else
                      (nl @ nl @ ''I saw '' @ dquote @ tok @ dquote @ '' '' @ mdash @ '' part numbers usually look like PS + 5'' @ ndash @ ''10 digits.''))
      in (''What'' @ rsquo @ ''s the full PartSelect part number (starts with PS'' @ hellip @ '')?'' @ hint))"

definition compactInstallSteps :: "string \<Rightarrow> string option \<Rightarrow> string" where
  "compactInstallSteps pn mn =
     (let modelLine = (case mn of None \<Rightarrow> [] | Some m \<Rightarrow> if m = [] then [] else ('' (model '' @ m @ '')''))
      in (''Quick install outline for '' @ pn @ modelLine @ '':'' @ nl) @
      (''1) Turn off power (and water if needed)'' @ nl
      @ ''2) Remove the lower access panel'' @ nl
      @ ''3) Take a photo of wires/hoses'' @ nl
      @ ''4) Disconnect hose clamps + connector'' @ nl
      @ ''5) Swap the part, reassemble, run a short test'' @ nl @ nl
      @ ''Which step are you on: panel, clamps, or connector?''))"

definition compactInstallRepeatVariant :: "string \<Rightarrow> string option \<Rightarrow> nat \<Rightarrow> string" where
  "compactInstallRepeatVariant pn mn repeats =
     (let modelLine = (case mn of None \<Rightarrow> [] | Some m \<Rightarrow> if m = [] then [] else ('' ('' @ m @ '')''))
      in if repeats mod 2 = 0 then
           (''Looks like we'' @ rsquo @ ''re still on the install for '' @ pn @ modelLine @ ''.'' @ nl @ ''Want help with panel, clamps, or connector?'')
         else
           (''No worries '' @ mdash @ '' continuing '' @ pn @ modelLine @ '' install.'' @ nl @ ''Which step is blocking you: panel, clamps, or connector?''))"

definition troubleshootDishwasher :: "string option \<Rightarrow> bool \<Rightarrow> string" where
  "troubleshootDishwasher mn repeated =
     (let header = (case mn of
                      None \<Rightarrow> (''Dishwasher not draining '' @ mdash @ '' quick checks:'')
                    | Some m \<Rightarrow> if m = [] then (''Dishwasher not draining '' @ mdash @ '' quick checks:'') else
                        (''Dishwasher not draining ('' @ m @ '') '' @ mdash @ '' quick checks:''));
          base = header @ nl @
      (''- Clean the filter/sump area'' @ nl
      @ ''- Check drain hose for kinks/clogs'' @ nl
      @ ''- Make sure the disposal knockout plug is removed'' @ nl @ nl
      @ ''When it tries to drain, do you hear the drain pump running? (yes/no)'')
      in if \<not> repeated then base
         else base @ (nl @ nl @ ''If you already tried those: share any error code, and whether the pump is silent, humming, or normal.''))"

definition troubleshootDishwasherDrainPumpFollowup :: "bool \<Rightarrow> string" where
  "troubleshootDishwasherDrainPumpFollowup hearsPump =
     (if hearsPump then
      (''Got it '' @ mdash @ '' pump is running.'' @ nl
      @ ''That usually points to a blockage or drain path issue:'' @ nl
      @ ''- Check the sink/disposal connection (knockout plug)'' @ nl
      @ ''- Inspect the drain hose loop for kinks / gunk'' @ nl
      @ ''- If accessible, check the check-valve / drain outlet for debris'' @ nl @ nl
      @ ''Is it leaving standing water, or does it drain slowly?'')
      else
      (''OK '' @ mdash @ '' pump is NOT running.'' @ nl
      @ ''That'' @ rsquo @ ''s more like power/control or a failed pump:'' @ nl
      @ ''- Do you hear any hum/click when it tries to drain?'' @ nl
      @ ''- Any error code showing?'' @ nl
      @ ''- Confirm the door latch is fully closing'' @ nl @ nl
      @ ''If you share the model, I can suggest the best next check.''))"

definition troubleshootDishwasherDrainSpeedFollowup :: "DrainSpeed \<Rightarrow> string" where
  "troubleshootDishwasherDrainSpeedFollowup kind =
     (if kind = Slow then
      (''Drain is slow '' @ mdash @ '' usually partial blockage.'' @ nl
      @ ''- Inspect drain hose for kinks + buildup'' @ nl
      @ ''- Check the sink/disposal connection for gunk'' @ nl
      @ ''- Clean filter/sump again + look for debris at the drain outlet'' @ nl @ nl
      @ ''Quick check: does your drain hose have a high loop / air gap under the sink?'')
      else
      (''Standing water '' @ mdash @ '' closer to a full blockage or a stuck check-valve.'' @ nl
      @ ''- Verify disposal knockout plug is removed'' @ nl
      @ ''- Check drain hose for a hard clog'' @ nl
      @ ''- If accessible, check-valve at the pump outlet may be stuck'' @ nl @ nl
      @ ''When it tries to drain, is it humming/buzzing, or totally silent?''))"

definition troubleshootDishwasherHoseSetupFollowup :: "DrainHoseSetup \<Rightarrow> string" where
  "troubleshootDishwasherHoseSetupFollowup kind =
     (if kind = High_loop then
      (''Nice '' @ mdash @ '' high loop is good.'' @ nl
      @ ''Next most common culprit is the sink/disposal connection:'' @ nl
      @ ''- If connected to a garbage disposal, confirm the knockout plug was removed'' @ nl
      @ ''- Pull the drain hose off and check for gunk at the inlet'' @ nl
      @ ''- Check the hose itself for a partial clog (food/grease)'' @ nl @ nl
      @ ''Are you connected to a garbage disposal, or directly to the sink tailpiece?'')
      else if kind = Air_gap then
      (''Air gap setup '' @ mdash @ '' good.'' @ nl
      @ ''If draining is slow, the air gap or hose after it may be partially clogged.'' @ nl
      @ ''Quick check:'' @ nl
      @ ''- Pop the air-gap cap and look for debris'' @ nl
      @ ''- Inspect the hose from air gap '' @ rarrow @ '' disposal/tailpiece for buildup'' @ nl @ nl
      @ ''Do you see any gunk in the air gap, or is it clean?'')
      else if kind = Sink_connection then
      (''Got it '' @ mdash @ '' let'' @ rsquo @ ''s focus on the sink/disposal side.'' @ nl
      @ ''Common issue: disposal knockout plug still in place, or sludge clog at the inlet.'' @ nl @ nl
      @ ''Are you draining into a garbage disposal, or directly to the sink tailpiece?'')
      else if kind = Neither then
      (''If there'' @ rsquo @ ''s no high loop / air gap, slow drain can happen from backflow.'' @ nl
      @ ''Easy fix: add a high loop (strap the hose up under the counter as high as possible).'' @ nl @ nl
      @ ''After you add the loop, does draining improve? (yes/no)'')
      else (''Do you have a high loop, an air gap, or neither? (And is it connected to the sink tailpiece or garbage disposal?)''))"

definition replyDidItFixClose :: "bool \<Rightarrow> string" where
  "replyDidItFixClose yes =
     (if yes then
      (''Awesome '' @ mdash @ '' sounds like it'' @ rsquo @ ''s draining normally now. '' @ checkmark @ nl @ nl
      @ ''Anything else you want to do?'' @ nl
      @ ''- check compatibility (PS'' @ hellip @ '' + model)'' @ nl
      @ ''- installation steps'' @ nl
      @ ''- another symptom'')
      else
      (''Got it '' @ mdash @ '' still not draining right.'' @ nl
      @ ''At this point the usual next suspects are:'' @ nl
      @ ''- blockage at pump inlet / sump'' @ nl
      @ ''- stuck check valve'' @ nl
      @ ''- weak/failing drain pump'' @ nl @ nl
      @ ''Do you want to keep troubleshooting here, or do you want a human follow-up? (type '' @ ldquo @ ''human'' @ rdquo @ '')''))"

definition troubleshootDishwasherSinkConnectionFollowup :: "SinkConnectionType \<Rightarrow> string" where
  "troubleshootDishwasherSinkConnectionFollowup kind =
     (if kind = Disposal then
      (''Connected to a garbage disposal '' @ mdash @ '' biggest gotcha is the knockout plug.'' @ nl
      @ ''Quick checks:'' @ nl
      @ ''- Remove the drain hose at the disposal inlet and look inside for the knockout plug'' @ nl
      @ ''- Clean sludge at the disposal inlet nipple'' @ nl
      @ ''- Run disposal briefly + flush hot water'' @ nl @ nl
      @ ''If you remove the hose, do you see strong water flow from the dishwasher when it tries to drain (yes/no)?'')
      else if kind = Tailpiece then
      (''Connected to the sink tailpiece.'' @ nl
      @ ''Quick checks:'' @ nl
      @ ''- Check the tailpiece branch nipple for gunk (common)'' @ nl
      @ ''- Ensure the hose clamp isn'' @ rsquo @ ''t pinching the hose'' @ nl
      @ ''- Confirm the hose has no sagging low-spot holding water'' @ nl @ nl
      @ ''If you disconnect the hose at the tailpiece, is it clogged with gunk (yes/no)?'')
      else (''Are you connected to a garbage disposal, or directly to the sink tailpiece?''))"

definition replyDisposalFlowYesNo :: "bool \<Rightarrow> string" where
  "replyDisposalFlowYesNo yes =
     (if yes then
      (''Good '' @ mdash @ '' that means the dishwasher *is* pumping strongly.'' @ nl
      @ ''So the slowdown is almost certainly AFTER the dishwasher:'' @ nl
      @ ''- disposal inlet nipple gunk'' @ nl
      @ ''- OR the disposal knockout plug still inside'' @ nl @ nl
      @ ''When you look into the disposal inlet (where the hose connects), is the knockout plug already removed? (yes/no)'')
      else
      (''If there'' @ rsquo @ ''s weak/no flow at the hose, that points upstream:'' @ nl
      @ ''- drain hose clogged/kinked'' @ nl
      @ ''- sump/pump inlet blocked'' @ nl
      @ ''- check valve stuck'' @ nl @ nl
      @ ''Quick check: if you remove the hose and try draining into a bucket, do you get *any* water at all? (yes/no)''))"

definition replyDisposalKnockoutYesNo :: "bool \<Rightarrow> string" where
  "replyDisposalKnockoutYesNo yes =
     (if yes then
      (''Nice '' @ mdash @ '' knockout is removed.'' @ nl
      @ ''Next: clean the disposal inlet nipple + the first few inches of hose (it often cakes up with sludge).'' @ nl @ nl
      @ ''After cleaning, does it drain normally now? (yes/no)'')
      else
      (''That'' @ rsquo @ ''s likely the whole issue.'' @ nl
      @ ''Remove the knockout plug (usually punch it through with a screwdriver, then fish it out).'' @ nl
      @ ''Reconnect hose, run disposal briefly, then test drain.'' @ nl @ nl
      @ ''After removing the knockout plug, does it drain normally now? (yes/no)''))"

definition replyTailpieceGunkYesNo :: "bool \<Rightarrow> string" where
  "replyTailpieceGunkYesNo yes =
     (if yes then
      (''Yep '' @ mdash @ '' that'' @ rsquo @ ''ll do it.'' @ nl
      @ ''Clean the tailpiece nipple + hose end (bottle brush works), reconnect, and test.'' @ nl @ nl
      @ ''After cleaning, does it drain normally now? (yes/no)'')
      else
      (''If there'' @ rsquo @ ''s no gunk there, next suspects are:'' @ nl
      @ ''- partial clog somewhere in the hose'' @ nl
      @ ''- blockage at pump/check valve'' @ nl @ nl
      @ ''After re-connecting everything, does it drain normally now? (yes/no)''))"

subsection \<open>Order support replies (demo)\<close>

definition replyOrderIntake :: "OrderAsk \<Rightarrow> string" where
  "replyOrderIntake ask =
     (if ask = Both then (''To help with order status/returns (demo), send your order number and ZIP code.'' @ nl @ ''Example: ORDER #A1B2C3 19104'')
      else if ask = Order_id then (''Send your order number (demo).'' @ nl @ ''Example: ORDER #A1B2C3'')
      else (''Send the ZIP code on the order (demo).'' @ nl @ ''Example: 19104''))"

definition replyOrderStub :: "string option \<Rightarrow> string option \<Rightarrow> string" where
  "replyOrderStub orderId zipCode =
     (let a = (case orderId of None \<Rightarrow> ''order=n/a''
               | Some v \<Rightarrow> if v = [] then ''order=n/a'' else ''order='' @ v);
          z = (case zipCode of None \<Rightarrow> ''zip=n/a''
               | Some v \<Rightarrow> if v = [] then ''zip=n/a'' else ''zip='' @ v)
      in (''Got it ('' @ a @ '', '' @ z @ ''). In this demo I can'' @ rsquo @ ''t access real order systems, but I can still help you choose the right path:'' @ nl) @
      (''- shipping delay / tracking'' @ nl
      @ ''- return / refund policy steps'' @ nl
      @ ''- wrong part ordered (compatibility check)'' @ nl @ nl
      @ ''Which one is it: shipping, return/refund, or wrong part?''))"

section \<open>Lookup tools\<close>

text \<open>
  \<^verbatim>\<open>backend/src/agent/tools.ts\<close> reads three JSON tables (\<^verbatim>\<open>parts.sample.json\<close>,
  \<^verbatim>\<open>compatibility.sample.json\<close>, \<^verbatim>\<open>guides.sample.json\<close>) that are not part of the
  sources; the tables are parameters of the model, as lists of rows whose optional fields
  are options (an absent list is the empty list, as \<^verbatim>\<open>asArray\<close> makes it). A file that is
  missing or unreadable is the empty table. Of a tool's result only the fields the router
  reads are kept.
\<close>

record Source =
  label :: string
  uri :: "string option"

record Part =
  part_partNumber :: string
  part_name :: string
  part_price :: "string option"
  part_imageUrl :: "string option"
  part_appliance :: Appliance
  part_compatibleModels :: "string list"

record CompatibilityRow =
  row_partNumber :: string
  row_models :: "string list"

datatype GuideMode = Mode_install | Mode_troubleshoot | Mode_general

record Guide =
  guide_title :: string
  guide_snippet :: "string option"
  guide_appliance :: Appliance
  guide_mode :: GuideMode
  guide_tags :: "string list"

text \<open>\<^verbatim>\<open>norm\<close> of tools.ts: trim and upper-case.\<close>

definition tnorm :: "string \<Rightarrow> string" where
  "tnorm s = toUpperCase (trim s)"

definition loadParts :: "Part list \<Rightarrow> Part list" where
  "loadParts raw = map (\<lambda>p. p\<lparr>part_partNumber := tnorm (part_partNumber p),
                                 part_compatibleModels := map tnorm (part_compatibleModels p)\<rparr>) raw"

definition loadCompatibility :: "CompatibilityRow list \<Rightarrow> CompatibilityRow list" where
  "loadCompatibility raw =
     filter (\<lambda>r. row_partNumber r \<noteq> [])
       (map (\<lambda>r. \<lparr>row_partNumber = tnorm (row_partNumber r), row_models = map tnorm (row_models r)\<rparr>) raw)"

definition loadGuides :: "Guide list \<Rightarrow> Guide list" where
  "loadGuides raw = map (\<lambda>g. g\<lparr>guide_title := trim (guide_title g)\<rparr>) raw"

record LookupResult =
  lookup_part :: "Part option"
  lookup_sources :: "Source list"

definition toolLookupPart :: "Part list \<Rightarrow> string \<Rightarrow> LookupResult" where
  "toolLookupPart partsTable pn0 =
     (let parts = loadParts partsTable;
          pn = tnorm pn0;
          part = find (\<lambda>p. tnorm (part_partNumber p) = pn) parts
      in \<lparr>lookup_part = part,
          lookup_sources = [\<lparr>label = ''Sample catalog (mock data)'', uri = None\<rparr>]\<rparr>)"

text \<open>\<^verbatim>\<open>compatible\<close> is \<^verbatim>\<open>true\<close>, \<^verbatim>\<open>false\<close> or absent (\<open>None\<close>).\<close>

record CompatibilityResult =
  compatible :: "bool option"
  compat_sources :: "Source list"

definition toolCheckCompatibility ::
  "CompatibilityRow list \<Rightarrow> Part list \<Rightarrow> string \<Rightarrow> string \<Rightarrow> CompatibilityResult" where
  "toolCheckCompatibility compatTable partsTable pn0 mn0 =
     (let pn = tnorm pn0;
          mn = tnorm mn0;
          compat = loadCompatibility compatTable;
          parts = loadParts partsTable
      in case find (\<lambda>r. row_partNumber r = pn) compat of
           Some row \<Rightarrow>
             \<lparr>compatible = Some (mn \<in> set (row_models row)),
              compat_sources = [\<lparr>label = ''Compatibility index (mock data)'', uri = None\<rparr>]\<rparr>
         | None \<Rightarrow>
             (case find (\<lambda>p. part_partNumber p = pn) parts of
                Some part \<Rightarrow>
                  if part_compatibleModels part \<noteq> []
                  then \<lparr>compatible = Some (mn \<in> set (map tnorm (part_compatibleModels part))),
                        compat_sources = [\<lparr>label = ''Sample catalog (mock data)'', uri = None\<rparr>]\<rparr>
                  else \<lparr>compatible = None,
                        compat_sources = [\<lparr>label = ''Compatibility index (mock data)'', uri = None\<rparr>]\<rparr>
              | None \<Rightarrow>
                  \<lparr>compatible = None,
                   compat_sources = [\<lparr>label = ''Compatibility index (mock data)'', uri = None\<rparr>]\<rparr>))"

subsection \<open>Guide search\<close>

text \<open>\<^verbatim>\<open>q.split(/\s+/).filter(Boolean)\<close>: the maximal runs of non-space characters.
  \<open>skip\<close> counts the bytes of a white-space character still to be passed over.\<close>

fun splitWords :: "nat \<Rightarrow> string \<Rightarrow> string \<Rightarrow> string list" where
  "splitWords skip acc [] = (if acc = [] then [] else [acc])"
| "splitWords skip acc (c # cs) =
     (if skip > 0 then splitWords (skip - 1) acc cs
      else if spaceLen (c # cs) > 0
      then (if acc = [] then splitWords (spaceLen (c # cs) - 1) [] cs
            else acc # splitWords (spaceLen (c # cs) - 1) [] cs)
      else splitWords 0 (acc @ [c]) cs)"

fun joinWith :: "string \<Rightarrow> string list \<Rightarrow> string" where
  "joinWith sep [] = []"
| "joinWith sep [x] = x"
| "joinWith sep (x # y # ys) = x @ sep @ joinWith sep (y # ys)"

definition snippetOrEmpty :: "Guide \<Rightarrow> string" where
  "snippetOrEmpty g = (case guide_snippet g of None \<Rightarrow> [] | Some s \<Rightarrow> s)"

definition scoreGuide :: "Guide \<Rightarrow> string \<Rightarrow> nat" where
  "scoreGuide g q =
     (let text = toLowerCase (guide_title g @ nl @ snippetOrEmpty g @ nl @ joinWith '' '' (guide_tags g));
          terms = splitWords 0 [] (toLowerCase q)
      in length (filter (\<lambda>t. str_includes text t) terms))"

definition modeFilter :: "GuideMode \<Rightarrow> Guide \<Rightarrow> bool" where
  "modeFilter mode g =
     (let t = toLowerCase (guide_title g @ '' '' @ snippetOrEmpty g);
          installHints = [''install'', ''replace'', ''remov'', ''mount'', ''screw'', ''panel'',
                          ''disconnect power'', ''reconnect''];
          troubleshootHints = [''not'', ''won't'', ''doesn't'', ''troubleshoot'', ''check'',
                               ''inspect'', ''diagnos'', ''symptom'', ''clog'', ''kink'',
                               ''error code'', ''reset''];
          looksInstall = list_ex (\<lambda>k. str_includes t k) installHints;
          looksTrouble = list_ex (\<lambda>k. str_includes t k) troubleshootHints
      in if guide_mode g \<noteq> Mode_general then guide_mode g = mode
         else if mode = Mode_install then looksInstall \<and> \<not> looksTrouble
         else looksTrouble)"

text \<open>\<^verbatim>\<open>dedupeGuides\<close> keeps the first guide of every key and drops guides without a key.\<close>

definition guideKey :: "Guide \<Rightarrow> string" where
  "guideKey g =
     (let k = toLowerCase (trim (guide_title g))
      in if k \<noteq> [] then k else toLowerCase (jsSlice0 60 (snippetOrEmpty g)))"

fun dedupeFrom :: "string list \<Rightarrow> Guide list \<Rightarrow> Guide list" where
  "dedupeFrom seen [] = []"
| "dedupeFrom seen (g # gs) =
     (let key = guideKey g
      in if key = [] then dedupeFrom seen gs
         else if key \<in> set seen then dedupeFrom seen gs
         else g # dedupeFrom (key # seen) gs)"

definition dedupeGuides :: "Guide list \<Rightarrow> Guide list" where
  "dedupeGuides guides = dedupeFrom [] guides"

text \<open>\<^verbatim>\<open>sort((a, b) => b.s - a.s)\<close> is a stable sort by descending score.\<close>

record GuideSearchResult =
  guides :: "Guide list"
  guide_sources :: "Source list"

definition toolSearchGuides ::
  "Guide list \<Rightarrow> string \<Rightarrow> Appliance \<Rightarrow> GuideMode option \<Rightarrow> nat option \<Rightarrow> GuideSearchResult" where
  "toolSearchGuides guidesTable query appliance mode topK0 =
     (let all = loadGuides guidesTable;
          topK = max 1 (min (case topK0 of None \<Rightarrow> 3 | Some k \<Rightarrow> k) 6);
          pool1 = (if appliance \<noteq> Unknown_appliance
                   then filter (\<lambda>g. guide_appliance g = appliance
                                     \<or> guide_appliance g = Unknown_appliance) all
                   else all);
          pool2 = (case mode of None \<Rightarrow> pool1 | Some m \<Rightarrow> filter (modeFilter m) pool1);
          ranked = map fst (sort_key (\<lambda>(g, s). - int s) (map (\<lambda>g. (g, scoreGuide g query)) pool2));
          picked = take topK (dedupeGuides ranked)
      in \<lparr>guides = picked,
          guide_sources = [\<lparr>label = ''Guide store (mock data)'',
                            uri = Some ''https://www.partselect.com/...''\<rparr>]\<rparr>)"

section \<open>External pump-sound classifier\<close>

text \<open>
  \<^verbatim>\<open>groqParsePumpSound\<close> of \<^verbatim>\<open>backend/src/agent/groqHelpers.ts\<close> sends a request and reads
  the answer. What the outside world does is a parameter: whether \<^verbatim>\<open>GROQ_API_KEY\<close> is
  set, and what each \<^verbatim>\<open>fetch\<close> for a text, raced against the 1200 ms timer of
  \<^verbatim>\<open>withTimeout\<close>, ends in: the timer fires first, the request is rejected, or a response
  arrives, with its \<^verbatim>\<open>ok\<close> flag and its body (\<open>None\<close> when \<^verbatim>\<open>resp.json()\<close> throws). The
  requests sent for a text are numbered from 0, and the function returns, with its answer,
  the number of requests sent once it is done. \<^verbatim>\<open>JSON.parse\<close> is a parameter as well
  (\<open>None\<close> when it throws). JSON values are the following; a number carries the text that
  \<^verbatim>\<open>String\<close> makes of it.
\<close>

datatype Json =
    JNull | JBool bool | JNum string | JStr string | JArr "Json list" | JObj "(string \<times> Json) list"

datatype FetchOutcome = Timed_out | Rejected | Response bool "Json option"

text \<open>\<^verbatim>\<open>v?.name\<close> and \<^verbatim>\<open>v?.[0]\<close>; \<open>None\<close> is \<^verbatim>\<open>undefined\<close>.\<close>

definition jsProp :: "string \<Rightarrow> Json option \<Rightarrow> Json option" where
  "jsProp name v = (case v of Some (JObj kvs) \<Rightarrow> map_of kvs name | _ \<Rightarrow> None)"

definition jsIndex0 :: "Json option \<Rightarrow> Json option" where
  "jsIndex0 v =
     (case v of
        Some (JArr xs) \<Rightarrow> (case xs of [] \<Rightarrow> None | x # _ \<Rightarrow> Some x)
      | Some (JStr s) \<Rightarrow> (case s of [] \<Rightarrow> None | c # _ \<Rightarrow> Some (JStr [c]))
      | Some (JObj kvs) \<Rightarrow> map_of kvs ''0''
      | _ \<Rightarrow> None)"

text \<open>\<^verbatim>\<open>String(v)\<close>; inside an array \<^verbatim>\<open>null\<close> is the empty text.\<close>

fun jsString :: "Json \<Rightarrow> string" where
  "jsString JNull = ''null''"
| "jsString (JBool b) = (if b then ''true'' else ''false'')"
| "jsString (JNum s) = s"
| "jsString (JStr s) = s"
| "jsString (JArr xs) = joinWith '','' (map (\<lambda>x. if x = JNull then [] else jsString x) xs)"
| "jsString (JObj kvs) = ''[object Object]''"

text \<open>\<^verbatim>\<open>s.match(/\{[\s\S]*\}/)\<close>: from the first opening brace to the last closing brace.\<close>

definition braceSlice :: "string \<Rightarrow> string option" where
  "braceSlice s =
     (let fromOpen = dropWhile (\<lambda>c. c \<noteq> CHR ''{'') s
      in if fromOpen = [] then None
         else (let inner = tl fromOpen;
                   back = dropWhile (\<lambda>c. c \<noteq> CHR ''}'') (rev inner)
               in if back = [] then None else Some (CHR ''{'' # rev back)))"

text \<open>\<^verbatim>\<open>safeJsonParse\<close>: \<open>Inr\<close> is the value returned (\<open>None\<close> for \<^verbatim>\<open>null\<close>), \<open>Inl\<close> an
  exception: the retry in the \<^verbatim>\<open>catch\<close> block calls \<^verbatim>\<open>s.match\<close>, which only a string has.\<close>

definition safeJsonParse :: "(string \<Rightarrow> Json option) \<Rightarrow> Json \<Rightarrow> unit + Json option" where
  "safeJsonParse jsonParse s =
     (case jsonParse (jsString s) of
        Some v \<Rightarrow> Inr (Some v)
      | None \<Rightarrow>
          (case s of
             JStr str \<Rightarrow>
               (case braceSlice str of
                  None \<Rightarrow> Inr None
                | Some m \<Rightarrow> Inr (jsonParse m))
           | _ \<Rightarrow> Inl ()))"

definition normalizePumpSound :: "Json option \<Rightarrow> PumpSound" where
  "normalizePumpSound x =
     (let v = trim (toLowerCase (case x of None \<Rightarrow> [] | Some JNull \<Rightarrow> [] | Some j \<Rightarrow> jsString j))
      in if v = ''running'' then Running
         else if v = ''humming'' then Humming
         else if v = ''silent'' then Silent
         else Unknown_sound)"

record GroqWorld =
  GROQ_API_KEY :: "string option"
  fetchOutcome :: "string \<Rightarrow> nat \<Rightarrow> FetchOutcome"
  jsonParse :: "string \<Rightarrow> Json option"

text \<open>\<open>groqParsePumpSoundFrom w text n\<close> is a call made when \<open>n\<close> requests for the text have
  been sent before; \<open>groqParsePumpSound\<close> is the answer of the first call.\<close>

definition groqParsePumpSoundFrom :: "GroqWorld \<Rightarrow> string \<Rightarrow> nat \<Rightarrow> PumpSound \<times> nat" where
  "groqParsePumpSoundFrom w text n =
     (case GROQ_API_KEY w of
        None \<Rightarrow> (Unknown_sound, n)
      | Some apiKey \<Rightarrow>
          if apiKey = [] then (Unknown_sound, n)
          else (case fetchOutcome w text n of
                  Timed_out \<Rightarrow> (Unknown_sound, Suc n)
                | Rejected \<Rightarrow> (Unknown_sound, Suc n)
                | Response ok body \<Rightarrow>
                    if \<not> ok then (Unknown_sound, Suc n)
                    else (case body of
                            None \<Rightarrow> (Unknown_sound, Suc n)
                          | Some data \<Rightarrow>
                              (let c = jsProp ''content'' (jsProp ''message''
                                         (jsIndex0 (jsProp ''choices'' (Some data))));
                                   contentV = (case c of None \<Rightarrow> JStr [] | Some JNull \<Rightarrow> JStr []
                                              | Some j \<Rightarrow> j)
                               in case safeJsonParse (jsonParse w) contentV of
                                    Inl _ \<Rightarrow> (Unknown_sound, Suc n)
                                  | Inr obj \<Rightarrow> (normalizePumpSound (jsProp ''pump_sound'' obj), Suc n)))))"

definition groqParsePumpSound :: "GroqWorld \<Rightarrow> string \<Rightarrow> PumpSound" where
  "groqParsePumpSound w text = fst (groqParsePumpSoundFrom w text 0)"

section \<open>The chat turn\<close>

record Extracted =
  ex_partNumber :: "string option"
  ex_modelNumber :: "string option"
  ex_appliance :: Appliance

record Meta =
  inDomain :: bool
  intent :: Intent
  extracted :: Extracted
  toolsUsed :: "string list"
  sources :: "Source list"

record Card =
  card_partNumber :: string
  card_name :: string
  card_price :: "string option"
  card_imageUrl :: "string option"
  card_compatibleModels :: "string list"

record ChatResponse =
  reply :: string
  meta :: Meta
  cards :: "Card list"

text \<open>
  Everything outside the router that a turn can depend on: the three data tables, the
  classifier's world, and the draw of \<^verbatim>\<open>Math.random()\<close> in \<^verbatim>\<open>createSupportTicketDemo\<close>,
  given as the number \<^verbatim>\<open>Math.floor(Math.random() * 900000)\<close>, which is below 900000.
\<close>

record World =
  partsTable :: "Part list"
  compatTable :: "CompatibilityRow list"
  guidesTable :: "Guide list"
  groqWorld :: GroqWorld
  ticketDraw :: nat

subsection \<open>Demo ticket tool\<close>

function showNat :: "nat \<Rightarrow> string" where
  "showNat n = (if n < 10 then [''0123456789'' ! n] else showNat (n div 10) @ [''0123456789'' ! (n mod 10)])"
  by pat_completeness auto
termination
  by (relation "measure (\<lambda>n. n)") auto

declare showNat.simps [simp del]

record Ticket =
  ticketId :: string
  ticket_sources :: "Source list"

text \<open>The arguments of the ticket (email, summary, model and part number) only go into
  its \<^verbatim>\<open>data\<close>, which the router does not read.\<close>

definition createSupportTicketDemo :: "nat \<Rightarrow> Ticket" where
  "createSupportTicketDemo draw =
     \<lparr>ticketId = ''TCK-'' @ showNat (100000 + draw),
      ticket_sources = [\<lparr>label = ''Support handoff (demo)'', uri = None\<rparr>]\<rparr>"

subsection \<open>Context leakage guard\<close>

definition shouldClearAwaiting :: "Awaiting option \<Rightarrow> Intent \<Rightarrow> Appliance \<Rightarrow> string \<Rightarrow> bool" where
  "shouldClearAwaiting awaiting currentIntent currentAppliance message =
     (case awaiting of
        None \<Rightarrow> False
      | Some k \<Rightarrow>
          if hasGlobalIntentKeyword message then True
          else if extractPartNumberFromLinkOrText message \<noteq> None \<or> extractModelNumber message \<noteq> None
             \<or> extractOrderId message \<noteq> None \<or> extractZip message \<noteq> None
          then True
          else if currentIntent = Troubleshooting
             \<and> (k = Install_step \<or> k = Clamp_type \<or> k = Panel_fastener \<or> k = Connector_latch_side)
          then True
          else if currentAppliance = Refrigerator \<and> isAwaitingTroubleshoot awaiting then True
          else False)"

subsection \<open>Main\<close>

text \<open>
  \<^verbatim>\<open>handleChatTurn\<close> is one long function with early returns. The model follows its
  sections: the values computed before the first return (\<open>resolveTurn\<close>), the domain
  filter (\<open>domainAllowed\<close>), the acknowledgement replies (\<open>ackReply\<close>), the follow-up
  pre-routing, which returns a reply or falls through with the intent (\<open>followUp\<close>), and
  the handlers of the intents (\<open>routeIntent\<close>).
\<close>

record Turn =
  t_awaiting :: "Awaiting option"
  t_appliance :: Appliance
  t_partNumber :: "string option"
  t_modelNumber :: "string option"
  t_hasIncompletePart :: bool
  t_shortPart :: "string option"
  t_repeats :: nat
  t_intent0 :: Intent
  t_metaBase :: Meta

text \<open>The three stickiness rules and the part-plus-model rule, applied one after the other
  to \<^verbatim>\<open>intent0\<close>.\<close>

definition stickInstall :: "Awaiting option \<Rightarrow> string \<Rightarrow> Intent \<Rightarrow> Intent" where
  "stickInstall awaiting message intent0 =
     (if awaiting \<noteq> None \<and> isAwaitingInstall awaiting \<and> \<not> isClearIntentShift message
      then (if isInstallQuickReply message \<or> intent0 = Unknown_intent \<or> looksLikeAck message
            then Installation_help else intent0)
      else intent0)"

definition stickTroubleshoot :: "Awaiting option \<Rightarrow> string \<Rightarrow> Intent \<Rightarrow> Intent" where
  "stickTroubleshoot awaiting message intent0 =
     (if awaiting \<noteq> None \<and> isAwaitingTroubleshoot awaiting \<and> \<not> isClearIntentShift message
      then (if intent0 = Unknown_intent \<or> looksLikeAck message \<or> parseYesNo message \<noteq> None
            then Troubleshooting else intent0)
      else intent0)"

definition stickOrder :: "Awaiting option \<Rightarrow> string \<Rightarrow> Intent \<Rightarrow> Intent" where
  "stickOrder awaiting message intent0 =
     (if awaiting \<noteq> None \<and> isAwaitingOrder awaiting \<and> \<not> isClearIntentShift message
      then (if intent0 = Unknown_intent \<or> looksLikeAck message then Order_support else intent0)
      else intent0)"

definition partAndModel :: "string \<Rightarrow> Intent \<Rightarrow> Intent" where
  "partAndModel message intent0 =
     (if intent0 = Unknown_intent \<and> extractPartNumberFromLinkOrText message \<noteq> None
         \<and> extractModelNumber message \<noteq> None
      then Compatibility_check else intent0)"

definition resolveTurn :: "string \<Rightarrow> ChatMessage list \<Rightarrow> Turn" where
  "resolveTurn message history =
     (let awaiting0 = inferDialogState history;
          appliance = inferPinnedAppliance message history;
          ents = resolveEntities message history appliance;
          repeats = countUserRepeatsExcludingCurrent history message;
          raw = inferIntent message;
          awaiting = (if shouldClearAwaiting awaiting0 raw appliance message then None else awaiting0);
          intent0 = partAndModel message
                      (stickOrder awaiting message
                        (stickTroubleshoot awaiting message
                          (stickInstall awaiting message raw)))
      in \<lparr>t_awaiting = awaiting, t_appliance = appliance,
          t_partNumber = partNumber ents, t_modelNumber = modelNumber ents,
          t_hasIncompletePart = hasIncompletePart ents, t_shortPart = shortPart ents,
          t_repeats = repeats, t_intent0 = intent0,
          t_metaBase = \<lparr>inDomain = True, intent = intent0,
                        extracted = \<lparr>ex_partNumber = partNumber ents,
                                     ex_modelNumber = modelNumber ents,
                                     ex_appliance = appliance\<rparr>,
                        toolsUsed = [], sources = []\<rparr>\<rparr>)"

definition domainAllowed :: "string \<Rightarrow> Turn \<Rightarrow> bool" where
  "domainAllowed message t =
     (let yn = parseYesNo message; lc = toLowerCase message
      in t_awaiting t \<noteq> None
         \<or> looksLikeSmallTalk message
         \<or> looksLikeAck message
         \<or> wantsHuman message
         \<or> wantsReturnRefundShipping message
         \<or> looksLikeUrl message
         \<or> yn \<noteq> None
         \<or> isInstallQuickReply message
         \<or> norm message \<in> set [''humming'', ''buzzing'', ''silent'', ''stuck'', ''moving'']
         \<or> str_includes lc ''dishwasher''
         \<or> str_includes lc ''refrigerator''
         \<or> str_includes lc ''fridge''
         \<or> str_includes lc ''freezer''
         \<or> str_includes lc ''ice maker''
         \<or> str_includes lc ''install''
         \<or> str_includes lc ''compatible''
         \<or> str_includes lc ''troubleshoot''
         \<or> str_includes lc ''drain''
         \<or> str_includes lc ''pump''
         \<or> str_includes lc ''loop''
         \<or> str_includes lc ''air gap''
         \<or> str_includes lc ''sink''
         \<or> str_includes lc ''tailpiece''
         \<or> str_includes lc ''disposal''
         \<or> str_includes lc ''knockout''
         \<or> str_includes lc ''ps''
         \<or> t_partNumber t \<noteq> None
         \<or> t_modelNumber t \<noteq> None
         \<or> extractOrderId message \<noteq> None
         \<or> extractZip message \<noteq> None)"

text \<open>The reply texts that the source writes in place, each under a name; a question that
  the source writes twice (in the acknowledgement handler and in the slot's own handler)
  has one name.\<close>

definition askPumpSound :: string where
  "askPumpSound =
      ''When it tries to drain, is the pump running, humming/buzzing, or totally silent?''"

definition askDrainSpeed :: string where
  "askDrainSpeed =
      ''Which one is it: standing water, or drains slowly?''"

definition askHoseSetup :: string where
  "askHoseSetup =
      ''Do you have a high loop, an air gap, or neither? (And is it connected to the sink tailpiece or garbage disposal?)''"

definition askSinkConnection :: string where
  "askSinkConnection =
      ''Are you connected to a garbage disposal, or directly to the sink tailpiece?''"

definition askDisposalFlow :: string where
  "askDisposalFlow =
      ''Do you see strong water flow from the dishwasher when it tries to drain (yes/no)?''"

definition askKnockout :: string where
  "askKnockout =
      ''Is the disposal knockout plug already removed? (yes/no)''"

definition askTailpieceGunk :: string where
  "askTailpieceGunk =
      ''If you disconnect the hose at the tailpiece, is it clogged with gunk (yes/no)?''"

definition askDidItFix :: string where
  "askDidItFix =
      ''After that change, does it drain normally now? (yes/no)''"

definition askInstallStep :: string where
  "askInstallStep =
      ''Which step are you on: panel, clamps, or connector?''"

definition askClampType :: string where
  "askClampType =
      ''Is it a spring clamp (two tabs) or a screw clamp?''"

definition askPanelFastener :: string where
  "askPanelFastener =
      ''Do you see screws, or plastic clips?''"

definition askLatchSide :: string where
  "askLatchSide =
      ''Is the latch on the top, or on the side?''"

definition askPanelStillStuck :: string where
  "askPanelStillStuck =
      (''Do the screws come out but the panel still won'' @ rsquo @ ''t drop? (yes/no)'')"

definition askMovingOrStuck :: string where
  "askMovingOrStuck =
      ''Is it moving at all, or totally stuck?''"

definition replyAckDefault :: string where
  "replyAckDefault =
      (thumbsup @ '' Okay. Want help with compatibility, installation, troubleshooting, order support, or a PS part number?'')"

definition askFreezerWarming :: string where
  "askFreezerWarming =
      ''Is the freezer also warming up? (yes/no)''"

definition replyFreezerWarmingYes :: string where
  "replyFreezerWarmingYes =
      (''If BOTH fridge + freezer are warming up, it'' @ rsquo @ ''s usually a cooling-system issue:'' @ nl
      @ ''- Check if the condenser fan is running'' @ nl
      @ ''- Clean condenser coils'' @ nl
      @ ''- Make sure the compressor is running (low hum/vibration)'' @ nl
      @ ''- Check for heavy frost on the freezer back panel (defrost issue)'' @ nl @ nl
      @ ''Do you hear the condenser fan near the bottom/back running? (yes/no)'')"

definition replyFreezerWarmingNo :: string where
  "replyFreezerWarmingNo =
      (''If freezer is OK but fridge is warm, it'' @ rsquo @ ''s often an airflow issue:'' @ nl
      @ ''- Vents blocked by food'' @ nl
      @ ''- Damper stuck closed'' @ nl
      @ ''- Evaporator fan not running'' @ nl @ nl
      @ ''Do you feel airflow from the fridge vents, and do you hear a small fan inside the freezer? (yes/no)'')"

definition replyPumpHumming :: string where
  "replyPumpHumming =
      (''Humming usually means the pump is trying to run but water isn'' @ rsquo @ ''t moving.'' @ nl
      @ ''Common causes:'' @ nl
      @ ''- blockage at filter/sump or pump inlet'' @ nl
      @ ''- stuck check valve'' @ nl
      @ ''- clogged drain hose / disposal connection'' @ nl @ nl
      @ ''Is there standing water, or does it drain slowly?'')"

definition askChoice :: string where
  "askChoice =
      ''Which one do you want to work on: compatibility, install, or the symptom?''"

definition replySpringClamp :: string where
  "replySpringClamp =
      (''Spring clamp: grab the two tabs with pliers, squeeze to open, slide it back on the hose, then twist the hose gently to break the seal.'' @ nl
      @ ''If it'' @ rsquo @ ''s stuck, a tiny flathead can help gently lift the hose edge (don'' @ rsquo @ ''t puncture it).'')"

definition replyScrewClamp :: string where
  "replyScrewClamp =
      (''Screw clamp: loosen the screw a few turns (don'' @ rsquo @ ''t remove it), slide the clamp back, then twist the hose to break the seal.'' @ nl
      @ ''If the hose won'' @ rsquo @ ''t budge, wiggle + twist instead of pulling straight.'')"

definition replyPanelStuckYes :: string where
  "replyPanelStuckYes =
      (''Got it '' @ mdash @ '' screws come out but panel won'' @ rsquo @ ''t drop.'' @ nl
      @ ''Most common causes:'' @ nl
      @ ''- A hidden clip/retainer near the sides'' @ nl
      @ ''- The toe-kick overlaps the access panel (two-piece panel)'' @ nl
      @ ''- Panel needs to tilt out first, then slide down'' @ nl @ nl
      @ ''Try this: pull the *bottom edge* slightly toward you to unhook, then slide the panel down.'' @ nl
      @ ''Do you see any side clips you can press in? (yes/no)'')"

definition replyPanelStuckNo :: string where
  "replyPanelStuckNo =
      (''If screws don'' @ rsquo @ ''t come out, check:'' @ nl
      @ ''- Are they Torx (T15/T20)?'' @ nl
      @ ''- Any screws tucked under the very bottom lip/corners?'' @ nl
      @ ''- Are you turning the right direction (counter-clockwise)?'' @ nl @ nl
      @ ''Are the screws Torx? (yes/no)'')"

definition replyConnectorMoving :: string where
  "replyConnectorMoving =
      (''If it'' @ rsquo @ ''s moving, keep steady pressure while holding the latch fully depressed.'' @ nl
      @ ''Tip: rock it gently side-to-side (tiny motions) while pulling straight back '' @ mdash @ '' don'' @ rsquo @ ''t yank the wires.'' @ nl @ nl
      @ ''Once it'' @ rsquo @ ''s off, do you see corrosion/dirt on the pins? (yes/no)'')"

definition replyConnectorStuck :: string where
  "replyConnectorStuck =
      (''Totally stuck usually means the latch isn'' @ rsquo @ ''t fully released or there'' @ rsquo @ ''s a secondary lock.'' @ nl
      @ ''Try:'' @ nl
      @ ''1) Push the connector *in* slightly first (relieves tension)'' @ nl
      @ ''2) Press/hold the latch HARD'' @ nl
      @ ''3) Pull straight out while wiggling'' @ nl
      @ ''4) If safe, use a small flathead to press the latch tab (don'' @ rsquo @ ''t pry the plastic housing)'' @ nl @ nl
      @ ''Do you have enough access to press the latch firmly, or is it blocked by the frame? (blocked/accessible)'')"

definition askLatchWhere :: string where
  "askLatchWhere =
      (''Got it '' @ mdash @ '' where is the latch: top, or side?'')"

definition replyNoLatch :: string where
  "replyNoLatch =
      (''If you don'' @ rsquo @ ''t see a latch, some connectors use a small hidden tab underneath.'' @ nl
      @ ''Try feeling for a tab and press it while pulling straight out (don'' @ rsquo @ ''t pull the wires).'' @ nl @ nl
      @ ''Do you see any small tab on the underside?'')"

definition replyOrderBasic :: string where
  "replyOrderBasic =
      (''I can help with basic order questions in this demo.'' @ nl
      @ ''If you want a human follow-up, say '' @ ldquo @ ''human'' @ rdquo @ '' and send your email '' @ mdash @ '' I'' @ rsquo @ ''ll open a demo ticket.'' @ nl
      @ ''If it'' @ rsquo @ ''s about shipping/return, include order number + ZIP.'')"

definition askPartAndModel :: string where
  "askPartAndModel =
      (''Send the part number (PS'' @ hellip @ '') and your model number, and I'' @ rsquo @ ''ll check compatibility.'')"

definition askPartNumber :: string where
  "askPartNumber =
      (''What'' @ rsquo @ ''s the part number (PS'' @ hellip @ '' or PartSelect link)?'')"

definition askModelNumber :: string where
  "askModelNumber =
      (''What'' @ rsquo @ ''s your model number?'')"

definition compatFollowUp :: string where
  "compatFollowUp =
      (nl @ ''Want install steps, or are you troubleshooting a symptom?'')"

definition askPartForInstall :: string where
  "askPartForInstall =
      (''What'' @ rsquo @ ''s the full PartSelect part number (starts with PS'' @ hellip @ '') or paste the PartSelect link?'')"

definition replyIceMaker :: string where
  "replyIceMaker =
      (''Ice maker not working '' @ mdash @ '' quick checks:'' @ nl @ ''- Water valve open and line not kinked'' @ nl @ ''- Freezer is cold enough (around 0'' @ degree @ ''F)'' @ nl @ ''- Fill tube not frozen; replace filter if overdue'' @ nl @ nl @ ''If you have it, what'' @ rsquo @ ''s the fridge model number?'')"

definition replyFridgeCooling :: string where
  "replyFridgeCooling =
      (''Fridge not cooling well '' @ mdash @ '' quick checks:'' @ nl @ ''- Vents not blocked by food'' @ nl @ ''- Clean condenser coils'' @ nl @ ''- Check whether the condenser fan is running'' @ nl @ nl @ ''Is the freezer also warming up?'')"

definition askPartForLookup :: string where
  "askPartForLookup =
      (''If you want to look up a part, paste the full PS part number (PS + 5'' @ ndash @ ''10 digits) or the PartSelect link.'')"

definition replyNoAlternatives :: string where
  "replyNoAlternatives =
      (''this demo doesn'' @ rsquo @ ''t have a real cross-reference '' @ ldquo @ ''alternatives'' @ rdquo @ '' catalog.'' @ nl @ nl
      @ ''What I can do instead:'' @ nl
      @ ''- help you find same-category parts that list your model'' @ nl
      @ ''- tell you what specs to match (connector, mounting, hose size)'' @ nl
      @ ''- talk through OEM vs aftermarket trade-offs'')"

definition askModelForCompatibility :: string where
  "askModelForCompatibility =
      ''If you share your model number, I can check compatibility.''"

definition replyOutOfDomain :: string where
  "replyOutOfDomain =
      (''I'' @ rsquo @ ''m focused on PartSelect refrigerator and dishwasher parts (compatibility, install, troubleshooting, basic order support).'' @ nl
      @ ''If you share a PS part number or model number, I can help from there.'')"

definition replyHumanHandoff :: string where
  "replyHumanHandoff =
      (''Sure '' @ mdash @ '' I can set up a human follow-up (demo ticket).'' @ nl
      @ ''Just send your email in the next message.'' @ nl
      @ ''Example: '' @ dquote @ ''name@email.com WDT780SAEM1 PS11752778'' @ dquote)"

definition respond :: "string \<Rightarrow> Meta \<Rightarrow> ChatResponse" where
  "respond r m = \<lparr>reply = r, meta = m, cards = []\<rparr>"

definition ackReply :: "Turn \<Rightarrow> ChatResponse" where
  "ackReply t =
     (let metaBase = t_metaBase t;
          ts = metaBase\<lparr>intent := Troubleshooting\<rparr>;
          ih = metaBase\<lparr>intent := Installation_help\<rparr>
      in case t_awaiting t of
           Some (Order_info ask) \<Rightarrow> respond (replyOrderIntake ask) (metaBase\<lparr>intent := Order_support\<rparr>)
         | Some Pump_sound \<Rightarrow> respond askPumpSound ts
         | Some Dishwasher_drain_speed \<Rightarrow> respond askDrainSpeed ts
         | Some Drain_hose_setup \<Rightarrow> respond askHoseSetup ts
         | Some Sink_connection_type \<Rightarrow> respond askSinkConnection ts
         | Some Disposal_flow_yesno \<Rightarrow> respond askDisposalFlow ts
         | Some Disposal_knockout_yesno \<Rightarrow> respond askKnockout ts
         | Some Tailpiece_gunk_yesno \<Rightarrow> respond askTailpieceGunk ts
         | Some Did_it_fix_yesno \<Rightarrow> respond askDidItFix ts
         | Some Install_step \<Rightarrow> respond askInstallStep ih
         | Some Clamp_type \<Rightarrow> respond askClampType ih
         | Some Panel_fastener \<Rightarrow> respond askPanelFastener ih
         | Some Connector_latch_side \<Rightarrow> respond askLatchSide ih
         | Some Panel_still_wont_drop_yesno \<Rightarrow> respond askPanelStillStuck ih
         | Some Connector_moving_or_stuck \<Rightarrow> respond askMovingOrStuck ih
         | _ \<Rightarrow> respond replyAckDefault (metaBase\<lparr>intent := Unknown_intent\<rparr>))"

text \<open>Follow-up pre-routing. Each handler of the source tests \<^verbatim>\<open>awaiting?.kind\<close>, so at
  most one of them runs; \<open>Inl\<close> is its reply, \<open>Inr\<close> the intent with which the turn falls
  through to the intent handlers (only the \<^verbatim>\<open>choice\<close> handler changes it).\<close>

definition followUp :: "World \<Rightarrow> string \<Rightarrow> ChatMessage list \<Rightarrow> Turn \<Rightarrow> ChatResponse + Intent" where
  "followUp w message history t =
     (let metaBase = t_metaBase t;
          ts = metaBase\<lparr>intent := Troubleshooting\<rparr>;
          ih = metaBase\<lparr>intent := Installation_help\<rparr>;
          os = metaBase\<lparr>intent := Order_support\<rparr>;
          shift = isClearIntentShift message;
          through = Inr (t_intent0 t)
      in case t_awaiting t of
           None \<Rightarrow> through
         | Some (Order_info ask) \<Rightarrow>
             (let oid = extractOrderId message; zipCode = extractZip message
              in if ask = Order_id \<and> oid = None \<and> \<not> shift then Inl (respond (replyOrderIntake Order_id) os)
                 else if ask = Zip \<and> zipCode = None \<and> \<not> shift then Inl (respond (replyOrderIntake Zip) os)
                 else if ask = Both \<and> (oid = None \<or> zipCode = None) \<and> \<not> shift
                   then Inl (respond (replyOrderIntake Both) os)
                 else Inl (respond (replyOrderStub oid zipCode) os))
         | Some Dishwasher_drain_speed \<Rightarrow>
             (case parseDrainSpeed message of
                Some k \<Rightarrow> Inl (respond (troubleshootDishwasherDrainSpeedFollowup k) ts)
              | None \<Rightarrow> if \<not> shift then Inl (respond askDrainSpeed ts) else through)
         | Some Fridge_freezer_warming_yesno \<Rightarrow>
             (if \<not> shift then
                (case parseYesNo message of
                   None \<Rightarrow> Inl (respond askFreezerWarming ts)
                 | Some True \<Rightarrow> Inl (respond replyFreezerWarmingYes ts)
                 | Some False \<Rightarrow> Inl (respond replyFreezerWarmingNo ts))
              else through)
         | Some Pump_sound \<Rightarrow>
             (if \<not> shift then
                (let ps0 = parsePumpSound message;
                     llm = (if ps0 = Unknown_sound then groqParsePumpSound (groqWorld w) message
                            else Unknown_sound);
                     usedGroq = (ps0 = Unknown_sound \<and> llm \<noteq> Unknown_sound);
                     ps = (if usedGroq then llm else ps0);
                     tools = (if usedGroq then toolsUsed metaBase @ [''groqParsePumpSound'']
                              else toolsUsed metaBase);
                     m = metaBase\<lparr>intent := Troubleshooting, toolsUsed := tools\<rparr>
                 in if ps = Humming then Inl (respond replyPumpHumming m)
                    else if ps = Running then Inl (respond (troubleshootDishwasherDrainPumpFollowup True) m)
                    else if ps = Silent then Inl (respond (troubleshootDishwasherDrainPumpFollowup False) m)
                    else Inl (respond askPumpSound m))
              else through)
         | Some Drain_hose_setup \<Rightarrow>
             (if \<not> shift then
                (let hs = parseDrainHoseSetup message
                 in if hs = Unknown_setup then Inl (respond askHoseSetup ts)
                    else Inl (respond (troubleshootDishwasherHoseSetupFollowup hs) ts))
              else through)
         | Some Sink_connection_type \<Rightarrow>
             (if \<not> shift then
                (let k = parseSinkConnectionType message
                 in if k = Unknown_connection then Inl (respond askSinkConnection ts)
                    else Inl (respond (troubleshootDishwasherSinkConnectionFollowup k) ts))
              else through)
         | Some Disposal_flow_yesno \<Rightarrow>
             (if \<not> shift then
                (case parseYesNo message of
                   None \<Rightarrow> Inl (respond askDisposalFlow ts)
                 | Some yn2 \<Rightarrow> Inl (respond (replyDisposalFlowYesNo yn2) ts))
              else through)
         | Some Disposal_knockout_yesno \<Rightarrow>
             (if \<not> shift then
                (case parseYesNo message of
                   None \<Rightarrow> Inl (respond askKnockout ts)
                 | Some yn2 \<Rightarrow> Inl (respond (replyDisposalKnockoutYesNo yn2) ts))
              else through)
         | Some Tailpiece_gunk_yesno \<Rightarrow>
             (if \<not> shift then
                (case parseYesNo message of
                   None \<Rightarrow> Inl (respond askTailpieceGunk ts)
                 | Some yn2 \<Rightarrow> Inl (respond (replyTailpieceGunkYesNo yn2) ts))
              else through)
         | Some Did_it_fix_yesno \<Rightarrow>
             (if \<not> shift then
                (case parseYesNo message of
                   None \<Rightarrow> Inl (respond askDidItFix ts)
                 | Some yn2 \<Rightarrow> Inl (respond (replyDidItFixClose yn2) ts))
              else through)
         | Some (Choice options) \<Rightarrow>
             (case parseChoice message of
                None \<Rightarrow> Inl (respond askChoice (metaBase\<lparr>intent := Unknown_intent\<rparr>))
              | Some choice \<Rightarrow>
                  Inr (if choice = Compatibility then Compatibility_check
                       else if choice = Install then Installation_help else Troubleshooting))
         | Some Panel_fastener \<Rightarrow>
             (if \<not> shift then
                (case parsePanelFastener message of
                   None \<Rightarrow> Inl (respond askPanelFastener ih)
                 | Some k \<Rightarrow> Inl (respond (replyPanelFastenerHelp k) ih))
              else through)
         | Some Clamp_type \<Rightarrow>
             (if \<not> shift then
                (case parseClampType message of
                   None \<Rightarrow> Inl (respond askClampType ih)
                 | Some ct \<Rightarrow>
                     if ct = Spring then Inl (respond replySpringClamp ih)
                     else Inl (respond replyScrewClamp ih))
              else through)
         | Some Panel_still_wont_drop_yesno \<Rightarrow>
             (if \<not> shift then
                (case parseYesNo message of
                   None \<Rightarrow> Inl (respond askPanelStillStuck ih)
                 | Some True \<Rightarrow> Inl (respond replyPanelStuckYes ih)
                 | Some False \<Rightarrow> Inl (respond replyPanelStuckNo ih))
              else through)
         | Some Connector_moving_or_stuck \<Rightarrow>
             (if \<not> shift then
                (let ms = parseMovingOrStuck message
                 in if ms = Unknown_motion then Inl (respond askMovingOrStuck ih)
                    else if ms = Moving then Inl (respond replyConnectorMoving ih)
                    else Inl (respond replyConnectorStuck ih))
              else through)
         | Some Connector_latch_side \<Rightarrow>
             (if \<not> shift then
                (case parseLatchSide message of
                   Some side \<Rightarrow> Inl (respond (replyConnectorLatchHelp side) ih)
                 | None \<Rightarrow>
                     (case parseYesNo message of
                        Some True \<Rightarrow> Inl (respond askLatchWhere ih)
                      | Some False \<Rightarrow> Inl (respond replyNoLatch ih)
                      | None \<Rightarrow> Inl (respond askLatchSide ih)))
              else through)
         | Some Install_step \<Rightarrow>
             (if \<not> shift then
                (case detectInstallStepFollowup history message of
                   Some step \<Rightarrow> Inl (respond (replyInstallStepHelp step) ih)
                 | None \<Rightarrow> Inl (respond askInstallStep ih))
              else through))"

text \<open>The handlers of the intents, in the order of the source: order support,
  compatibility, installation, troubleshooting, part lookup, and the home reply.\<close>

definition compatibilityReply :: "string \<Rightarrow> string \<Rightarrow> bool option \<Rightarrow> string" where
  "compatibilityReply pn mn ok =
     (if ok = Some True then (''Yes '' @ mdash @ '' '' @ pn @ '' looks compatible with '' @ mn @ ''.'')
      else if ok = Some False then (''No '' @ mdash @ '' '' @ pn @ '' doesn'' @ rsquo @ ''t look compatible with '' @ mn @ '' in this demo catalog.'')
      else (''I can'' @ rsquo @ ''t confirm compatibility for '' @ pn @ '' with '' @ mn @ '' from the current demo index.''))"

definition cardOf :: "Part \<Rightarrow> Card" where
  "cardOf p = \<lparr>card_partNumber = part_partNumber p, card_name = part_name p,
               card_price = part_price p, card_imageUrl = part_imageUrl p,
               card_compatibleModels = part_compatibleModels p\<rparr>"

text \<open>An optional text is truthy when it is there and not empty.\<close>

definition orEmpty :: "string option \<Rightarrow> string" where
  "orEmpty v = (case v of None \<Rightarrow> [] | Some s \<Rightarrow> s)"

definition present :: "string option \<Rightarrow> bool" where
  "present v = (orEmpty v \<noteq> [])"

definition routeIntent :: "World \<Rightarrow> string \<Rightarrow> Turn \<Rightarrow> Intent \<Rightarrow> ChatResponse" where
  "routeIntent w message t intent0 =
     (let metaBase = t_metaBase t;
          appliance = t_appliance t
      in if intent0 = Order_support then
           (let orderId = extractOrderId message; zipCode = extractZip message
            in if orderId = None \<and> zipCode = None \<and> wantsReturnRefundShipping message
               then respond (replyOrderIntake Both) (metaBase\<lparr>intent := Order_support\<rparr>)
               else if orderId \<noteq> None \<or> zipCode \<noteq> None
               then respond (replyOrderStub orderId zipCode) (metaBase\<lparr>intent := Order_support\<rparr>)
               else respond replyOrderBasic metaBase)
         else if intent0 = Compatibility_check then
           (if \<not> present (t_partNumber t) \<or> \<not> present (t_modelNumber t)
            then (if \<not> present (t_partNumber t) \<and> \<not> present (t_modelNumber t)
                  then respond askPartAndModel (metaBase\<lparr>intent := Compatibility_check\<rparr>)
                  else if \<not> present (t_partNumber t)
                  then respond askPartNumber (metaBase\<lparr>intent := Compatibility_check\<rparr>)
                  else respond askModelNumber (metaBase\<lparr>intent := Compatibility_check\<rparr>))
            else
              (let pn = orEmpty (t_partNumber t);
                   mn = orEmpty (t_modelNumber t);
                   r = toolCheckCompatibility (compatTable w) (partsTable w) pn mn
               in respond (compatibilityReply pn mn (compatible r)
                           @ compatFollowUp)
                    (metaBase\<lparr>intent := Compatibility_check,
                               toolsUsed := [''toolCheckCompatibility''],
                               sources := compat_sources r\<rparr>)))
         else if intent0 = Installation_help then
           (if \<not> present (t_partNumber t) then respond askPartForInstall metaBase
            else
                  (let pn = orEmpty (t_partNumber t);
                       gs = toolSearchGuides (guidesTable w) message appliance (Some Mode_install) (Some 2);
                       snippet = trim (case guides gs of [] \<Rightarrow> [] | g # _ \<Rightarrow> snippetOrEmpty g);
                       looksUseless = (snippet = []
                                       \<or> toLowerCase snippet = ''see guide for details.''
                                       \<or> toLowerCase snippet = ''steps available in guide.''
                                       \<or> jsLength snippet < 12);
                       m = metaBase\<lparr>intent := Installation_help, toolsUsed := [''toolSearchGuides''],
                                     sources := guide_sources gs\<rparr>
                   in if looksUseless
                      then respond (if t_repeats t \<ge> 1
                                    then compactInstallRepeatVariant pn (t_modelNumber t) (t_repeats t)
                                    else compactInstallSteps pn (t_modelNumber t)) m
                      else respond
                             (''For '' @ pn
                              @ (if present (t_modelNumber t) then '' ('' @ orEmpty (t_modelNumber t) @ '')'' else [])
                              @ ('', a key step is usually:'' @ nl)
                              @ jsSlice0 220 (replaceAll (rx_spaces 1) '' '' snippet)
                              @ (if jsLength snippet > 220 then hellip else [])
                              @ nl @ nl
                              @ askInstallStep) m))
         else if intent0 = Troubleshooting then
           (if appliance = Dishwasher
            then respond (troubleshootDishwasher (t_modelNumber t) (t_repeats t \<ge> 1))
                   (metaBase\<lparr>intent := Troubleshooting\<rparr>)
            else
              (let lc = toLowerCase message;
                   topicIce = (str_includes lc ''ice maker'' \<or> str_includes lc ''icemaster''
                               \<or> str_includes lc ''ice maker not working'')
               in respond (if topicIce then replyIceMaker
                           else replyFridgeCooling)
                    (metaBase\<lparr>intent := Troubleshooting\<rparr>)))
         else if intent0 = Part_lookup then
           (case extractPartNumberFromLinkOrText message of
              None \<Rightarrow> respond askPartForLookup metaBase
            | Some explicitPart \<Rightarrow>
                (let r = toolLookupPart (partsTable w) explicitPart;
                     m = metaBase\<lparr>intent := Part_lookup, toolsUsed := [''toolLookupPart''],
                                   sources := lookup_sources r\<rparr>
                 in case lookup_part r of
                      None \<Rightarrow> respond (''I can'' @ rsquo @ ''t find '' @ explicitPart @ '' in the demo catalog. If you paste the PartSelect link, I can still help with install/troubleshooting.'') m
                    | Some p \<Rightarrow>
                        if wantsAlternatives message
                        then \<lparr>reply = (if present (t_modelNumber t)
                                       then (''For '' @ orEmpty (t_modelNumber t) @ '', '') else [])
                                      @ replyNoAlternatives,
                              meta = m, cards = [cardOf p]\<rparr>
                        else \<lparr>reply = (''Found it: '' @ part_partNumber p @ '' '' @ mdash @ '' '' @ part_name p @ ''.'' @ nl)
                                      @ (if present (t_modelNumber t)
                                         then (''Want me to check it against your model ('' @ orEmpty (t_modelNumber t) @ '')?'')
                                         else askModelForCompatibility),
                              meta = m, cards = [cardOf p]\<rparr>))
         else respond replyHome metaBase)"

text \<open>The turn itself. The handoff by email comes first among the replies: it opens a
  demo ticket, whose id is in the reply.\<close>

definition handleChatTurn :: "World \<Rightarrow> string \<Rightarrow> ChatMessage list \<Rightarrow> ChatResponse" where
  "handleChatTurn w message history =
     (let t = resolveTurn message history;
          metaBase = t_metaBase t
      in if \<not> domainAllowed message t
         then respond replyOutOfDomain
                (metaBase\<lparr>inDomain := False, intent := Unknown_intent\<rparr>)
         else if t_hasIncompletePart t
         then respond (replyAskForFullPart (t_shortPart t)) metaBase
         else
           (let email = extractEmail message;
                humanAsked = everRequestedHuman history;
                pendingRaw = handoffPending history;
                pending = (pendingRaw \<and> \<not> isClearIntentShift message \<and> extractEmail message = None)
            in if present email \<and> (humanAsked \<or> pending \<or> wantsHuman message)
               then (let r = createSupportTicketDemo (ticketDraw w)
                     in respond
                          ((''Got it '' @ mdash @ '' I opened a support ticket for human follow-up (demo).'' @ nl)
                           @ (''Ticket: '' @ ticketId r @ nl @ nl)
                           @ (''While you wait, tell me what you want to solve (compatibility, install, or the symptom) and I can keep helping.''))
                          (metaBase\<lparr>intent := Order_support,
                                     toolsUsed := [''toolCreateSupportTicketDemo''],
                                     sources := ticket_sources r\<rparr>))
               else if wantsHuman message \<or> pending
               then respond replyHumanHandoff
                      (metaBase\<lparr>intent := Order_support\<rparr>)
               else if looksLikeAck message then ackReply t
               else if looksLikeSmallTalk message \<and> t_awaiting t = None
               then respond replyHome (metaBase\<lparr>intent := Unknown_intent, inDomain := True\<rparr>)
               else (case followUp w message history t of
                       Inl r \<Rightarrow> r
                     | Inr intent1 \<Rightarrow> routeIntent w message t intent1)))"

section \<open>Appliance pinning, as specified\<close>

text \<open>The specification's reading of appliance pinning, to compare the code with: two
  signal sets, the dishwasher set consulted first, and a vote over the last user turns.\<close>

definition dishwasherSignals :: "string list" where
  "dishwasherSignals = [''dishwasher'', ''wdt'', ''kdf'', ''not draining'', ''drain'', ''spray arm'',
                        ''sump'', ''air gap'', ''high loop'']"

definition refrigeratorSignals :: "string list" where
  "refrigeratorSignals = [''fridge'', ''refrigerator'', ''freezer'', ''ice maker'', ''icemaster'',
                          ''defrost'', ''evaporator'', ''not cooling'']"

definition classifyBySignals :: "string \<Rightarrow> Appliance" where
  "classifyBySignals text =
     (if list_ex (str_includes (toLowerCase text)) dishwasherSignals then Dishwasher
      else if list_ex (str_includes (toLowerCase text)) refrigeratorSignals then Refrigerator
      else Unknown_appliance)"

definition votes :: "Appliance \<Rightarrow> ChatMessage list \<Rightarrow> nat" where
  "votes a turns = length (filter (\<lambda>m. classifyBySignals (content m) = a) turns)"

definition lastUserTurns :: "nat \<Rightarrow> ChatMessage list \<Rightarrow> ChatMessage list" where
  "lastUserTurns n history = rev (take n (rev (filter (\<lambda>m. role m = User) history)))"

definition pinnedBySpec :: "string \<Rightarrow> ChatMessage list \<Rightarrow> Appliance" where
  "pinnedBySpec message history =
     (if classifyBySignals message = Dishwasher then Dishwasher
      else if classifyBySignals message = Refrigerator then Refrigerator
      else (let recent = lastUserTurns 8 history
            in if votes Dishwasher recent > votes Refrigerator recent then Dishwasher
               else if votes Refrigerator recent > votes Dishwasher recent then Refrigerator
               else Unknown_appliance))"

section \<open>Part-number occurrences, as specified\<close>

text \<open>A text holds a part-number occurrence when PS is followed, somewhere in it, by five
  or more digits; the hypotheses "no full part number" and "no other part number" of the
  theorems are stated with it, on the upper-cased text.\<close>

definition startsPsDigits :: "string \<Rightarrow> bool" where
  "startsPsDigits s = (take 2 s = ''PS'' \<and> 5 \<le> length (takeWhile isDigit (drop 2 s)))"

fun holdsPsDigits :: "string \<Rightarrow> bool" where
  "holdsPsDigits [] = False"
| "holdsPsDigits (c # s) = (startsPsDigits (c # s) \<or> holdsPsDigits s)"

section \<open>Example conversations\<close>

text \<open>Concrete inputs at which the theorems below are evaluated: a world with empty
  tables and no classifier credential, and the history whose last assistant turn is the
  connector help, which ends in the latch question.\<close>

definition demoWorld :: World where
  "demoWorld =
     \<lparr>partsTable = [], compatTable = [], guidesTable = [],
      groqWorld = \<lparr>GROQ_API_KEY = None, fetchOutcome = (\<lambda>text n. Timed_out),
                   jsonParse = (\<lambda>s. None)\<rparr>,
      ticketDraw = 23456\<rparr>"

definition latchTurn :: "ChatMessage list" where
  "latchTurn = [\<lparr>role = Assistant, content = replyInstallStepHelp Connector\<rparr>]"

text \<open>A history whose last assistant turn is the pump-sound question, and a classifier
  that has a credential and answers every request with the JSON text
  \<^verbatim>\<open>{"pump_sound":"HUMMING"}\<close>, in capitals.\<close>

definition pumpTurn :: "ChatMessage list" where
  "pumpTurn = [\<lparr>role = Assistant, content = askPumpSound\<rparr>]"

definition shoutedAnswer :: string where
  "shoutedAnswer = ''{'' @ dquote @ ''pump_sound'' @ dquote @ '':'' @ dquote @ ''HUMMING'' @ dquote @ ''}''"

definition shoutingClassifier :: GroqWorld where
  "shoutingClassifier =
     \<lparr>GROQ_API_KEY = Some ''key'',
      fetchOutcome = (\<lambda>text n. Response True (Some (JObj [(''choices'',
          JArr [JObj [(''message'', JObj [(''content'', JStr shoutedAnswer)])]])]))),
      jsonParse = (\<lambda>s. if s = shoutedAnswer then Some (JObj [(''pump_sound'', JStr ''HUMMING'')])
                        else None)\<rparr>"





definition partThenWeather :: "ChatMessage list" where
  "partThenWeather = [\<lparr>role = User, content = ''PS11752778''\<rparr>]"

definition longSToken :: string where
  "longSToken = [CHR ''p'', CHR 0xC5, CHR 0xBF, CHR ''1'']"

section \<open>Evaluation\<close>

text \<open>Case mapping flips one bit of an ASCII letter; these equations are the ones used to
  evaluate the conversions on concrete text.\<close>

lemma isAscii_code [code]:
  "isAscii (Char b0 b1 b2 b3 b4 b5 b6 b7) = (\<not> b7)"
  by (cases b0; cases b1; cases b2; cases b3; cases b4; cases b5; cases b6; cases b7;
      simp add: isAscii_def charCode_def)

lemma toLowerChar_code [code]:
  "toLowerChar (Char b0 b1 b2 b3 b4 b5 b6 b7) =
     (if isUpper (Char b0 b1 b2 b3 b4 b5 b6 b7) then Char b0 b1 b2 b3 b4 True b6 b7
      else Char b0 b1 b2 b3 b4 b5 b6 b7)"
  by (cases b0; cases b1; cases b2; cases b3; cases b4; cases b5; cases b6; cases b7;
      simp add: toLowerChar_def isUpper_def charCode_def char_of_def bit_iff_odd)

lemma toUpperChar_code [code]:
  "toUpperChar (Char b0 b1 b2 b3 b4 b5 b6 b7) =
     (if isLower (Char b0 b1 b2 b3 b4 b5 b6 b7) then Char b0 b1 b2 b3 b4 False b6 b7
      else Char b0 b1 b2 b3 b4 b5 b6 b7)"
  by (cases b0; cases b1; cases b2; cases b3; cases b4; cases b5; cases b6; cases b7;
      simp add: toUpperChar_def isLower_def charCode_def char_of_def bit_iff_odd)

section \<open>Only the last assistant turn matters\<close>

lemma firstAssistant_role: "firstAssistant ms = Some a \<Longrightarrow> role a = Assistant"
  by (induction ms) (auto split: if_splits)

lemma lastAssistant_role: "lastAssistant h = Some a \<Longrightarrow> role a = Assistant"
  unfolding lastAssistant_def by (rule firstAssistant_role)

lemma lastAssistant_single: "lastAssistant h = Some a \<Longrightarrow> lastAssistant [a] = Some a"
  by (simp add: lastAssistant_def lastAssistant_role [unfolded lastAssistant_def])



lemma detectInstallStepFollowup_last:
  "lastAssistant h = Some a \<Longrightarrow> detectInstallStepFollowup h u = detectInstallStepFollowup [a] u"
  by (simp add: detectInstallStepFollowup_def lastAssistant_single)


section \<open>Facts about text\<close>

lemma toUpperCase_Nil [simp]: "toUpperCase [] = []" and toLowerCase_Nil [simp]: "toLowerCase [] = []"
  by (simp_all add: toUpperCase.simps(1) toLowerCase.simps(1))

lemma toUpperChar_ascii: "isAscii (toUpperChar c) = isAscii c"
proof (cases c)
  case (Char b0 b1 b2 b3 b4 b5 b6 b7)
  show ?thesis
    unfolding Char toUpperChar_code
    by (simp add: isAscii_code)
qed

lemma toLowerChar_ascii: "isAscii (toLowerChar c) = isAscii c"
proof (cases c)
  case (Char b0 b1 b2 b3 b4 b5 b6 b7)
  show ?thesis
    unfolding Char toLowerChar_code
    by (simp add: isAscii_code)
qed

lemma toUpperChar_other: "\<not> isAscii c \<Longrightarrow> toUpperChar c = c"
  by (simp add: toUpperChar_def isLower_def isAscii_def)


lemma digit_ascii: "isDigit d \<Longrightarrow> isAscii d"
  by (simp add: isDigit_def isAscii_def)

lemma upper2_other: "upper2 a b \<noteq> [] \<Longrightarrow> \<not> isAscii b"
  by (auto simp add: upper2_def isAscii_def charCode_def split: if_splits)

lemma upper3_other: "upper3 a b c \<noteq> [] \<Longrightarrow> \<not> isAscii b \<and> \<not> isAscii c"
  by (auto simp add: upper3_def isAscii_def charCode_def split: if_splits)



lemma toUpperCase_Cons: "isAscii a \<Longrightarrow> toUpperCase (a # s) = toUpperChar a # toUpperCase s"
proof (cases s)
  case Nil
  then show ?thesis by (simp add: toUpperCase.simps(2-))
next
  case (Cons b s')
  assume "isAscii a"
  then show ?thesis unfolding Cons by (cases s') (simp_all add: toUpperCase.simps(2-))
qed

lemma toLowerCase_Cons: "isAscii a \<Longrightarrow> toLowerCase (a # s) = toLowerChar a # toLowerCase s"
proof (cases s)
  case Nil
  then show ?thesis by (simp add: toLowerCase.simps(2-))
next
  case (Cons b s')
  assume "isAscii a"
  then show ?thesis unfolding Cons by (cases s') (simp_all add: toLowerCase.simps(2-))
qed

lemma toUpperCase_other:
  "\<not> isAscii a \<Longrightarrow> isAscii x \<Longrightarrow> toUpperCase (a # x # s) = a # toUpperCase (x # s)"
  using upper2_other [of a x] upper3_other [of a x]
  by (cases s) (auto simp add: toUpperCase.simps(2-) toUpperChar_other)


lemma toUpperCase_append:
  "s = [] \<or> isAscii (hd s) \<Longrightarrow> toUpperCase (p @ s) = toUpperCase p @ toUpperCase s"
proof (induction p rule: toUpperCase.induct)
  case 1
  show ?case by (simp add: toUpperCase.simps(2-))
next
  case (2 a)
  show ?case
  proof (cases s)
    case Nil
    then show ?thesis by simp
  next
    case (Cons x xs)
    with 2 have x: "isAscii x" by simp
    show ?thesis
    proof (cases "isAscii a")
      case True
      then show ?thesis by (simp add: toUpperCase_Cons toUpperCase.simps(2-))
    next
      case False
      then show ?thesis unfolding Cons using x
        by (simp add: toUpperCase_other toUpperCase.simps(2-) toUpperChar_other)
    qed
  qed
next
  case (3 a b)
  show ?case
  proof (cases s)
    case Nil
    then show ?thesis by simp
  next
    case (Cons x xs)
    with 3 have x: "isAscii x" by simp
    have u3: "upper3 a b x = []" using upper3_other [of a b x] x by blast
    from 3 have ih: "isAscii a \<or> upper2 a b = [] \<Longrightarrow> toUpperCase ([b] @ s) = toUpperCase [b] @ toUpperCase s"
      by blast
    show ?thesis
      using ih u3 unfolding Cons
      by (auto simp add: toUpperCase.simps(2-))
  qed
next
  case (4 a b c s0)
  then show ?case
    by (auto simp add: toUpperCase.simps(2-))
qed


lemma toUpperCase_ascii: "ascii s \<Longrightarrow> toUpperCase s = map toUpperChar s"
  by (induction s) (simp_all add: ascii_def toUpperCase.simps(2-) toUpperCase_Cons)

lemma toLowerCase_ascii: "ascii s \<Longrightarrow> toLowerCase s = map toLowerChar s"
  by (induction s) (simp_all add: ascii_def toLowerCase.simps(2-) toLowerCase_Cons)

lemma toUpperCase_ascii_append:
  "ascii x \<Longrightarrow> toUpperCase (x @ s) = map toUpperChar x @ toUpperCase s"
  by (induction x) (simp_all add: ascii_def toUpperCase_Cons)


lemma startsWith_append: "startsWith (w @ b) w"
  by (induction w) simp_all

lemma str_includes_append: "str_includes (a @ w @ b) w"
proof (induction a)
  case Nil
  show ?case by (cases "w @ b") (use startsWith_append [of w b] in auto)
next
  case (Cons c a)
  then show ?case by simp
qed

section \<open>Facts about the matcher\<close>

lemma rx_search_Some:
  "rx_search r p s = Some m \<Longrightarrow>
     \<exists>pre rest p' s' caps xs.
        s = pre @ rest
      \<and> r (if pre = [] then p else Some (last pre), rest, []) = (p', s', caps) # xs
      \<and> matched m = take (length rest - length s') rest \<and> groups m = caps"
proof (induction s arbitrary: p)
  case Nil
  then show ?case
    by (auto split: list.splits)
next
  case (Cons c cs)
  show ?case
  proof (cases "r (p, c # cs, [])")
    case Nil
    with Cons.prems have "rx_search r (Some c) cs = Some m" by simp
    from Cons.IH [OF this] obtain pre rest p' s' caps xs where
      *: "cs = pre @ rest"
         "r (if pre = [] then Some c else Some (last pre), rest, []) = (p', s', caps) # xs"
         "matched m = take (length rest - length s') rest" "groups m = caps"
      by blast
    show ?thesis
      apply (rule exI [of _ "c # pre"])
      apply (rule exI [of _ rest])
      using * by auto
  next
    case (Cons st sts)
    obtain p' s' caps where st: "st = (p', s', caps)" by (cases st) auto
    with Cons Cons.prems have m: "m = \<lparr>matched = take (length (c # cs) - length s') (c # cs), groups = caps\<rparr>"
      by simp
    show ?thesis
      apply (rule exI [of _ "[]"])
      apply (rule exI [of _ "c # cs"])
      using Cons st m by auto
  qed
qed

lemma rx_rep_elem:
  assumes "st' \<in> set (rx_rep P lo hi (p, s, caps))"
  shows "\<exists>k. lo \<le> k \<and> k \<le> length (takeWhile P s) \<and> (\<forall>h. hi = Some h \<longrightarrow> k \<le> h)
        \<and> st' = advance k (p, s, caps)"
proof -
  define mx where "mx = (case hi of None \<Rightarrow> length (takeWhile P s)
                         | Some h \<Rightarrow> min (length (takeWhile P s)) h)"
  from assms obtain k where k: "lo \<le> k" "k \<le> mx" "st' = advance k (p, s, caps)"
    by (auto simp add: rx_rep_def Let_def mx_def)
  have "k \<le> length (takeWhile P s)" "\<forall>h. hi = Some h \<longrightarrow> k \<le> h"
    using k(2) by (auto simp add: mx_def split: option.splits)
  with k show ?thesis by blast
qed

lemma takeWhile_prefix:
  "k \<le> length (takeWhile P s) \<Longrightarrow> (\<forall>x \<in> set (take k s). P x) \<and> k \<le> length s"
proof -
  assume k: "k \<le> length (takeWhile P s)"
  have "take k s = take k (takeWhile P s)"
    by (metis k takeWhile_dropWhile_id take_append diff_is_0_eq take_0 append_Nil2)
  then have "set (take k s) \<subseteq> set (takeWhile P s)"
    by (metis set_take_subset)
  moreover have "length (takeWhile P s) \<le> length s"
    by (rule length_takeWhile_le)
  ultimately show ?thesis
    using k by (auto dest: set_takeWhileD)
qed

lemma rx_wordb_elem:
  "st' \<in> set (rx_wordb (p, s, caps)) \<Longrightarrow> st' = (p, s, caps) \<and> isWordOpt p \<noteq> isWordOpt (nextChar s)"
  by (auto simp add: rx_wordb_def split: if_splits)

lemma rx_char_elem:
  "st' \<in> set (rx_char P (p, s, caps)) \<Longrightarrow> \<exists>c cs. s = c # cs \<and> P c \<and> st' = (Some c, cs, caps)"
  by (auto simp add: rx_char_def split: list.splits if_splits)

lemma rx_seq_elem:
  "st' \<in> set (rx_seq a b st) \<Longrightarrow> \<exists>mid. mid \<in> set (a st) \<and> st' \<in> set (b mid)"
  by (auto simp add: rx_seq_def)

lemma isWord_digit: "isDigit c \<Longrightarrow> isWordChar c"
  by (simp add: isWordChar_def)

lemma PS_tail_elem:
  assumes "st' \<in> set (rx_seq (rx_rep isDigit lo (Some hi)) (rx_seq rx_wordb rx_eps) (Some c0, s, caps))"
    and "0 < lo" and "isWordChar c0"
  shows "\<exists>ds s'. st' = (Some (last ds), s', caps) \<and> s = ds @ s' \<and> lo \<le> length ds \<and> length ds \<le> hi
            \<and> (\<forall>d \<in> set ds. isDigit d) \<and> \<not> isWordOpt (nextChar s')"
proof -
  from rx_seq_elem [OF assms(1)] obtain mid where
    mid: "mid \<in> set (rx_rep isDigit lo (Some hi) (Some c0, s, caps))"
    and st': "st' \<in> set (rx_seq rx_wordb rx_eps mid)" by blast
  from rx_rep_elem [OF mid] obtain k where
    k: "lo \<le> k" "k \<le> length (takeWhile isDigit s)" "k \<le> hi" "mid = advance k (Some c0, s, caps)"
    by auto
  from takeWhile_prefix [OF k(2)] have dig: "\<forall>x \<in> set (take k s). isDigit x" and len: "k \<le> length s"
    by auto
  have kpos: "0 < k" using k(1) assms(2) by simp
  have midv: "mid = (Some (s ! (k - 1)), drop k s, caps)"
    using k(4) kpos by (simp add: advance_def)
  have ne: "take k s \<noteq> []" using kpos len by auto
  have "last (take k s) = take k s ! (length (take k s) - 1)"
    using ne by (rule last_conv_nth)
  also have "\<dots> = s ! (k - 1)"
    using kpos len by (simp add: min_absorb2)
  finally have lastv: "last (take k s) = s ! (k - 1)" .
  have "s ! (k - 1) \<in> set (take k s)"
    using ne lastv last_in_set by metis
  then have w: "isWordChar (s ! (k - 1))" using dig isWord_digit by blast
  from rx_seq_elem [OF st'] obtain m2 where
    "m2 \<in> set (rx_wordb mid)" "st' \<in> set (rx_eps m2)" by blast
  then have "st' = mid" and "isWordOpt (Some (s ! (k - 1))) \<noteq> isWordOpt (nextChar (drop k s))"
    using rx_wordb_elem [of m2 "Some (s ! (k - 1))" "drop k s" caps] midv
    by (auto simp add: rx_eps_def)
  then have nb: "\<not> isWordOpt (nextChar (drop k s))" and stv: "st' = (Some (s ! (k - 1)), drop k s, caps)"
    using w midv by (auto simp add: isWordOpt_def)
  show ?thesis
    apply (rule exI [of _ "take k s"])
    apply (rule exI [of _ "drop k s"])
    using stv lastv dig len k nb by simp
qed

lemma rx_lit_PS_elem:
  assumes "st' \<in> set (rx_lit ''PS'' (p, s, caps))"
  shows "\<exists>s'. s = ''PS'' @ s' \<and> st' = (Some CHR ''S'', s', caps)"
proof -
  from assms obtain m1 where
    m1: "m1 \<in> set (rx_char (\<lambda>c. c = CHR ''P'') (p, s, caps))"
    and r1: "st' \<in> set (rx_seq (rx_char (\<lambda>c. c = CHR ''S'')) rx_eps m1)"
    by (auto simp add: rx_lit_def dest: rx_seq_elem)
  from rx_char_elem [OF m1] obtain cs where cs: "s = CHR ''P'' # cs" "m1 = (Some CHR ''P'', cs, caps)"
    by auto
  from rx_seq_elem [OF r1] obtain m2 where
    m2: "m2 \<in> set (rx_char (\<lambda>c. c = CHR ''S'') m1)" and r2: "st' \<in> set (rx_eps m2)" by blast
  from rx_char_elem [of m2 _ "Some CHR ''P''" cs caps] m2 cs obtain cs2 where
    "cs = CHR ''S'' # cs2" "m2 = (Some CHR ''S'', cs2, caps)" by auto
  with cs r2 show ?thesis by (simp add: rx_eps_def)
qed

lemma isWord_P: "isWordChar CHR ''P''" and isWord_S: "isWordChar CHR ''S''"
  by (simp_all add: isWordChar_def isUpper_def charCode_def)

lemma PS_token_elem:
  assumes "st' \<in> set (rx_seqs [rx_wordb, rx_lit ''PS'', rx_rep isDigit lo (Some hi), rx_wordb] (p, s, caps))"
    and "0 < lo"
  shows "\<exists>ds s'. st' = (Some (last ds), s', caps) \<and> s = ''PS'' @ ds @ s'
            \<and> lo \<le> length ds \<and> length ds \<le> hi \<and> (\<forall>d \<in> set ds. isDigit d)
            \<and> \<not> isWordOpt p \<and> \<not> isWordOpt (nextChar s')"
proof -
  from assms(1) obtain m1 where
    m1: "m1 \<in> set (rx_wordb (p, s, caps))"
    and r1: "st' \<in> set (rx_seq (rx_lit ''PS'') (rx_seq (rx_rep isDigit lo (Some hi)) (rx_seq rx_wordb rx_eps)) m1)"
    by (auto dest: rx_seq_elem)
  from rx_wordb_elem [OF m1] have m1v: "m1 = (p, s, caps)" and b: "isWordOpt p \<noteq> isWordOpt (nextChar s)"
    by auto
  from rx_seq_elem [OF r1] obtain m2 where
    m2: "m2 \<in> set (rx_lit ''PS'' m1)"
    and r2: "st' \<in> set (rx_seq (rx_rep isDigit lo (Some hi)) (rx_seq rx_wordb rx_eps) m2)" by blast
  from rx_lit_PS_elem [of m2 p s caps] m2 m1v obtain s2 where
    s2: "s = ''PS'' @ s2" "m2 = (Some CHR ''S'', s2, caps)" by auto
  from PS_tail_elem [of st' lo hi "CHR ''S''" s2 caps] r2 s2 assms(2) isWord_S obtain ds s' where
    t: "st' = (Some (last ds), s', caps)" "s2 = ds @ s'" "lo \<le> length ds" "length ds \<le> hi"
       "\<forall>d \<in> set ds. isDigit d" "\<not> isWordOpt (nextChar s')" by blast
  have "\<not> isWordOpt p"
    using b s2(1) isWord_P by (simp add: nextChar_def isWordOpt_def)
  with t s2 show ?thesis by auto
qed

text \<open>What a match of the word-bounded part-number pattern is.\<close>

lemma PS_token_match:
  assumes "rx_match (rx_seqs [rx_wordb, rx_lit ''PS'', rx_rep isDigit lo (Some hi), rx_wordb]) s = Some m"
    and "0 < lo"
  shows "\<exists>pre ds post. s = pre @ ''PS'' @ ds @ post \<and> matched m = ''PS'' @ ds
            \<and> lo \<le> length ds \<and> length ds \<le> hi \<and> (\<forall>d \<in> set ds. isDigit d)
            \<and> (pre = [] \<or> \<not> isWordChar (last pre)) \<and> (post = [] \<or> \<not> isWordChar (hd post))"
proof -
  let ?r = "rx_seqs [rx_wordb, rx_lit ''PS'', rx_rep isDigit lo (Some hi), rx_wordb]"
  from rx_search_Some [OF assms(1) [unfolded rx_match_def]] obtain pre rest p' s' caps xs where
    *: "s = pre @ rest"
       "?r (if pre = [] then None else Some (last pre), rest, []) = (p', s', caps) # xs"
       "matched m = take (length rest - length s') rest"
    by blast
  have "(p', s', caps) \<in> set (?r (if pre = [] then None else Some (last pre), rest, []))"
    using *(2) by simp
  from PS_token_elem [OF this assms(2)] obtain ds where
    t: "rest = ''PS'' @ ds @ s'" "lo \<le> length ds" "length ds \<le> hi" "\<forall>d \<in> set ds. isDigit d"
       "\<not> isWordOpt (if pre = [] then None else Some (last pre))" "\<not> isWordOpt (nextChar s')"
    by blast
  have mt: "matched m = ''PS'' @ ds"
    using *(3) t(1) by simp
  have b1: "pre = [] \<or> \<not> isWordChar (last pre)"
    using t(5) by (auto simp add: isWordOpt_def)
  have b2: "s' = [] \<or> \<not> isWordChar (hd s')"
    using t(6) by (cases s') (auto simp add: isWordOpt_def nextChar_def)
  show ?thesis
    apply (rule exI [of _ pre])
    apply (rule exI [of _ ds])
    apply (rule exI [of _ s'])
    using * t mt b1 b2 by simp
qed

lemma extractPartNumber_token:
  assumes "extractPartNumber text = Some v"
  shows "\<exists>pre ds post. toUpperCase text = pre @ v @ post \<and> v = ''PS'' @ ds
            \<and> 5 \<le> length ds \<and> length ds \<le> 10 \<and> (\<forall>d \<in> set ds. isDigit d)
            \<and> (pre = [] \<or> \<not> isWordChar (last pre)) \<and> (post = [] \<or> \<not> isWordChar (hd post))"
proof -
  from assms obtain m where m: "rx_match PS_FULL_RE (toUpperCase text) = Some m" "matched m = v"
    by (auto simp add: extractPartNumber_def)
  have five: "0 < (5::nat)" by simp
  from PS_token_match [OF m(1) [unfolded PS_FULL_RE_def] five] obtain pre ds post where
    t: "toUpperCase text = pre @ ''PS'' @ ds @ post" "matched m = ''PS'' @ ds"
       "5 \<le> length ds" "length ds \<le> 10" "\<forall>d \<in> set ds. isDigit d"
       "pre = [] \<or> \<not> isWordChar (last pre)" "post = [] \<or> \<not> isWordChar (hd post)"
    by blast
  show ?thesis
    apply (rule exI [of _ pre])
    apply (rule exI [of _ ds])
    apply (rule exI [of _ post])
    using t m(2) by simp
qed

subsection \<open>Characters\<close>

lemma digit_not_lower: "isDigit d \<Longrightarrow> \<not> isLower d"
  by (simp add: isDigit_def isLower_def)

lemma toUpperChar_digit: "isDigit d \<Longrightarrow> toUpperChar d = d"
  by (simp add: toUpperChar_def digit_not_lower)

lemma toUpperCase_digits: "\<forall>d \<in> set ds. isDigit d \<Longrightarrow> toUpperCase ds = ds"
proof -
  assume d: "\<forall>d \<in> set ds. isDigit d"
  then have "ascii ds" by (simp add: ascii_def list_all_iff digit_ascii)
  then have "toUpperCase ds = map toUpperChar ds" by (rule toUpperCase_ascii)
  also have "\<dots> = ds" using d by (simp add: toUpperChar_digit map_idI)
  finally show ?thesis .
qed

lemma digit_not_P: "isDigit d \<Longrightarrow> d \<noteq> CHR ''P''"
  by (auto simp add: isDigit_def charCode_def)

lemma upper_P_lower_p: "toUpperChar x = CHR ''P'' \<Longrightarrow> toLowerChar x = CHR ''p''"
proof (cases x)
  case (Char b0 b1 b2 b3 b4 b5 b6 b7)
  assume "toUpperChar x = CHR ''P''"
  then show ?thesis
    unfolding Char toUpperChar_code toLowerChar_code
    by (cases b0; cases b1; cases b2; cases b3; cases b4; cases b5; cases b6; cases b7;
        simp add: isLower_def isUpper_def charCode_def)
qed

lemma upper_S_lower_s: "toUpperChar x = CHR ''S'' \<Longrightarrow> toLowerChar x = CHR ''s''"
proof (cases x)
  case (Char b0 b1 b2 b3 b4 b5 b6 b7)
  assume "toUpperChar x = CHR ''S''"
  then show ?thesis
    unfolding Char toUpperChar_code toLowerChar_code
    by (cases b0; cases b1; cases b2; cases b3; cases b4; cases b5; cases b6; cases b7;
        simp add: isLower_def isUpper_def charCode_def)
qed

subsection \<open>The match at a token\<close>

lemma digits_run:
  assumes "\<forall>d \<in> set ds. isDigit d" and "post = [] \<or> \<not> isDigit (hd post)"
  shows "takeWhile isDigit (ds @ post) = ds"
proof -
  have "takeWhile isDigit post = []"
    using assms(2) by (cases post) auto
  then show ?thesis
    using assms(1) by (simp add: takeWhile_append2)
qed

lemma advance_all:
  "ds \<noteq> [] \<Longrightarrow> advance (length ds) (p, ds @ post, caps) = (Some (last ds), post, caps)"
  by (simp add: advance_def nth_append last_conv_nth)

lemma rx_rep_head:
  assumes "\<forall>d \<in> set ds. isDigit d" and "post = [] \<or> \<not> isDigit (hd post)"
    and "lo \<le> length ds" and "length ds \<le> hi" and "ds \<noteq> []"
  shows "\<exists>xs. rx_rep isDigit lo (Some hi) (p, ds @ post, caps) = (Some (last ds), post, caps) # xs"
proof -
  have run: "length (takeWhile isDigit (ds @ post)) = length ds"
    using digits_run [OF assms(1,2)] by simp
  have "rev [lo ..< Suc (length ds)] = length ds # rev [lo ..< length ds]"
    using assms(3) by simp
  then show ?thesis
    using assms(3,4,5) by (simp add: rx_rep_def Let_def run min_absorb1 advance_all del: upt_Suc)
qed

lemma PS_token_head:
  assumes "\<forall>d \<in> set ds. isDigit d" and "post = [] \<or> \<not> isWordChar (hd post)"
    and "lo \<le> length ds" and "length ds \<le> hi" and "0 < lo" and "\<not> isWordOpt p"
  shows "\<exists>xs. rx_seqs [rx_wordb, rx_lit ''PS'', rx_rep isDigit lo (Some hi), rx_wordb]
                 (p, ''PS'' @ ds @ post, caps) = (Some (last ds), post, caps) # xs"
proof -
  have ne: "ds \<noteq> []" using assms(3,5) by auto
  have nd: "post = [] \<or> \<not> isDigit (hd post)"
    using assms(2) isWord_digit by blast
  from rx_rep_head [OF assms(1) nd assms(3,4) ne] obtain xs where
    rep: "rx_rep isDigit lo (Some hi) (Some CHR ''S'', ds @ post, caps) = (Some (last ds), post, caps) # xs"
    by blast
  have wl: "isWordOpt (Some (last ds))"
    using assms(1) ne isWord_digit by (simp add: isWordOpt_def)
  have wn: "\<not> isWordOpt (nextChar post)"
    using assms(2) by (cases post) (auto simp add: isWordOpt_def nextChar_def)
  have b0: "isWordOpt p \<noteq> isWordOpt (nextChar (''PS'' @ ds @ post))"
    using assms(6) isWord_P by (simp add: nextChar_def isWordOpt_def)
  show ?thesis
    using rep wl wn b0
    by (simp add: rx_seq_def rx_wordb_def rx_lit_def rx_char_def rx_eps_def)
qed

lemma rx_search_head:
  "r (p, s, []) = (p', s', caps) # xs \<Longrightarrow>
     rx_search r p s = Some \<lparr>matched = take (length s - length s') s, groups = caps\<rparr>"
  by (cases s) simp_all

lemma rx_search_skip:
  assumes "\<And>p c cs. \<not> F c \<Longrightarrow> r (p, c # cs, []) = []" and "\<forall>c \<in> set pre. \<not> F c"
  shows "rx_search r p (pre @ s) = rx_search r (if pre = [] then p else Some (last pre)) s"
  using assms(2)
proof (induction pre arbitrary: p)
  case Nil
  show ?case by simp
next
  case (Cons c pre)
  have "r (p, c # pre @ s, []) = []" using assms(1) Cons.prems by simp
  then have "rx_search r p ((c # pre) @ s) = rx_search r (Some c) (pre @ s)" by simp
  also have "\<dots> = rx_search r (if pre = [] then Some c else Some (last pre)) s"
    using Cons by simp
  finally show ?case by simp
qed

lemma rx_search_none:
  assumes "\<And>p c cs. \<not> F c \<Longrightarrow> r (p, c # cs, []) = []" and "\<And>p. r (p, [], []) = []"
    and "\<forall>c \<in> set s. \<not> F c"
  shows "rx_search r p s = None"
  using assms(3) by (induction s arbitrary: p) (simp_all add: assms(1,2))

lemma PS_token_needs_P:
  "c \<noteq> CHR ''P'' \<Longrightarrow>
     rx_seqs [rx_wordb, rx_lit ''PS'', rx_rep isDigit lo (Some hi), rx_wordb] (p, c # cs, caps) = []"
  by (simp add: rx_seq_def rx_wordb_def rx_lit_def rx_char_def)

lemma PS_token_not_at_end:
  "rx_seqs [rx_wordb, rx_lit ''PS'', rx_rep isDigit lo (Some hi), rx_wordb] (p, [], caps) = []"
  by (simp add: rx_seq_def rx_wordb_def rx_lit_def rx_char_def)

lemma PS_token_long_run:
  assumes "\<forall>d \<in> set ds. isDigit d" and "hi < length ds" and "0 < lo"
  shows "rx_seqs [rx_wordb, rx_lit ''PS'', rx_rep isDigit lo (Some hi), rx_wordb]
           (p, ''PS'' @ ds @ post, caps) = []"
proof (rule ccontr)
  assume "rx_seqs [rx_wordb, rx_lit ''PS'', rx_rep isDigit lo (Some hi), rx_wordb]
           (p, ''PS'' @ ds @ post, caps) \<noteq> []"
  then obtain st' where "st' \<in> set (rx_seqs [rx_wordb, rx_lit ''PS'', rx_rep isDigit lo (Some hi), rx_wordb]
           (p, ''PS'' @ ds @ post, caps))"
    by (meson last_in_set)
  from PS_token_elem [OF this assms(3)] obtain ds' s' where
    t: "''PS'' @ ds @ post = ''PS'' @ ds' @ s'" "length ds' \<le> hi" "\<not> isWordOpt (nextChar s')"
    by blast
  then have eq: "ds @ post = ds' @ s'" by simp
  have lt: "length ds' < length ds" using t(2) assms(2) by simp
  have "s' = drop (length ds') (ds @ post)" using eq by (metis append_eq_conv_conj)
  then have "s' = drop (length ds') ds @ post" using lt by simp
  moreover have "drop (length ds') ds \<noteq> []" using lt by simp
  ultimately have "nextChar s' = Some (hd (drop (length ds') ds))"
    by (cases "drop (length ds') ds") (simp_all add: nextChar_def)
  moreover have "hd (drop (length ds') ds) \<in> set ds"
    using lt by (metis \<open>drop (length ds') ds \<noteq> []\<close> hd_in_set in_set_dropD)
  ultimately have "isWordOpt (nextChar s')"
    using assms(1) isWord_digit by (simp add: isWordOpt_def)
  with t(3) show False by simp
qed

lemma rx_lit_ci_PS_needs_P:
  "toUpperChar c \<noteq> CHR ''P'' \<Longrightarrow> PS_IN_URL_RE (p, c # cs, caps) = []"
proof -
  have "toUpperChar CHR ''P'' = CHR ''P''" by code_simp
  then show "toUpperChar c \<noteq> CHR ''P'' \<Longrightarrow> PS_IN_URL_RE (p, c # cs, caps) = []"
    by (simp add: PS_IN_URL_RE_def rx_grp_def rx_seq_def rx_lit_ci_def rx_char_def)
qed

lemma PS_IN_URL_RE_head:
  assumes "toUpperChar x = CHR ''P''" and "toUpperChar y = CHR ''S''"
    and "\<forall>d \<in> set ds. isDigit d" and "10 \<le> length ds"
  shows "\<exists>p' xs. PS_IN_URL_RE (p, [x, y] @ ds @ post, [])
            = (p', drop 10 ds @ post, [[x, y] @ take 10 ds]) # xs"
proof -
  have up: "toUpperChar CHR ''P'' = CHR ''P''" "toUpperChar CHR ''S'' = CHR ''S''" by code_simp+
  have "takeWhile isDigit (ds @ post) = ds @ takeWhile isDigit post"
    using assms(3) by (simp add: takeWhile_append2)
  then have run: "10 \<le> length (takeWhile isDigit (ds @ post))"
    using assms(4) by simp
  have r10: "rev [5 ..< Suc 10] = 10 # rev [5 ..< (10::nat)]" by simp
  show ?thesis
    using assms(1,2,4) run
    by (simp add: PS_IN_URL_RE_def rx_grp_def rx_seq_def rx_lit_ci_def rx_char_def rx_eps_def
        rx_rep_def Let_def up min_absorb2 advance_def r10 del: upt_Suc)
qed

subsection \<open>Searching past a stretch of text\<close>

lemma rx_search_skip_gen:
  assumes "\<And>a b. pre = a @ b \<Longrightarrow> b \<noteq> [] \<Longrightarrow> r (if a = [] then p else Some (last a), b @ s, []) = []"
  shows "rx_search r p (pre @ s) = rx_search r (if pre = [] then p else Some (last pre)) s"
  using assms
proof (induction pre arbitrary: p)
  case Nil
  show ?case by simp
next
  case (Cons c pre)
  have "r (p, (c # pre) @ s, []) = []"
    using Cons.prems [of "[]" "c # pre"] by simp
  then have "rx_search r p ((c # pre) @ s) = rx_search r (Some c) (pre @ s)" by simp
  also have "\<dots> = rx_search r (if pre = [] then Some c else Some (last pre)) s"
  proof (rule Cons.IH)
    fix a b
    assume "pre = a @ b" and "b \<noteq> []"
    then show "r (if a = [] then Some c else Some (last a), b @ s, []) = []"
      using Cons.prems [of "c # a" b] by (cases a) simp_all
  qed
  finally show ?case by simp
qed

lemma rx_search_none_gen:
  assumes "\<And>a b. u = a @ b \<Longrightarrow> b \<noteq> [] \<Longrightarrow> r (if a = [] then p else Some (last a), b, []) = []"
    and "\<And>q. r (q, [], []) = []"
  shows "rx_search r p u = None"
proof -
  have "rx_search r p (u @ []) = rx_search r (if u = [] then p else Some (last u)) []"
    by (rule rx_search_skip_gen) (use assms(1) in simp)
  then show ?thesis by (simp add: assms(2))
qed

lemma rx_search_found:
  assumes "s = a @ b" and "r (if a = [] then p else Some (last a), b, []) \<noteq> []"
  shows "rx_search r p s \<noteq> None"
  using assms
proof (induction a arbitrary: p s)
  case Nil
  then show ?case by (cases b; cases "r (p, b, [])") auto
next
  case (Cons c a)
  show ?case
  proof (cases "r (p, s, [])")
    case Nil
    have "r (if a = [] then Some c else Some (last a), b, []) \<noteq> []"
      using Cons.prems(2) by (cases a) simp_all
    then have "rx_search r (Some c) (a @ b) \<noteq> None"
      by (rule Cons.IH [OF refl])
    then show ?thesis using Nil Cons.prems(1) by simp
  next
    case (Cons st sts)
    then show ?thesis using Cons.prems(1) by (cases st) simp
  qed
qed

lemma occurrence_within:
  assumes "b @ c # rest = w @ r" and "b \<noteq> []" and "c \<notin> set (tl w)"
  shows "\<exists>us. b = w @ us"
proof -
  from assms(1) obtain us where
    "(b = w @ us \<and> us @ c # rest = r) \<or> (b @ us = w \<and> c # rest = us @ r)"
    by (auto simp add: append_eq_append_conv2)
  then show ?thesis
  proof
    assume "b = w @ us \<and> us @ c # rest = r"
    then show ?thesis by blast
  next
    assume a: "b @ us = w \<and> c # rest = us @ r"
    show ?thesis
    proof (cases us)
      case Nil
      with a show ?thesis by auto
    next
      case (Cons d us')
      with a have "d = c" by simp
      with a Cons have "w = b @ c # us'" by simp
      with assms(2) have "c \<in> set (tl w)" by (cases b) auto
      with assms(3) show ?thesis by simp
    qed
  qed
qed

subsection \<open>PS followed by five digits\<close>

lemma startsPsDigits_intro:
  assumes "5 \<le> length d" and "\<forall>c \<in> set d. isDigit c"
  shows "startsPsDigits (''PS'' @ d @ b)"
proof -
  have "takeWhile isDigit (d @ b) = d @ takeWhile isDigit b"
    using assms(2) by (simp add: takeWhile_append2)
  then show ?thesis using assms(1) by (simp add: startsPsDigits_def)
qed

lemma holdsPsDigits_intro:
  assumes "u = a @ ''PS'' @ d @ b" and "5 \<le> length d" and "\<forall>c \<in> set d. isDigit c"
  shows "holdsPsDigits u"
  unfolding assms(1)
proof (induction a)
  case Nil
  from startsPsDigits_intro [OF assms(2,3), of b] show ?case by simp
next
  case (Cons c a)
  then show ?case by simp
qed

text \<open>What the two part-number patterns need at the position where they match.\<close>

lemma PS_token_starts:
  assumes "rx_seqs [rx_wordb, rx_lit ''PS'', rx_rep isDigit 5 (Some hi), rx_wordb] (p, s, caps) \<noteq> []"
  shows "\<exists>d r. s = (''PS'' @ d) @ r \<and> length d = 5 \<and> (\<forall>c \<in> set d. isDigit c)"
proof -
  from assms obtain st' where
    "st' \<in> set (rx_seqs [rx_wordb, rx_lit ''PS'', rx_rep isDigit 5 (Some hi), rx_wordb] (p, s, caps))"
    by (cases "rx_seqs [rx_wordb, rx_lit ''PS'', rx_rep isDigit 5 (Some hi), rx_wordb] (p, s, caps)") auto
  from PS_token_elem [OF this] obtain ds s' where
    t: "s = ''PS'' @ ds @ s'" "5 \<le> length ds" "\<forall>d \<in> set ds. isDigit d" by auto
  have "s = (''PS'' @ take 5 ds) @ (drop 5 ds @ s')" using t(1) by simp
  moreover have "length (take 5 ds) = 5" using t(2) by simp
  moreover have "\<forall>c \<in> set (take 5 ds). isDigit c" using t(3) by (meson in_set_takeD)
  ultimately show ?thesis by blast
qed

lemma PS_IN_URL_starts:
  assumes "PS_IN_URL_RE (p, s, caps) \<noteq> []"
  shows "\<exists>x y d r. s = (x # y # d) @ r \<and> toUpperChar x = CHR ''P'' \<and> toUpperChar y = CHR ''S''
           \<and> length d = 5 \<and> (\<forall>c \<in> set d. isDigit c)"
proof -
  have up: "toUpperChar CHR ''P'' = CHR ''P''" "toUpperChar CHR ''S'' = CHR ''S''" by code_simp+
  from assms obtain st' where
    "st' \<in> set (rx_seqs [rx_lit_ci ''PS'', rx_rep isDigit 5 (Some 10)] (p, s, caps))"
    by (cases "rx_seqs [rx_lit_ci ''PS'', rx_rep isDigit 5 (Some 10)] (p, s, caps)")
       (auto simp add: PS_IN_URL_RE_def rx_grp_def)
  then obtain m1 where
    m1: "m1 \<in> set (rx_lit_ci ''PS'' (p, s, caps))"
    and r1: "st' \<in> set (rx_seq (rx_rep isDigit 5 (Some 10)) rx_eps m1)"
    by (auto dest: rx_seq_elem)
  from m1 obtain x y s2 where s2: "s = x # y # s2" "toUpperChar x = CHR ''P''" "toUpperChar y = CHR ''S''"
    "m1 = (Some y, s2, caps)"
    by (auto simp add: rx_lit_ci_def rx_seq_def rx_char_def rx_eps_def up split: list.splits if_splits)
  from rx_seq_elem [OF r1] obtain m2 where "m2 \<in> set (rx_rep isDigit 5 (Some 10) m1)" by blast
  from rx_rep_elem [OF this [unfolded s2(4)]] obtain k where
    k: "5 \<le> k" "k \<le> length (takeWhile isDigit s2)" by auto
  from takeWhile_prefix [OF k(2)] have dig: "\<forall>c \<in> set (take k s2). isDigit c" and len: "k \<le> length s2"
    by auto
  have "s = (x # y # take 5 s2) @ drop 5 s2" using s2(1) by simp
  moreover have "length (take 5 s2) = 5" using k(1) len by simp
  moreover have "\<forall>c \<in> set (take 5 s2). isDigit c"
    using dig k(1) by (metis in_set_takeD take_take min.absorb1)
  ultimately show ?thesis using s2(2,3) by blast
qed

lemma PS_token_skip:
  assumes "\<not> holdsPsDigits u"
  shows "rx_search (rx_seqs [rx_wordb, rx_lit ''PS'', rx_rep isDigit 5 (Some hi), rx_wordb]) p
           (u @ CHR ''P'' # rest)
       = rx_search (rx_seqs [rx_wordb, rx_lit ''PS'', rx_rep isDigit 5 (Some hi), rx_wordb])
           (if u = [] then p else Some (last u)) (CHR ''P'' # rest)"
proof (rule rx_search_skip_gen)
  fix a b
  assume u: "u = a @ b" and b: "b \<noteq> []"
  show "rx_seqs [rx_wordb, rx_lit ''PS'', rx_rep isDigit 5 (Some hi), rx_wordb]
          (if a = [] then p else Some (last a), b @ CHR ''P'' # rest, []) = []"
  proof (rule ccontr)
    assume "rx_seqs [rx_wordb, rx_lit ''PS'', rx_rep isDigit 5 (Some hi), rx_wordb]
          (if a = [] then p else Some (last a), b @ CHR ''P'' # rest, []) \<noteq> []"
    from PS_token_starts [OF this] obtain d r where
      t: "b @ CHR ''P'' # rest = (''PS'' @ d) @ r" "length d = 5" "\<forall>c \<in> set d. isDigit c" by blast
    have "CHR ''P'' \<notin> set (tl (''PS'' @ d))" using t(3) digit_not_P by auto
    from occurrence_within [OF t(1) b this] obtain us where "b = (''PS'' @ d) @ us" by blast
    with u have "u = a @ ''PS'' @ d @ us" by simp
    from holdsPsDigits_intro [OF this] t(2,3) assms show False by simp
  qed
qed

lemma PS_token_nowhere:
  assumes "\<not> holdsPsDigits u"
  shows "rx_search (rx_seqs [rx_wordb, rx_lit ''PS'', rx_rep isDigit 5 (Some hi), rx_wordb]) p u = None"
proof (rule rx_search_none_gen)
  fix a b
  assume u: "u = a @ b" and b: "b \<noteq> []"
  show "rx_seqs [rx_wordb, rx_lit ''PS'', rx_rep isDigit 5 (Some hi), rx_wordb]
          (if a = [] then p else Some (last a), b, []) = []"
  proof (rule ccontr)
    assume "rx_seqs [rx_wordb, rx_lit ''PS'', rx_rep isDigit 5 (Some hi), rx_wordb]
          (if a = [] then p else Some (last a), b, []) \<noteq> []"
    from PS_token_starts [OF this] obtain d r where
      t: "b = (''PS'' @ d) @ r" "length d = 5" "\<forall>c \<in> set d. isDigit c" by blast
    with u have "u = a @ ''PS'' @ d @ r" by simp
    from holdsPsDigits_intro [OF this] t(2,3) assms show False by simp
  qed
next
  fix q
  show "rx_seqs [rx_wordb, rx_lit ''PS'', rx_rep isDigit 5 (Some hi), rx_wordb] (q, [], []) = []"
    by (rule PS_token_not_at_end)
qed

lemma upper_P_ascii: "toUpperChar x = CHR ''P'' \<Longrightarrow> isAscii x"
  and upper_S_ascii: "toUpperChar x = CHR ''S'' \<Longrightarrow> isAscii x"
proof -
  have a: "isAscii CHR ''P''" "isAscii CHR ''S''" by code_simp+
  show "toUpperChar x = CHR ''P'' \<Longrightarrow> isAscii x" using toUpperChar_ascii [of x] a by simp
  show "toUpperChar x = CHR ''S'' \<Longrightarrow> isAscii x" using toUpperChar_ascii [of x] a by simp
qed

lemma upper_PS_run:
  assumes "toUpperChar x = CHR ''P''" and "toUpperChar y = CHR ''S''" and "\<forall>c \<in> set d. isDigit c"
  shows "toUpperCase (a @ (x # y # d) @ r) = toUpperCase a @ ''PS'' @ d @ toUpperCase r"
proof -
  have asc: "ascii (x # y # d)"
    using assms by (simp add: ascii_def list_all_iff upper_P_ascii upper_S_ascii digit_ascii)
  have "toUpperCase (a @ (x # y # d) @ r) = toUpperCase a @ toUpperCase ((x # y # d) @ r)"
    by (rule toUpperCase_append) (use assms(1) upper_P_ascii in simp)
  also have "toUpperCase ((x # y # d) @ r) = map toUpperChar (x # y # d) @ toUpperCase r"
    using asc by (rule toUpperCase_ascii_append)
  also have "map toUpperChar (x # y # d) = ''PS'' @ d"
    using assms by (simp add: toUpperChar_digit map_idI)
  finally show ?thesis by simp
qed

lemma PS_IN_URL_skip:
  assumes "\<not> holdsPsDigits (toUpperCase pre)" and "toUpperChar x = CHR ''P''"
  shows "rx_search PS_IN_URL_RE p (pre @ x # rest)
       = rx_search PS_IN_URL_RE (if pre = [] then p else Some (last pre)) (x # rest)"
proof (rule rx_search_skip_gen)
  fix a b
  assume u: "pre = a @ b" and b: "b \<noteq> []"
  show "PS_IN_URL_RE (if a = [] then p else Some (last a), b @ x # rest, []) = []"
  proof (rule ccontr)
    assume "PS_IN_URL_RE (if a = [] then p else Some (last a), b @ x # rest, []) \<noteq> []"
    from PS_IN_URL_starts [OF this] obtain x' y' d r where
      t: "b @ x # rest = (x' # y' # d) @ r" "toUpperChar x' = CHR ''P''" "toUpperChar y' = CHR ''S''"
         "length d = 5" "\<forall>c \<in> set d. isDigit c" by blast
    have "x \<noteq> y'" using assms(2) t(3) by auto
    moreover have "x \<notin> set d"
    proof
      assume "x \<in> set d"
      then have "isDigit x" using t(5) by simp
      then show False using assms(2) toUpperChar_digit digit_not_P by metis
    qed
    ultimately have "x \<notin> set (tl (x' # y' # d))" by simp
    from occurrence_within [OF t(1) b this] obtain us where "b = (x' # y' # d) @ us" by blast
    with u have "pre = a @ (x' # y' # d) @ us" by simp
    then have "toUpperCase pre = toUpperCase a @ ''PS'' @ d @ toUpperCase us"
      using upper_PS_run [OF t(2,3,5)] by simp
    from holdsPsDigits_intro [OF this] t(4,5) assms(1) show False by simp
  qed
qed

section \<open>Facts about a turn\<close>


lemma metaBase_fields:
  "toolsUsed (t_metaBase (resolveTurn m h)) = []"
  "inDomain (t_metaBase (resolveTurn m h)) = True"
  "ex_partNumber (extracted (t_metaBase (resolveTurn m h))) = t_partNumber (resolveTurn m h)"
  "ex_modelNumber (extracted (t_metaBase (resolveTurn m h))) = t_modelNumber (resolveTurn m h)"
  "ex_appliance (extracted (t_metaBase (resolveTurn m h))) = t_appliance (resolveTurn m h)"
  "intent (t_metaBase (resolveTurn m h)) = t_intent0 (resolveTurn m h)"
  by (simp_all add: resolveTurn_def Let_def)





lemma shouldClearAwaiting_None: "shouldClearAwaiting None i ap m = False"
  by (simp add: shouldClearAwaiting_def)


lemma followUp_pump_sound:
  assumes "t_awaiting t = Some Pump_sound"
  shows "followUp w m h t =
     (if isClearIntentShift m then Inr (t_intent0 t)
      else (let ps0 = parsePumpSound m;
                llm = (if ps0 = Unknown_sound then groqParsePumpSound (groqWorld w) m
                       else Unknown_sound);
                usedGroq = (ps0 = Unknown_sound \<and> llm \<noteq> Unknown_sound);
                ps = (if usedGroq then llm else ps0);
                tools = (if usedGroq then toolsUsed (t_metaBase t) @ [''groqParsePumpSound'']
                         else toolsUsed (t_metaBase t));
                ma = (t_metaBase t)\<lparr>intent := Troubleshooting, toolsUsed := tools\<rparr>
            in if ps = Humming then Inl (respond replyPumpHumming ma)
               else if ps = Running then Inl (respond (troubleshootDishwasherDrainPumpFollowup True) ma)
               else if ps = Silent then Inl (respond (troubleshootDishwasherDrainPumpFollowup False) ma)
               else Inl (respond askPumpSound ma)))"
  unfolding followUp_def Let_def assms by simp

lemma followUp_other:
  assumes "t_awaiting t \<noteq> Some Pump_sound"
  shows "followUp w1 m h t = followUp w2 m h t"
proof (cases "t_awaiting t")
  case None
  then show ?thesis by (simp add: followUp_def Let_def)
next
  case (Some k)
  with assms show ?thesis
    by (cases k) (simp_all add: followUp_def Let_def)
qed

lemma followUp_world:
  assumes "t_awaiting t = Some Pump_sound \<and> \<not> isClearIntentShift m \<and> parsePumpSound m = Unknown_sound
           \<longrightarrow> groqParsePumpSound (groqWorld w1) m = groqParsePumpSound (groqWorld w2) m"
  shows "followUp w1 m h t = followUp w2 m h t"
proof (cases "t_awaiting t = Some Pump_sound")
  case False
  then show ?thesis by (rule followUp_other)
next
  case True
  show ?thesis
  proof (cases "isClearIntentShift m \<or> parsePumpSound m \<noteq> Unknown_sound")
    case True
    then show ?thesis
      unfolding followUp_pump_sound [OF \<open>t_awaiting t = Some Pump_sound\<close>] Let_def by auto
  next
    case False
    with assms \<open>t_awaiting t = Some Pump_sound\<close>
    have "groqParsePumpSound (groqWorld w1) m = groqParsePumpSound (groqWorld w2) m" by simp
    then show ?thesis
      unfolding followUp_pump_sound [OF \<open>t_awaiting t = Some Pump_sound\<close>] Let_def by simp
  qed
qed

lemma routeIntent_world:
  assumes "partsTable w1 = partsTable w2" "compatTable w1 = compatTable w2"
    "guidesTable w1 = guidesTable w2"
  shows "routeIntent w1 m t i = routeIntent w2 m t i"
  unfolding routeIntent_def assms by (rule refl)

lemma handleChatTurn_world:
  assumes "partsTable w1 = partsTable w2" "compatTable w1 = compatTable w2"
    "guidesTable w1 = guidesTable w2"
    and "extractEmail m = None \<or> ticketDraw w1 = ticketDraw w2"
    and "t_awaiting (resolveTurn m h) = Some Pump_sound \<and> \<not> isClearIntentShift m
           \<and> parsePumpSound m = Unknown_sound
           \<longrightarrow> groqParsePumpSound (groqWorld w1) m = groqParsePumpSound (groqWorld w2) m"
  shows "handleChatTurn w1 m h = handleChatTurn w2 m h"
proof -
  have f: "followUp w1 m h (resolveTurn m h) = followUp w2 m h (resolveTurn m h)"
    using assms(5) by (rule followUp_world)
  have r: "routeIntent w1 m (resolveTurn m h) i = routeIntent w2 m (resolveTurn m h) i" for i
    using assms(1-3) by (rule routeIntent_world)
  show ?thesis
  proof (cases "present (extractEmail m)")
    case True
    with assms(4) have d: "ticketDraw w1 = ticketDraw w2"
      by (auto simp add: present_def orEmpty_def)
    show ?thesis unfolding handleChatTurn_def Let_def f r d by (rule refl)
  next
    case False
    then have np: "present (extractEmail m) = False" by simp
    show ?thesis unfolding handleChatTurn_def Let_def f r np
      by (simp only: simp_thms if_False)
  qed
qed

lemma awaiting_from_history:
  "t_awaiting (resolveTurn m h) = Some k \<Longrightarrow> inferDialogState h = Some k"
  by (simp add: resolveTurn_def Let_def split: if_splits)

lemma hums_facts:
  "extractEmail ''it hums'' = None" "parsePumpSound ''it hums'' = Humming"
  by code_simp+

section \<open>Intent non-stealing\<close>



lemma whichStep_clamps:
  "detectInstallStepFollowup
     [\<lparr>role = Assistant, content = ''Which step are you on: panel, clamps, or connector?''\<rparr>]
     ''clamps'' = Some Clamps"
  by code_simp













section \<open>Slot clearing\<close>

lemma leak_facts:
  "inferIntent ''it leaks'' = Troubleshooting"
  "hasGlobalIntentKeyword ''it leaks'' = False"
  "extractPartNumberFromLinkOrText ''it leaks'' = None"
  "extractModelNumber ''it leaks'' = None"
  "extractOrderId ''it leaks'' = None"
  "extractZip ''it leaks'' = None"
  by code_simp+

text \<open>
  C2. The claim counts \<open>panel_still_wont_drop_yesno\<close> and \<open>connector_moving_or_stuck\<close>
  among the installation slots that a troubleshooting message clears, as
  \<open>isAwaitingInstall\<close> does. \<open>shouldClearAwaiting\<close> lists only the four older kinds:
  on the message "it leaks" (raw intent \<open>troubleshooting\<close>, no keyword, no entity) it
  clears \<open>install_step\<close> and keeps the two newer slots, for every appliance.
\<close>

theorem shouldClearAwaiting_misses_new_install_slots:
  "isAwaitingInstall (Some Panel_still_wont_drop_yesno)
   \<and> isAwaitingInstall (Some Connector_moving_or_stuck)
   \<and> inferIntent ''it leaks'' = Troubleshooting
   \<and> shouldClearAwaiting (Some Panel_still_wont_drop_yesno) (inferIntent ''it leaks'') ap ''it leaks'' = False
   \<and> shouldClearAwaiting (Some Connector_moving_or_stuck) (inferIntent ''it leaks'') ap ''it leaks'' = False
   \<and> shouldClearAwaiting (Some Install_step) (inferIntent ''it leaks'') ap ''it leaks'' = True"
  by (simp add: shouldClearAwaiting_def leak_facts isAwaitingInstall_def isAwaitingTroubleshoot_def)

theorem shouldClearAwaiting_misses_new_install_slots_witness:
  "\<not> shouldClearAwaiting (Some Panel_still_wont_drop_yesno) Troubleshooting Unknown_appliance ''it leaks''
   \<and> shouldClearAwaiting (Some Install_step) Troubleshooting Unknown_appliance ''it leaks''"
  using shouldClearAwaiting_misses_new_install_slots [of Unknown_appliance]
  by (simp add: leak_facts)

section \<open>Unparseable slot answers\<close>

lemma hmm_facts:
  "isClearIntentShift ''hmm'' = False"
  "parseLatchSide ''hmm'' = None"
  "parseYesNo ''hmm'' = None"
  "looksLikeAck ''hmm'' = False"
  "looksLikeSmallTalk ''hmm'' = False"
  "wantsHuman ''hmm'' = False"
  "extractEmail ''hmm'' = None"
  "hasGlobalIntentKeyword ''hmm'' = False"
  "extractPartNumberFromLinkOrText ''hmm'' = None"
  "extractModelNumber ''hmm'' = None"
  "extractOrderId ''hmm'' = None"
  "extractZip ''hmm'' = None"
  "extractShortPartToken ''hmm'' = None"
  "inferIntent ''hmm'' = Unknown_intent"
  by code_simp+

lemma latch_state: "inferDialogState latchTurn = Some Connector_latch_side"
  by code_simp

lemma latch_pending: "handoffPending latchTurn = False"
  by code_simp

lemma hmm_turn:
  "t_awaiting (resolveTurn ''hmm'' latchTurn) = Some Connector_latch_side"
  "t_hasIncompletePart (resolveTurn ''hmm'' latchTurn) = False"
  by (simp_all add: resolveTurn_def Let_def latch_state shouldClearAwaiting_def
      hmm_facts isAwaitingTroubleshoot_def resolveEntities_def)

lemma reask_latch_lost:
  "inferDialogState (h @ [\<lparr>role = User, content = m\<rparr>,
      \<lparr>role = Assistant, content = ''Is the latch on the top, or on the side?''\<rparr>]) = None"
proof -
  have "inferDialogState
      [\<lparr>role = Assistant, content = ''Is the latch on the top, or on the side?''\<rparr>] = None"
    by code_simp
  then show ?thesis
    by (simp add: inferDialogState_def lastAssistant_def)
qed

text \<open>
  C3. The claim wants the re-asked question to keep the slot, in particular for
  \<open>connector_latch_side\<close>. After the connector help, whose last sentence asks for the
  latch, the slot is \<open>connector_latch_side\<close>; the message "hmm" is no clear shift and
  parses neither as a side nor as yes or no, and the reply is the re-ask
  "Is the latch on the top, or on the side?". No rule of \<open>inferDialogState\<close> matches that
  text: in the history extended with the message and the reply the slot is gone.
\<close>

theorem latch_reask_loses_slot:
  "inferDialogState latchTurn = Some Connector_latch_side
   \<and> isClearIntentShift ''hmm'' = False
   \<and> parseLatchSide ''hmm'' = None
   \<and> parseYesNo ''hmm'' = None
   \<and> reply (handleChatTurn w ''hmm'' latchTurn) = ''Is the latch on the top, or on the side?''
   \<and> inferDialogState (latchTurn @ [\<lparr>role = User, content = ''hmm''\<rparr>,
         \<lparr>role = Assistant, content = reply (handleChatTurn w ''hmm'' latchTurn)\<rparr>]) = None"
proof -
  have r: "reply (handleChatTurn w ''hmm'' latchTurn) = ''Is the latch on the top, or on the side?''"
    by (simp add: handleChatTurn_def Let_def domainAllowed_def hmm_turn hmm_facts latch_pending
        present_def orEmpty_def followUp_def respond_def askLatchSide_def)
  show ?thesis
    by (simp add: r latch_state hmm_facts reask_latch_lost)
qed

theorem latch_reask_loses_slot_witness:
  "inferDialogState latchTurn = Some Connector_latch_side
   \<and> inferDialogState (latchTurn @ [\<lparr>role = User, content = ''hmm''\<rparr>,
       \<lparr>role = Assistant, content = reply (handleChatTurn demoWorld ''hmm'' latchTurn)\<rparr>])
     = None"
  using latch_reask_loses_slot [of demoWorld] by blast

section \<open>Appliance pinning\<close>

lemma inferApplianceFromText_signals: "inferApplianceFromText text = classifyBySignals text"
  by (simp add: inferApplianceFromText_def classifyBySignals_def dishwasherSignals_def
      refrigeratorSignals_def Let_def)


lemma countVotes_votes:
  "countVotes ms (dw, rf) = (dw + votes Dishwasher ms, rf + votes Refrigerator ms)"
  by (induction ms arbitrary: dw rf)
     (simp_all add: votes_def Let_def inferApplianceFromText_signals)

lemma lastNUser_lastUserTurns: "0 < n \<Longrightarrow> lastNUser history n = lastUserTurns n history"
  by (simp add: lastNUser_def lastUserTurns_def Let_def take_rev)

text \<open>
  C4. The keyword classifier answers dishwasher when the lower-cased text holds a
  dishwasher signal, else refrigerator when it holds a refrigerator signal, else unknown.
  \<open>inferPinnedAppliance\<close> returns the classifier's answer on the current message when
  that is dishwasher or refrigerator, whatever the history; otherwise it classifies each
  of the last eight user turns and returns the appliance with strictly more votes, and
  unknown on a tie.
\<close>

theorem inferPinnedAppliance_majority:
  "inferApplianceFromText text = classifyBySignals text
   \<and> inferPinnedAppliance message history = pinnedBySpec message history"
proof -
  have eq: "inferPinnedAppliance message history =
      (if classifyBySignals message \<noteq> Unknown_appliance then classifyBySignals message
       else if votes Dishwasher (lastUserTurns 8 history) = votes Refrigerator (lastUserTurns 8 history)
         then Unknown_appliance
       else if votes Dishwasher (lastUserTurns 8 history) > votes Refrigerator (lastUserTurns 8 history)
         then Dishwasher else Refrigerator)"
    unfolding inferPinnedAppliance_def Let_def inferApplianceFromText_signals
      lastNUser_lastUserTurns [of 8, simplified] countVotes_votes
    by simp
  have "inferPinnedAppliance message history = pinnedBySpec message history"
    unfolding eq pinnedBySpec_def Let_def
    by (cases "classifyBySignals message") auto
  then show ?thesis
    using inferApplianceFromText_signals by simp
qed

lemma pinning_example:
  "pinnedBySpec ''humming''
     [\<lparr>role = User, content = ''My dishwasher is not draining''\<rparr>,
      \<lparr>role = Assistant, content = ''...''\<rparr>,
      \<lparr>role = User, content = ''yes''\<rparr>] = Dishwasher"
  by code_simp

theorem inferPinnedAppliance_majority_witness:
  "inferPinnedAppliance ''humming''
     [\<lparr>role = User, content = ''My dishwasher is not draining''\<rparr>,
      \<lparr>role = Assistant, content = ''...''\<rparr>,
      \<lparr>role = User, content = ''yes''\<rparr>] = Dishwasher"
  using inferPinnedAppliance_majority [of "[]" "''humming''"
      "[\<lparr>role = User, content = ''My dishwasher is not draining''\<rparr>,
        \<lparr>role = Assistant, content = ''...''\<rparr>,
        \<lparr>role = User, content = ''yes''\<rparr>]"]
  by (simp add: pinning_example)

section \<open>Tri-state compatibility\<close>




















section \<open>Part-number token discipline\<close>

lemma short_token_not_full:
  assumes "length ds \<le> 4" and "toUpperCase tok = ''PS'' @ ds"
  shows "extractPartNumber tok = None"
proof (rule ccontr)
  assume "extractPartNumber tok \<noteq> None"
  then obtain v where "extractPartNumber tok = Some v" by auto
  from extractPartNumber_token [OF this] obtain pre ds' post where
    "toUpperCase tok = pre @ v @ post" "v = ''PS'' @ ds'" "5 \<le> length ds'" by blast
  then have "length (toUpperCase tok) \<ge> 7" by simp
  with assms show False by simp
qed

lemma short_token_present:
  assumes "\<forall>d \<in> set sd. isDigit d" and "1 \<le> length sd" and "length sd \<le> 4"
    and "toUpperCase text = pre @ ''PS'' @ sd @ post"
    and "pre = [] \<or> \<not> isWordChar (last pre)" and "post = [] \<or> \<not> isWordChar (hd post)"
  shows "\<exists>sd'. extractShortPartToken text = Some (''PS'' @ sd') \<and> 1 \<le> length sd' \<and> length sd' \<le> 4
           \<and> (\<forall>d \<in> set sd'. isDigit d)"
proof -
  let ?p = "if pre = [] then None else Some (last pre)"
  have np: "\<not> isWordOpt ?p" using assms(5) by (auto simp add: isWordOpt_def)
  have one: "0 < (1::nat)" by simp
  from PS_token_head [OF assms(1) assms(6) assms(2,3) one np, of "[]"] obtain xs where
    "PS_SHORT_RE (?p, ''PS'' @ sd @ post, []) = (Some (last sd), post, []) # xs"
    by (auto simp add: PS_SHORT_RE_def)
  then have "PS_SHORT_RE (?p, ''PS'' @ sd @ post, []) \<noteq> []" by simp
  from rx_search_found [of "toUpperCase text" pre "''PS'' @ sd @ post" PS_SHORT_RE None, OF assms(4) this]
  obtain m where
    m: "rx_match PS_SHORT_RE (toUpperCase text) = Some m"
    by (auto simp add: rx_match_def)
  from PS_token_match [OF m [unfolded PS_SHORT_RE_def] one] obtain ds where
    "matched m = ''PS'' @ ds" "1 \<le> length ds" "length ds \<le> 4" "\<forall>d \<in> set ds. isDigit d"
    by blast
  with m show ?thesis by (auto simp add: extractShortPartToken_def)
qed

lemma short_token_leftmost:
  assumes "\<forall>d \<in> set sd. isDigit d" and "1 \<le> length sd" and "length sd \<le> 4"
    and "toUpperCase text = pre @ ''PS'' @ sd @ post"
    and "pre = [] \<or> \<not> isWordChar (last pre)" and "post = [] \<or> \<not> isWordChar (hd post)"
    and "\<forall>c \<in> set pre. c \<noteq> CHR ''P''"
  shows "extractShortPartToken text = Some (''PS'' @ sd)"
proof -
  let ?p = "if pre = [] then None else Some (last pre)"
  have np: "\<not> isWordOpt ?p" using assms(5) by (auto simp add: isWordOpt_def)
  have one: "0 < (1::nat)" by simp
  from PS_token_head [OF assms(1) assms(6) assms(2,3) one np, of "[]"] obtain xs where
    h: "PS_SHORT_RE (?p, ''PS'' @ sd @ post, []) = (Some (last sd), post, []) # xs"
    by (auto simp add: PS_SHORT_RE_def)
  have f1: "\<not> (c = CHR ''P'') \<Longrightarrow> PS_SHORT_RE (p, c # cs, []) = []" for p c cs
    unfolding PS_SHORT_RE_def by (rule PS_token_needs_P) simp
  have "rx_search PS_SHORT_RE None (pre @ ''PS'' @ sd @ post)
      = rx_search PS_SHORT_RE ?p (''PS'' @ sd @ post)"
    by (rule rx_search_skip [where F = "\<lambda>c. c = CHR ''P''"]) (use f1 assms(7) in auto)
  also have "\<dots> = Some \<lparr>matched = take (length (''PS'' @ sd @ post) - length post) (''PS'' @ sd @ post),
                          groups = []\<rparr>"
    using h by (rule rx_search_head)
  finally show ?thesis
    by (simp add: extractShortPartToken_def rx_match_def assms(4))
qed

lemma short_value_not_full:
  assumes "length sd \<le> 4"
  shows "extractPartNumber text \<noteq> Some (''PS'' @ sd)"
proof
  assume "extractPartNumber text = Some (''PS'' @ sd)"
  from extractPartNumber_token [OF this] obtain ds where
    "''PS'' @ sd = ''PS'' @ ds" "5 \<le> length ds" by blast
  with assms show False by simp
qed

lemma PS_IN_URL_not_at_end: "PS_IN_URL_RE (q, [], caps) = []"
  by (simp add: PS_IN_URL_RE_def rx_grp_def rx_lit_ci_def rx_seq_def rx_char_def)

lemma no_full_number:
  assumes "\<not> holdsPsDigits (toUpperCase text)"
  shows "extractPartNumberFromLinkOrText text = None"
proof -
  have d: "extractPartNumber text = None"
    using PS_token_nowhere [OF assms, of 10 None]
    by (simp add: extractPartNumber_def rx_match_def PS_FULL_RE_def)
  have "rx_search PS_IN_URL_RE None text = None"
  proof (rule rx_search_none_gen)
    fix a b
    assume u: "text = a @ b" and b: "b \<noteq> []"
    show "PS_IN_URL_RE (if a = [] then None else Some (last a), b, []) = []"
    proof (rule ccontr)
      assume "PS_IN_URL_RE (if a = [] then None else Some (last a), b, []) \<noteq> []"
      from PS_IN_URL_starts [OF this] obtain x y d r where
        t: "b = (x # y # d) @ r" "toUpperChar x = CHR ''P''" "toUpperChar y = CHR ''S''"
           "length d = 5" "\<forall>c \<in> set d. isDigit c" by blast
      with u have "text = a @ (x # y # d) @ r" by simp
      then have "toUpperCase text = toUpperCase a @ ''PS'' @ d @ toUpperCase r"
        using upper_PS_run [OF t(2,3,5)] by simp
      from holdsPsDigits_intro [OF this] t(4,5) assms show False by simp
    qed
  next
    fix q show "PS_IN_URL_RE (q, [], []) = []" by (rule PS_IN_URL_not_at_end)
  qed
  then show ?thesis
    by (simp add: extractPartNumberFromLinkOrText_def d rx_match_def)
qed

lemma incomplete_part_reply:
  assumes "extractShortPartToken message = Some tok"
    and "extractPartNumberFromLinkOrText message = None"
    and "domainAllowed message (resolveTurn message h)"
  shows "reply (handleChatTurn w message h) = replyAskForFullPart (Some tok)"
proof -
  have inc: "t_hasIncompletePart (resolveTurn message h)" "t_shortPart (resolveTurn message h) = Some tok"
    using assms(1,2) by (simp_all add: resolveTurn_def resolveEntities_def Let_def)
  show ?thesis
    using inc assms(3) by (simp add: handleChatTurn_def Let_def respond_def)
qed

lemma replyAskForFullPart_text:
  "tok \<noteq> [] \<Longrightarrow> replyAskForFullPart (Some tok) =
     ''What'' @ rsquo @ ''s the full PartSelect part number (starts with PS'' @ hellip @ '')?''
     @ nl @ nl @ ''I saw '' @ dquote @ tok @ dquote @ '' '' @ mdash
     @ '' part numbers usually look like PS + 5'' @ ndash @ ''10 digits.''"
  by (simp add: replyAskForFullPart_def)

lemma ascii_PS_gate:
  assumes "ascii message" and "toUpperCase message = pre @ ''PS'' @ rest"
  shows "domainAllowed message (resolveTurn message h)"
proof -
  from assms obtain m1 m2 where m: "message = m1 @ m2" "map toUpperChar m2 = ''PS'' @ rest"
    by (auto simp add: toUpperCase_ascii map_eq_append_conv)
  then obtain x y m3 where m2: "m2 = x # y # m3" "toUpperChar x = CHR ''P''" "toUpperChar y = CHR ''S''"
    by (cases m2; cases "tl m2") auto
  have "toLowerCase message = map toLowerChar m1 @ ''ps'' @ map toLowerChar m3"
    using m(1) m2 assms(1) by (simp add: toLowerCase_ascii upper_P_lower_p upper_S_lower_s)
  then have "str_includes (toLowerCase message) ''ps''"
    by (simp only: str_includes_append)
  then show ?thesis by (simp add: domainAllowed_def Let_def)
qed

lemma PS117_facts:
  "toUpperCase ''do you have ps117?'' = ''DO YOU HAVE '' @ ''PS'' @ ''117'' @ ''?''"
  "\<forall>d \<in> set ''117''. isDigit d"
  "\<not> isWordChar (last ''DO YOU HAVE '')" "\<not> isWordChar (hd ''?'')"
  "\<forall>c \<in> set ''DO YOU HAVE ''. c \<noteq> CHR ''P''"
  "\<not> holdsPsDigits (toUpperCase ''do you have ps117?'')"
  "ascii ''do you have ps117?''"
  "toUpperCase ''PS117'' = [] @ ''PS'' @ ''117'' @ []"
  "\<not> holdsPsDigits (toUpperCase ''PS117'')"
  "ascii ''PS117''"
  "extractPartNumber ''ps11752778 ok'' = Some ''PS11752778''"
  by code_simp+

text \<open>
  C6, amended. (1) When \<open>extractPartNumber\<close> returns a value, the upper-cased text holds
  that value as a token: PS followed by five to ten digits, with no word character before
  or after it. (2) When the upper-cased text holds a token of PS and one to four digits,
  \<open>extractShortPartToken\<close> returns such a token (that very token when no letter P stands
  before it), \<open>extractPartNumber\<close> never returns it, and returns nothing when the text is
  the token alone. (3) When moreover the upper-cased message holds no PS followed by five
  digits (no full part number, in plain text or in a link) and the message passes the
  domain filter, the reply, for every world and history, is the request for the full
  PartSelect part number with the short token quoted as a hint. (4) An ASCII message with
  the token always passes the domain filter; (5) "PS117" is such a message.
\<close>

theorem part_number_token_discipline:
  "(extractPartNumber msg = Some v \<longrightarrow>
      (\<exists>a ds b. toUpperCase msg = a @ v @ b \<and> v = ''PS'' @ ds
          \<and> 5 \<le> length ds \<and> length ds \<le> 10 \<and> (\<forall>d \<in> set ds. isDigit d)
          \<and> (a = [] \<or> \<not> isWordChar (last a)) \<and> (b = [] \<or> \<not> isWordChar (hd b))))
   \<and> ((\<forall>d \<in> set sd. isDigit d) \<and> 1 \<le> length sd \<and> length sd \<le> 4
        \<and> toUpperCase msg = pre @ ''PS'' @ sd @ post
        \<and> (pre = [] \<or> \<not> isWordChar (last pre)) \<and> (post = [] \<or> \<not> isWordChar (hd post))
      \<longrightarrow> (\<exists>sd'. extractShortPartToken msg = Some (''PS'' @ sd') \<and> 1 \<le> length sd'
                \<and> length sd' \<le> 4 \<and> (\<forall>d \<in> set sd'. isDigit d))
          \<and> ((\<forall>c \<in> set pre. c \<noteq> CHR ''P'') \<longrightarrow> extractShortPartToken msg = Some (''PS'' @ sd))
          \<and> extractPartNumber msg \<noteq> Some (''PS'' @ sd)
          \<and> (pre = [] \<and> post = [] \<longrightarrow> extractPartNumber msg = None)
          \<and> (\<not> holdsPsDigits (toUpperCase msg) \<and> domainAllowed msg (resolveTurn msg h) \<longrightarrow>
               (\<exists>sd'. 1 \<le> length sd' \<and> length sd' \<le> 4 \<and> (\<forall>d \<in> set sd'. isDigit d)
                  \<and> ((\<forall>c \<in> set pre. c \<noteq> CHR ''P'') \<longrightarrow> sd' = sd)
                  \<and> reply (handleChatTurn w msg h) =
                      ''What'' @ rsquo @ ''s the full PartSelect part number (starts with PS'' @ hellip @ '')?''
                      @ nl @ nl @ ''I saw '' @ dquote @ ''PS'' @ sd' @ dquote @ '' '' @ mdash
                      @ '' part numbers usually look like PS + 5'' @ ndash @ ''10 digits.''))
          \<and> (ascii msg \<longrightarrow> domainAllowed msg (resolveTurn msg h)))
   \<and> reply (handleChatTurn w ''PS117'' h) =
          ''What'' @ rsquo @ ''s the full PartSelect part number (starts with PS'' @ hellip @ '')?''
          @ nl @ nl @ ''I saw '' @ dquote @ ''PS117'' @ dquote @ '' '' @ mdash
          @ '' part numbers usually look like PS + 5'' @ ndash @ ''10 digits.''"
proof -
  have c1: "extractPartNumber msg = Some v \<longrightarrow>
      (\<exists>a ds b. toUpperCase msg = a @ v @ b \<and> v = ''PS'' @ ds
          \<and> 5 \<le> length ds \<and> length ds \<le> 10 \<and> (\<forall>d \<in> set ds. isDigit d)
          \<and> (a = [] \<or> \<not> isWordChar (last a)) \<and> (b = [] \<or> \<not> isWordChar (hd b)))"
    using extractPartNumber_token by blast
  have c2: "(\<forall>d \<in> set sd. isDigit d) \<and> 1 \<le> length sd \<and> length sd \<le> 4
        \<and> toUpperCase msg = pre @ ''PS'' @ sd @ post
        \<and> (pre = [] \<or> \<not> isWordChar (last pre)) \<and> (post = [] \<or> \<not> isWordChar (hd post))
      \<longrightarrow> (\<exists>sd'. extractShortPartToken msg = Some (''PS'' @ sd') \<and> 1 \<le> length sd'
                \<and> length sd' \<le> 4 \<and> (\<forall>d \<in> set sd'. isDigit d))
          \<and> ((\<forall>c \<in> set pre. c \<noteq> CHR ''P'') \<longrightarrow> extractShortPartToken msg = Some (''PS'' @ sd))
          \<and> extractPartNumber msg \<noteq> Some (''PS'' @ sd)
          \<and> (pre = [] \<and> post = [] \<longrightarrow> extractPartNumber msg = None)
          \<and> (\<not> holdsPsDigits (toUpperCase msg) \<and> domainAllowed msg (resolveTurn msg h) \<longrightarrow>
               (\<exists>sd'. 1 \<le> length sd' \<and> length sd' \<le> 4 \<and> (\<forall>d \<in> set sd'. isDigit d)
                  \<and> ((\<forall>c \<in> set pre. c \<noteq> CHR ''P'') \<longrightarrow> sd' = sd)
                  \<and> reply (handleChatTurn w msg h) =
                      ''What'' @ rsquo @ ''s the full PartSelect part number (starts with PS'' @ hellip @ '')?''
                      @ nl @ nl @ ''I saw '' @ dquote @ ''PS'' @ sd' @ dquote @ '' '' @ mdash
                      @ '' part numbers usually look like PS + 5'' @ ndash @ ''10 digits.''))
          \<and> (ascii msg \<longrightarrow> domainAllowed msg (resolveTurn msg h))"
  proof (intro impI)
    assume a: "(\<forall>d \<in> set sd. isDigit d) \<and> 1 \<le> length sd \<and> length sd \<le> 4
        \<and> toUpperCase msg = pre @ ''PS'' @ sd @ post
        \<and> (pre = [] \<or> \<not> isWordChar (last pre)) \<and> (post = [] \<or> \<not> isWordChar (hd post))"
    then have dg: "\<forall>d \<in> set sd. isDigit d" and l1: "1 \<le> length sd" and l4: "length sd \<le> 4"
      and up: "toUpperCase msg = pre @ ''PS'' @ sd @ post"
      and b1: "pre = [] \<or> \<not> isWordChar (last pre)" and b2: "post = [] \<or> \<not> isWordChar (hd post)"
      by simp_all
    from short_token_present [OF dg l1 l4 up b1 b2] obtain sd' where
      s': "extractShortPartToken msg = Some (''PS'' @ sd')" "1 \<le> length sd'" "length sd' \<le> 4"
          "\<forall>d \<in> set sd'. isDigit d" by blast
    have left: "(\<forall>c \<in> set pre. c \<noteq> CHR ''P'') \<longrightarrow> extractShortPartToken msg = Some (''PS'' @ sd)"
      using short_token_leftmost [OF dg l1 l4 up b1 b2] by blast
    have nf: "extractPartNumber msg \<noteq> Some (''PS'' @ sd)"
      using l4 by (rule short_value_not_full)
    have alone: "pre = [] \<and> post = [] \<longrightarrow> extractPartNumber msg = None"
      using short_token_not_full [OF l4, of msg] up by simp
    have rep: "\<not> holdsPsDigits (toUpperCase msg) \<and> domainAllowed msg (resolveTurn msg h) \<longrightarrow>
               (\<exists>sd'. 1 \<le> length sd' \<and> length sd' \<le> 4 \<and> (\<forall>d \<in> set sd'. isDigit d)
                  \<and> ((\<forall>c \<in> set pre. c \<noteq> CHR ''P'') \<longrightarrow> sd' = sd)
                  \<and> reply (handleChatTurn w msg h) =
                      ''What'' @ rsquo @ ''s the full PartSelect part number (starts with PS'' @ hellip @ '')?''
                      @ nl @ nl @ ''I saw '' @ dquote @ ''PS'' @ sd' @ dquote @ '' '' @ mdash
                      @ '' part numbers usually look like PS + 5'' @ ndash @ ''10 digits.'')"
    proof (intro impI)
      assume g: "\<not> holdsPsDigits (toUpperCase msg) \<and> domainAllowed msg (resolveTurn msg h)"
      then have none: "extractPartNumberFromLinkOrText msg = None" using no_full_number by blast
      have "reply (handleChatTurn w msg h) = replyAskForFullPart (Some (''PS'' @ sd'))"
        using s'(1) none g by (intro incomplete_part_reply) simp_all
      then have r: "reply (handleChatTurn w msg h) =
                      ''What'' @ rsquo @ ''s the full PartSelect part number (starts with PS'' @ hellip @ '')?''
                      @ nl @ nl @ ''I saw '' @ dquote @ ''PS'' @ sd' @ dquote @ '' '' @ mdash
                      @ '' part numbers usually look like PS + 5'' @ ndash @ ''10 digits.''"
        using replyAskForFullPart_text [of "''PS'' @ sd'"] by simp
      have same: "(\<forall>c \<in> set pre. c \<noteq> CHR ''P'') \<longrightarrow> sd' = sd"
        using left s'(1) by auto
      from s'(2,3,4) same r show "\<exists>sd'. 1 \<le> length sd' \<and> length sd' \<le> 4 \<and> (\<forall>d \<in> set sd'. isDigit d)
                  \<and> ((\<forall>c \<in> set pre. c \<noteq> CHR ''P'') \<longrightarrow> sd' = sd)
                  \<and> reply (handleChatTurn w msg h) =
                      ''What'' @ rsquo @ ''s the full PartSelect part number (starts with PS'' @ hellip @ '')?''
                      @ nl @ nl @ ''I saw '' @ dquote @ ''PS'' @ sd' @ dquote @ '' '' @ mdash
                      @ '' part numbers usually look like PS + 5'' @ ndash @ ''10 digits.''"
        by blast
    qed
    have gate: "ascii msg \<longrightarrow> domainAllowed msg (resolveTurn msg h)"
      using ascii_PS_gate [of msg pre "sd @ post" h] up by blast
    from s' left nf alone rep gate
    show "(\<exists>sd'. extractShortPartToken msg = Some (''PS'' @ sd') \<and> 1 \<le> length sd'
                \<and> length sd' \<le> 4 \<and> (\<forall>d \<in> set sd'. isDigit d))
          \<and> ((\<forall>c \<in> set pre. c \<noteq> CHR ''P'') \<longrightarrow> extractShortPartToken msg = Some (''PS'' @ sd))
          \<and> extractPartNumber msg \<noteq> Some (''PS'' @ sd)
          \<and> (pre = [] \<and> post = [] \<longrightarrow> extractPartNumber msg = None)
          \<and> (\<not> holdsPsDigits (toUpperCase msg) \<and> domainAllowed msg (resolveTurn msg h) \<longrightarrow>
               (\<exists>sd'. 1 \<le> length sd' \<and> length sd' \<le> 4 \<and> (\<forall>d \<in> set sd'. isDigit d)
                  \<and> ((\<forall>c \<in> set pre. c \<noteq> CHR ''P'') \<longrightarrow> sd' = sd)
                  \<and> reply (handleChatTurn w msg h) =
                      ''What'' @ rsquo @ ''s the full PartSelect part number (starts with PS'' @ hellip @ '')?''
                      @ nl @ nl @ ''I saw '' @ dquote @ ''PS'' @ sd' @ dquote @ '' '' @ mdash
                      @ '' part numbers usually look like PS + 5'' @ ndash @ ''10 digits.''))
          \<and> (ascii msg \<longrightarrow> domainAllowed msg (resolveTurn msg h))"
      by blast
  qed
  have c3: "reply (handleChatTurn w ''PS117'' h) =
          ''What'' @ rsquo @ ''s the full PartSelect part number (starts with PS'' @ hellip @ '')?''
          @ nl @ nl @ ''I saw '' @ dquote @ ''PS117'' @ dquote @ '' '' @ mdash
          @ '' part numbers usually look like PS + 5'' @ ndash @ ''10 digits.''"
  proof -
    have d: "\<forall>d \<in> set ''117''. isDigit d" by (rule PS117_facts)
    have l1: "1 \<le> length ''117''" and l4: "length ''117'' \<le> 4" by simp_all
    have e: "extractShortPartToken ''PS117'' = Some (''PS'' @ ''117'')"
      by (rule short_token_leftmost [OF d l1 l4 PS117_facts(8)]) simp_all
    have n: "extractPartNumberFromLinkOrText ''PS117'' = None"
      by (rule no_full_number) (rule PS117_facts)
    have g: "domainAllowed ''PS117'' (resolveTurn ''PS117'' h)"
      by (rule ascii_PS_gate [OF PS117_facts(10) PS117_facts(8)])
    from incomplete_part_reply [OF e n g, of w] replyAskForFullPart_text [of "''PS117''"]
    show ?thesis by simp
  qed
  from c1 c2 c3 show ?thesis by (intro conjI)
qed

theorem part_number_token_discipline_witness:
  "(\<exists>a ds b. toUpperCase ''ps11752778 ok'' = a @ ''PS11752778'' @ b
        \<and> ''PS11752778'' = ''PS'' @ ds \<and> 5 \<le> length ds \<and> length ds \<le> 10)
   \<and> extractShortPartToken ''do you have ps117?'' = Some ''PS117''
   \<and> extractPartNumber ''do you have ps117?'' \<noteq> Some ''PS117''
   \<and> reply (handleChatTurn demoWorld ''do you have ps117?'' []) =
          ''What'' @ rsquo @ ''s the full PartSelect part number (starts with PS'' @ hellip @ '')?''
          @ nl @ nl @ ''I saw '' @ dquote @ ''PS117'' @ dquote @ '' '' @ mdash
          @ '' part numbers usually look like PS + 5'' @ ndash @ ''10 digits.''"
proof -
  note t = part_number_token_discipline [of "''ps11752778 ok''" "''PS11752778''"]
  note u = part_number_token_discipline [where msg = "''do you have ps117?''" and sd = "''117''"
      and pre = "''DO YOU HAVE ''" and post = "''?''" and h = "[]" and w = demoWorld]
  have a: "\<exists>a ds b. toUpperCase ''ps11752778 ok'' = a @ ''PS11752778'' @ b
        \<and> ''PS11752778'' = ''PS'' @ ds \<and> 5 \<le> length ds \<and> length ds \<le> 10"
  proof -
    from mp [OF conjunct1 [OF t] PS117_facts(11)] obtain a ds b where
      "toUpperCase ''ps11752778 ok'' = a @ ''PS11752778'' @ b" "''PS11752778'' = ''PS'' @ ds"
      "5 \<le> length ds" "length ds \<le> 10" by (elim exE conjE)
    then show ?thesis by (intro exI conjI)
  qed
  have hyp: "(\<forall>d \<in> set ''117''. isDigit d) \<and> 1 \<le> length ''117'' \<and> length ''117'' \<le> 4
        \<and> toUpperCase ''do you have ps117?'' = ''DO YOU HAVE '' @ ''PS'' @ ''117'' @ ''?''
        \<and> (''DO YOU HAVE '' = [] \<or> \<not> isWordChar (last ''DO YOU HAVE ''))
        \<and> (''?'' = [] \<or> \<not> isWordChar (hd ''?''))"
    using PS117_facts(1-4) by simp
  have noP: "\<forall>c \<in> set ''DO YOU HAVE ''. c \<noteq> CHR ''P''" by (rule PS117_facts)
  note C = mp [OF conjunct1 [OF conjunct2 [OF u]] hyp]
  note b = mp [OF conjunct1 [OF conjunct2 [OF C]] noP]
  note c = conjunct1 [OF conjunct2 [OF conjunct2 [OF C]]]
  note rep = conjunct1 [OF conjunct2 [OF conjunct2 [OF conjunct2 [OF conjunct2 [OF C]]]]]
  note gate = conjunct2 [OF conjunct2 [OF conjunct2 [OF conjunct2 [OF conjunct2 [OF C]]]]]
  note g = mp [OF gate PS117_facts(7)]
  from mp [OF rep conjI [OF PS117_facts(6) g]] obtain sd' where
    same: "(\<forall>c \<in> set ''DO YOU HAVE ''. c \<noteq> CHR ''P'') \<longrightarrow> sd' = ''117''"
    and r: "reply (handleChatTurn demoWorld ''do you have ps117?'' []) =
                      ''What'' @ rsquo @ ''s the full PartSelect part number (starts with PS'' @ hellip @ '')?''
                      @ nl @ nl @ ''I saw '' @ dquote @ ''PS'' @ sd' @ dquote @ '' '' @ mdash
                      @ '' part numbers usually look like PS + 5'' @ ndash @ ''10 digits.''"
    by (elim exE conjE)
  from mp [OF same noP] have sd': "sd' = ''117''" .
  have e: "reply (handleChatTurn demoWorld ''do you have ps117?'' []) =
                      ''What'' @ rsquo @ ''s the full PartSelect part number (starts with PS'' @ hellip @ '')?''
                      @ nl @ nl @ ''I saw '' @ dquote @ ''PS117'' @ dquote @ '' '' @ mdash
                      @ '' part numbers usually look like PS + 5'' @ ndash @ ''10 digits.''"
    using r unfolding sd' by simp
  from b c have bc: "extractShortPartToken ''do you have ps117?'' = Some ''PS117''"
    "extractPartNumber ''do you have ps117?'' \<noteq> Some ''PS117''" by simp_all
  from a bc e show ?thesis by (intro conjI)
qed

lemma longSToken_facts:
  "toUpperCase longSToken = ''PS1''"
  "extractShortPartToken longSToken = Some ''PS1''"
  "extractPartNumberFromLinkOrText longSToken = None"
  "domainAllowed longSToken (resolveTurn longSToken []) = False"
  by code_simp+

text \<open>
  C6, as stated, fails on a message that holds the short token only after upper-casing:
  \<^verbatim>\<open>toUpperCase\<close> maps U+017F to S, so \<open>longSToken\<close> carries the token PS1 and no full
  part number, but its lower-cased text does not contain "ps" and the domain filter,
  which runs first, answers with the redirect.
\<close>

theorem long_s_token_is_redirected:
  "extractShortPartToken longSToken = Some ''PS1''
   \<and> extractPartNumberFromLinkOrText longSToken = None
   \<and> reply (handleChatTurn demoWorld longSToken []) = replyOutOfDomain
   \<and> replyOutOfDomain \<noteq> replyAskForFullPart (Some ''PS1'')"
  by (simp add: longSToken_facts handleChatTurn_def Let_def respond_def)
     (simp add: replyOutOfDomain_def replyAskForFullPart_def)

section \<open>Repeating a turn\<close>

text \<open>Two calls with the same message and history are two evaluations of
  \<open>handleChatTurn\<close> in worlds with the same data tables; the draw of \<^verbatim>\<open>Math.random\<close>
  and the classifier's answer may differ between them.\<close>

lemma human_email_facts:
  "wantsHuman ''human? me@x.io'' = True"
  "extractShortPartToken ''human? me@x.io'' = None"
  "extractPartNumberFromLinkOrText ''human? me@x.io'' = None"
  "extractEmail ''human? me@x.io'' = Some ''me@x.io''"
  by code_simp+

lemma human_email_ticket:
  "reply (handleChatTurn w ''human? me@x.io'' []) =
     ''Got it '' @ mdash @ '' I opened a support ticket for human follow-up (demo).'' @ nl
     @ ''Ticket: TCK-'' @ showNat (100000 + ticketDraw w) @ nl @ nl
     @ ''While you wait, tell me what you want to solve (compatibility, install, or the symptom) and I can keep helping.''"
proof -
  let ?m = "''human? me@x.io''"
  have t: "t_hasIncompletePart (resolveTurn ?m []) = False"
    by (simp add: resolveTurn_def Let_def resolveEntities_def human_email_facts)
  have al: "domainAllowed ?m (resolveTurn ?m [])"
    by (simp add: domainAllowed_def Let_def human_email_facts)
  show ?thesis
    using al
    by (simp add: handleChatTurn_def Let_def t human_email_facts present_def orEmpty_def
        respond_def createSupportTicketDemo_def)
qed

lemma two_draws: "showNat 100001 = ''100001''" "showNat 100002 = ''100002''"
  by (simp_all add: showNat.simps)

text \<open>
  C7, as stated, fails on the hand-off path: with the message \<^verbatim>\<open>human? me@x.io\<close> and an
  empty history a ticket is opened, and two calls whose draws are 1 and 2 answer with the
  ticket ids TCK-100001 and TCK-100002.
\<close>

theorem ticket_id_not_repeatable:
  "reply (handleChatTurn (demoWorld\<lparr>ticketDraw := 1\<rparr>) ''human? me@x.io'' [])
     \<noteq> reply (handleChatTurn (demoWorld\<lparr>ticketDraw := 2\<rparr>) ''human? me@x.io'' [])"
  by (simp add: human_email_ticket two_draws)

text \<open>
  C7, amended. Two calls with the same message and history, over the same data tables,
  give the same reply, meta and cards whenever the message holds no email address (so no
  ticket is opened) or the ticket draw is the same, and, when the history asks for the
  pump sound and the local parser does not understand the message, the classifier gives
  the same answer to both calls.
\<close>

theorem handleChatTurn_repeatable:
  assumes "partsTable w1 = partsTable w2" and "compatTable w1 = compatTable w2"
    and "guidesTable w1 = guidesTable w2"
    and "extractEmail m = None \<or> ticketDraw w1 = ticketDraw w2"
    and "inferDialogState h = Some Pump_sound \<and> parsePumpSound m = Unknown_sound
           \<longrightarrow> groqParsePumpSound (groqWorld w1) m = groqParsePumpSound (groqWorld w2) m"
  shows "handleChatTurn w1 m h = handleChatTurn w2 m h"
  using assms(1-4)
proof (rule handleChatTurn_world)
  show "t_awaiting (resolveTurn m h) = Some Pump_sound \<and> \<not> isClearIntentShift m
           \<and> parsePumpSound m = Unknown_sound
           \<longrightarrow> groqParsePumpSound (groqWorld w1) m = groqParsePumpSound (groqWorld w2) m"
    using assms(5) awaiting_from_history by blast
qed

theorem handleChatTurn_repeatable_witness:
  "handleChatTurn demoWorld ''it hums'' pumpTurn
     = handleChatTurn (demoWorld\<lparr>groqWorld := shoutingClassifier, ticketDraw := 7\<rparr>) ''it hums'' pumpTurn"
  using handleChatTurn_repeatable [of demoWorld "demoWorld\<lparr>groqWorld := shoutingClassifier, ticketDraw := 7\<rparr>"
      "''it hums''" pumpTurn]
  by (simp add: hums_facts)

section \<open>Domain gate\<close>

lemma weather_facts:
  "inferIntent ''what's the weather today'' = Unknown_intent"
  "extractShortPartToken ''what's the weather today'' = None"
  "extractPartNumberFromLinkOrText ''what's the weather today'' = None"
  "extractModelNumber ''what's the weather today'' = None"
  "extractOrderId ''what's the weather today'' = None"
  "extractZip ''what's the weather today'' = None"
  "parseYesNo ''what's the weather today'' = None"
  "looksLikeSmallTalk ''what's the weather today'' = False"
  "looksLikeAck ''what's the weather today'' = False"
  "wantsHuman ''what's the weather today'' = False"
  "wantsReturnRefundShipping ''what's the weather today'' = False"
  "looksLikeUrl ''what's the weather today'' = False"
  "isInstallQuickReply ''what's the weather today'' = False"
  "norm ''what's the weather today'' = ''what's the weather today''"
  "toLowerCase ''what's the weather today'' = ''what's the weather today''"
  by code_simp+

lemma drain_facts:
  "inferIntent ''my dishwasher won't drain'' = Troubleshooting"
  "inferApplianceFromText ''my dishwasher won't drain'' = Dishwasher"
  "extractShortPartToken ''my dishwasher won't drain'' = None"
  "extractPartNumberFromLinkOrText ''my dishwasher won't drain'' = None"
  "extractModelNumber ''my dishwasher won't drain'' = None"
  "extractEmail ''my dishwasher won't drain'' = None"
  "isClearIntentShift ''my dishwasher won't drain'' = True"
  "looksLikeSmallTalk ''my dishwasher won't drain'' = False"
  "looksLikeAck ''my dishwasher won't drain'' = False"
  "wantsHuman ''my dishwasher won't drain'' = False"
  "str_includes (toLowerCase ''my dishwasher won't drain'') ''dishwasher'' = True"
  by code_simp+

lemma weather_redirect:
  assumes "inferDialogState h = None" and "findLastPartNumber h = None"
    and "findLastModelNumberForAppliance h (inferPinnedAppliance ''what's the weather today'' h) = None"
  shows "handleChatTurn w ''what's the weather today'' h =
     respond (''I'' @ rsquo @ ''m focused on PartSelect refrigerator and dishwasher parts (compatibility, install, troubleshooting, basic order support).'' @ nl
              @ ''If you share a PS part number or model number, I can help from there.'')
       ((t_metaBase (resolveTurn ''what's the weather today'' h))\<lparr>inDomain := False, intent := Unknown_intent\<rparr>)"
proof -
  have t: "t_awaiting (resolveTurn ''what's the weather today'' h) = None"
    "t_partNumber (resolveTurn ''what's the weather today'' h) = None"
    "t_modelNumber (resolveTurn ''what's the weather today'' h) = None"
    using assms
    by (simp_all add: resolveTurn_def Let_def resolveEntities_def weather_facts shouldClearAwaiting_None)
  have "\<not> domainAllowed ''what's the weather today'' (resolveTurn ''what's the weather today'' h)"
    by (simp add: domainAllowed_def Let_def t weather_facts)
  then show ?thesis
    by (simp add: handleChatTurn_def Let_def replyOutOfDomain_def)
qed

lemma drain_troubleshooting:
  assumes "inferDialogState h = None"
  shows "handleChatTurn w ''my dishwasher won't drain'' h =
     respond (troubleshootDishwasher (t_modelNumber (resolveTurn ''my dishwasher won't drain'' h))
                (t_repeats (resolveTurn ''my dishwasher won't drain'' h) \<ge> 1))
       ((t_metaBase (resolveTurn ''my dishwasher won't drain'' h))\<lparr>intent := Troubleshooting\<rparr>)"
proof -
  let ?m = "''my dishwasher won't drain''"
  have t: "t_awaiting (resolveTurn ?m h) = None"
    "t_intent0 (resolveTurn ?m h) = Troubleshooting"
    "t_hasIncompletePart (resolveTurn ?m h) = False"
    "t_appliance (resolveTurn ?m h) = Dishwasher"
    using assms
    by (simp_all add: resolveTurn_def Let_def resolveEntities_def drain_facts shouldClearAwaiting_None
        stickInstall_def stickTroubleshoot_def stickOrder_def partAndModel_def inferPinnedAppliance_def)
  have al: "domainAllowed ?m (resolveTurn ?m h)"
    by (simp add: domainAllowed_def Let_def drain_facts)
  show ?thesis
    using al
    by (simp add: handleChatTurn_def Let_def t drain_facts present_def orEmpty_def followUp_def
        routeIntent_def)
qed

text \<open>
  C8, amended. When the history leaves no slot open and carries no part number and no
  model number over to the turn, the message \<^verbatim>\<open>what's the weather today\<close> gets the
  redirect reply with \<^verbatim>\<open>inDomain\<close> false and intent unknown. When the history leaves no
  slot open, the message \<^verbatim>\<open>my dishwasher won't drain\<close> gets a reply with \<^verbatim>\<open>inDomain\<close>
  true and intent troubleshooting.
\<close>

theorem domain_gate:
  assumes "inferDialogState h = None"
  shows "(findLastPartNumber h = None
          \<and> findLastModelNumberForAppliance h (inferPinnedAppliance ''what's the weather today'' h) = None
          \<longrightarrow> reply (handleChatTurn w ''what's the weather today'' h)
                = ''I'' @ rsquo @ ''m focused on PartSelect refrigerator and dishwasher parts (compatibility, install, troubleshooting, basic order support).'' @ nl
                  @ ''If you share a PS part number or model number, I can help from there.''
              \<and> inDomain (meta (handleChatTurn w ''what's the weather today'' h)) = False
              \<and> intent (meta (handleChatTurn w ''what's the weather today'' h)) = Unknown_intent)
       \<and> inDomain (meta (handleChatTurn w ''my dishwasher won't drain'' h)) = True
       \<and> intent (meta (handleChatTurn w ''my dishwasher won't drain'' h)) = Troubleshooting"
  using weather_redirect [OF assms, of w] drain_troubleshooting [OF assms, of w]
  by (simp add: respond_def metaBase_fields)

theorem domain_gate_witness:
  "inDomain (meta (handleChatTurn demoWorld ''what's the weather today'' [])) = False
   \<and> intent (meta (handleChatTurn demoWorld ''what's the weather today'' [])) = Unknown_intent
   \<and> inDomain (meta (handleChatTurn demoWorld ''my dishwasher won't drain'' [])) = True
   \<and> intent (meta (handleChatTurn demoWorld ''my dishwasher won't drain'' [])) = Troubleshooting"
proof -
  have "inferDialogState [] = None" "findLastPartNumber [] = None"
    "findLastModelNumberForAppliance [] ap = None" for ap
    by (simp_all add: inferDialogState_def lastAssistant_def findLastPartNumber_def
        findLastModelNumberForAppliance_def)
  then show ?thesis
    using domain_gate [of "[]" demoWorld] by simp
qed

lemma partThenWeather_facts:
  "inferDialogState partThenWeather = None"
  "findLastPartNumber partThenWeather = Some ''PS11752778''"
  "handoffPending partThenWeather = False"
  by (code_simp)+

lemma weather_isClearIntentShift: "isClearIntentShift ''what's the weather today'' = False"
  "extractEmail ''what's the weather today'' = None"
  by code_simp+

text \<open>
  C8, as stated, fails when the history carries a part number over: after the user turn
  "PS11752778" no slot is open, and the weather message passes the domain filter, which
  lets every turn with a resolved part or model number through; the reply is the home
  reply with \<^verbatim>\<open>inDomain\<close> true.
\<close>

theorem weather_after_part_number:
  "inferDialogState partThenWeather = None
   \<and> inDomain (meta (handleChatTurn demoWorld ''what's the weather today'' partThenWeather)) = True
   \<and> reply (handleChatTurn demoWorld ''what's the weather today'' partThenWeather) = replyHome"
proof -
  let ?m = "''what's the weather today''"
  have t: "t_awaiting (resolveTurn ?m partThenWeather) = None"
    "t_partNumber (resolveTurn ?m partThenWeather) = Some ''PS11752778''"
    "t_hasIncompletePart (resolveTurn ?m partThenWeather) = False"
    "t_intent0 (resolveTurn ?m partThenWeather) = Unknown_intent"
    by (simp_all add: resolveTurn_def Let_def resolveEntities_def weather_facts partThenWeather_facts
        shouldClearAwaiting_None stickInstall_def stickTroubleshoot_def stickOrder_def partAndModel_def)
  have al: "domainAllowed ?m (resolveTurn ?m partThenWeather)"
    by (simp add: domainAllowed_def Let_def t present_def orEmpty_def)
  have "handleChatTurn demoWorld ?m partThenWeather
          = respond replyHome (t_metaBase (resolveTurn ?m partThenWeather))"
    using al
    by (simp add: handleChatTurn_def Let_def t weather_facts weather_isClearIntentShift
        partThenWeather_facts present_def orEmpty_def followUp_def routeIntent_def)
  then show ?thesis
    by (simp add: respond_def metaBase_fields partThenWeather_facts)
qed

section \<open>Classifier fallback\<close>


















section \<open>The URL fallback\<close>

text \<open>No word-bounded part number where PS is followed by eleven or more digits and neither
  the text before nor the text after, upper-cased, holds PS followed by five digits.\<close>

lemma long_run_not_direct:
  assumes "toUpperChar x = CHR ''P''" and "toUpperChar y = CHR ''S''"
    and "\<forall>d \<in> set ds. isDigit d" and "11 \<le> length ds"
    and "\<not> holdsPsDigits (toUpperCase pre)" and "\<not> holdsPsDigits (toUpperCase post)"
  shows "extractPartNumber (pre @ [x, y] @ ds @ post) = None"
proof -
  let ?r = "rx_seqs [rx_wordb, rx_lit ''PS'', rx_rep isDigit 5 (Some 10), rx_wordb]"
  let ?pv = "if toUpperCase pre = [] then None else Some (last (toUpperCase pre))"
  have up: "toUpperCase (pre @ [x, y] @ ds @ post)
      = toUpperCase pre @ CHR ''P'' # (''S'' @ ds @ toUpperCase post)"
    using upper_PS_run [OF assms(1,2,3), of pre post] by simp
  have nomid: "\<forall>c \<in> set (''S'' @ ds). \<not> (c = CHR ''P'')"
    using assms(3) digit_not_P by auto
  have here: "?r (?pv, ''PS'' @ ds @ toUpperCase post, []) = []"
    using assms(3,4) by (intro PS_token_long_run) simp_all
  have f1: "\<not> (c = CHR ''P'') \<Longrightarrow> ?r (p, c # cs, []) = []" for p c cs
    by (rule PS_token_needs_P) simp
  have "rx_search ?r None (toUpperCase (pre @ [x, y] @ ds @ post))
      = rx_search ?r None (toUpperCase pre @ CHR ''P'' # (''S'' @ ds @ toUpperCase post))"
    by (simp only: up)
  also have "\<dots> = rx_search ?r ?pv (CHR ''P'' # (''S'' @ ds @ toUpperCase post))"
    by (rule PS_token_skip [OF assms(5)])
  also have "\<dots> = rx_search ?r (Some CHR ''P'') ((''S'' @ ds) @ toUpperCase post)"
    using here by simp
  also have "\<dots> = rx_search ?r (if ''S'' @ ds = [] then Some CHR ''P'' else Some (last (''S'' @ ds)))
                      (toUpperCase post)"
    by (rule rx_search_skip [where F = "\<lambda>c. c = CHR ''P''" and r = ?r, OF f1 nomid])
  also have "\<dots> = None"
    by (rule PS_token_nowhere [OF assms(6)])
  finally show ?thesis
    by (simp only: extractPartNumber_def rx_match_def PS_FULL_RE_def option.map)
qed

lemma long_run_truncated:
  assumes "toUpperChar x = CHR ''P''" and "toUpperChar y = CHR ''S''"
    and "\<forall>d \<in> set ds. isDigit d" and "11 \<le> length ds"
    and "\<not> holdsPsDigits (toUpperCase pre)" and "\<not> holdsPsDigits (toUpperCase post)"
  shows "extractPartNumberFromLinkOrText (pre @ [x, y] @ ds @ post) = Some (''PS'' @ take 10 ds)"
proof -
  let ?pv = "if pre = [] then None else Some (last pre)"
  have direct: "extractPartNumber (pre @ [x, y] @ ds @ post) = None"
    using assms by (rule long_run_not_direct)
  have ten: "10 \<le> length ds" using assms(4) by simp
  from PS_IN_URL_RE_head [OF assms(1,2,3) ten, of ?pv post] obtain p' xs where
    h: "PS_IN_URL_RE (?pv, [x, y] @ ds @ post, []) = (p', drop 10 ds @ post, [[x, y] @ take 10 ds]) # xs"
    by blast
  have "rx_search PS_IN_URL_RE None (pre @ x # (y # ds @ post))
      = rx_search PS_IN_URL_RE ?pv (x # (y # ds @ post))"
    by (rule PS_IN_URL_skip [OF assms(5) assms(1)])
  then have "rx_search PS_IN_URL_RE None (pre @ [x, y] @ ds @ post)
      = rx_search PS_IN_URL_RE ?pv ([x, y] @ ds @ post)" by simp
  also have "\<dots> = Some \<lparr>matched = take (length ([x, y] @ ds @ post) - length (drop 10 ds @ post)) ([x, y] @ ds @ post),
                          groups = [[x, y] @ take 10 ds]\<rparr>"
    using h by (rule rx_search_head)
  finally have m: "rx_match PS_IN_URL_RE (pre @ [x, y] @ ds @ post)
      = Some \<lparr>matched = take (length ([x, y] @ ds @ post) - length (drop 10 ds @ post)) ([x, y] @ ds @ post),
              groups = [[x, y] @ take 10 ds]\<rparr>"
    by (simp only: rx_match_def)
  have d10: "\<forall>c \<in> set (take 10 ds). isDigit c" using assms(3) by (meson in_set_takeD)
  have "toUpperCase ([] @ (x # y # take 10 ds) @ []) = toUpperCase [] @ ''PS'' @ take 10 ds @ toUpperCase []"
    by (rule upper_PS_run [OF assms(1,2) d10])
  then have "toUpperCase ([x, y] @ take 10 ds) = ''PS'' @ take 10 ds" by simp
  then show ?thesis
    using direct m by (simp add: extractPartNumberFromLinkOrText_def)
qed

text \<open>
  C10, as stated, fails: a text can hold PS followed by twelve digits and a complete
  part number as well; then \<open>extractPartNumber\<close> returns that part number, and so does
  \<open>extractPartNumberFromLinkOrText\<close>, not the first ten digits of the long run.
\<close>

lemma url_fallback_example:
  "str_includes ''PS12345 PS123456789012'' ''PS123456789012''"
  "extractPartNumber ''PS12345 PS123456789012'' = Some ''PS12345''"
  "extractPartNumberFromLinkOrText ''PS12345 PS123456789012'' = Some ''PS12345''"
  by code_simp+

theorem url_fallback_counterexample:
  "str_includes ''PS12345 PS123456789012'' ''PS123456789012''
   \<and> extractPartNumber ''PS12345 PS123456789012'' \<noteq> None
   \<and> extractPartNumberFromLinkOrText ''PS12345 PS123456789012'' \<noteq> Some ''PS1234567890''"
  by (simp add: url_fallback_example)

text \<open>
  C10, amended. Let PS, in any case, be followed by a run of eleven or more digits, in a
  text that holds no other part number: neither the text before the run nor the text
  after it, upper-cased, holds PS followed by five digits. Then \<open>extractPartNumber\<close>
  returns nothing, \<open>extractPartNumberFromLinkOrText\<close> returns PS and the first ten digits
  of the run, and that value counts as an explicit part number: the message is a clear
  intent shift, and the part-lookup handler looks the truncated number up (its reply names
  it when the catalog has no such part).
\<close>

theorem url_fallback_truncates:
  assumes "toUpperChar x = CHR ''P''" and "toUpperChar y = CHR ''S''"
    and "\<forall>d \<in> set ds. isDigit d" and "11 \<le> length ds"
    and "\<not> holdsPsDigits (toUpperCase pre)" and "\<not> holdsPsDigits (toUpperCase post)"
  shows "extractPartNumber (pre @ [x, y] @ ds @ post) = None
       \<and> extractPartNumberFromLinkOrText (pre @ [x, y] @ ds @ post) = Some (''PS'' @ take 10 ds)
       \<and> isClearIntentShift (pre @ [x, y] @ ds @ post)
       \<and> toolsUsed (meta (routeIntent w (pre @ [x, y] @ ds @ post) t Part_lookup)) = [''toolLookupPart'']
       \<and> (lookup_part (toolLookupPart (partsTable w) (''PS'' @ take 10 ds)) = None \<longrightarrow>
            reply (routeIntent w (pre @ [x, y] @ ds @ post) t Part_lookup)
              = ''I can'' @ rsquo @ ''t find '' @ ''PS'' @ take 10 ds
                @ '' in the demo catalog. If you paste the PartSelect link, I can still help with install/troubleshooting.'')"
proof -
  let ?t = "pre @ [x, y] @ ds @ post"
  have d: "extractPartNumber ?t = None"
    using assms by (rule long_run_not_direct)
  have u: "extractPartNumberFromLinkOrText ?t = Some (''PS'' @ take 10 ds)"
    using assms by (rule long_run_truncated)
  have c: "isClearIntentShift ?t"
    using u by (simp add: isClearIntentShift_def)
  have tu: "toolsUsed (meta (routeIntent w ?t t Part_lookup)) = [''toolLookupPart'']"
    using u by (simp add: routeIntent_def Let_def respond_def split: option.splits)
  have "lookup_part (toolLookupPart (partsTable w) (''PS'' @ take 10 ds)) = None \<longrightarrow>
            reply (routeIntent w ?t t Part_lookup)
              = ''I can'' @ rsquo @ ''t find '' @ ''PS'' @ take 10 ds
                @ '' in the demo catalog. If you paste the PartSelect link, I can still help with install/troubleshooting.''"
    using u by (simp add: routeIntent_def Let_def respond_def)
  with d u c tu show ?thesis by blast
qed

lemma long_token_facts:
  "\<forall>d \<in> set ''123456789012''. isDigit d" "toUpperChar CHR ''P'' = CHR ''P''"
  "toUpperChar CHR ''S'' = CHR ''S''"
  "\<not> holdsPsDigits (toUpperCase ''please check '')" "\<not> holdsPsDigits (toUpperCase ''.'')"
  "\<not> holdsPsDigits (toUpperCase ''https://www.partselect.com/'')"
  "\<not> holdsPsDigits (toUpperCase ''-Drain-Pump.htm'')"
  by code_simp+

theorem url_fallback_truncates_witness:
  "extractPartNumber ''please check PS123456789012.'' = None
   \<and> extractPartNumberFromLinkOrText ''please check PS123456789012.'' = Some ''PS1234567890''
   \<and> isClearIntentShift ''please check PS123456789012.''
   \<and> reply (routeIntent demoWorld ''please check PS123456789012.''
              (resolveTurn ''please check PS123456789012.'' []) Part_lookup)
        = ''I can'' @ rsquo @ ''t find PS1234567890''
          @ '' in the demo catalog. If you paste the PartSelect link, I can still help with install/troubleshooting.''
   \<and> extractPartNumber ''https://www.partselect.com/PS123456789012-Drain-Pump.htm'' = None
   \<and> extractPartNumberFromLinkOrText ''https://www.partselect.com/PS123456789012-Drain-Pump.htm''
        = Some ''PS1234567890''"
proof -
  have "lookup_part (toolLookupPart (partsTable demoWorld) ''PS1234567890'') = None"
    by (simp add: toolLookupPart_def demoWorld_def loadParts_def Let_def)
  then show ?thesis
    using url_fallback_truncates [of "CHR ''P''" "CHR ''S''" "''123456789012''" "''please check ''" "''.''"
        demoWorld "resolveTurn ''please check PS123456789012.'' []"]
      url_fallback_truncates [of "CHR ''P''" "CHR ''S''" "''123456789012''"
        "''https://www.partselect.com/''" "''-Drain-Pump.htm''"]
    by (simp add: long_token_facts)
qed

end
